theory Spec2Isabelle
  imports Main
begin

section \<open>JavaScript values, exceptions and calls to collaborators\<close>

text \<open>
  Sessions, users, token payloads and profiles are generic in the source
  (\<^verbatim>\<open>TUser\<close>, \<^verbatim>\<open>TSession\<close>, \<^verbatim>\<open>TRefresh\<close>): any JavaScript value may stand there, and the
  code tests them for truthiness. A number is an integer or \<^verbatim>\<open>NaN\<close> (fractions and the
  infinities are left out, \<^verbatim>\<open>-0\<close> is \<^verbatim>\<open>0\<close>), a BigInt is an integer of its own kind; an
  object is its list of own properties in insertion order.
\<close>

datatype jsval =
    JUndefined
  | JNull
  | JBool bool
  | JNum int
  | JNaN
  | JBigInt int
  | JStr string
  | JObj "(string \<times> jsval) list"

text \<open>
  What \<^verbatim>\<open>if (v)\<close> and \<^verbatim>\<open>!v\<close> test. The falsy values are \<^verbatim>\<open>undefined\<close>, \<^verbatim>\<open>null\<close>,
  \<^verbatim>\<open>false\<close>, \<^verbatim>\<open>0\<close>, \<^verbatim>\<open>NaN\<close>, \<^verbatim>\<open>0n\<close> and the empty string.
\<close>

fun truthy :: "jsval \<Rightarrow> bool" where
  "truthy JUndefined = False"
| "truthy JNull = False"
| "truthy (JBool b) = b"
| "truthy (JNum n) = (n \<noteq> 0)"
| "truthy JNaN = False"
| "truthy (JBigInt n) = (n \<noteq> 0)"
| "truthy (JStr s) = (s \<noteq> [])"
| "truthy (JObj ps) = True"

text \<open>What \<^verbatim>\<open>v ?? d\<close> and \<^verbatim>\<open>v == null\<close> test.\<close>

fun nullish :: "jsval \<Rightarrow> bool" where
  "nullish JUndefined = True"
| "nullish JNull = True"
| "nullish v = False"

text \<open>
  The value of a cookie or of an optional string: \<^verbatim>\<open>undefined\<close> is \<open>None\<close>. The empty
  string is falsy like \<^verbatim>\<open>undefined\<close>.
\<close>

fun truthy_str :: "string option \<Rightarrow> bool" where
  "truthy_str None = False"
| "truthy_str (Some s) = (s \<noteq> [])"

text \<open>
  A thrown exception or a rejected promise. \<open>Thrown\<close> is an error raised by a
  collaborator (the JWT library, the OAuth client library, an application callback).
\<close>

datatype error =
    TypeError string
  | Error "string option"
  | Thrown string

text \<open>
  The calls a request makes to its collaborators, in the order they are made. A claim that
  some call is or is not made is a claim about this list.
\<close>

datatype event =
    CallDecode "string option"
  | CallEncode jsval int
  | CallCreateSession jsval
  | CallRefreshSession jsval
  | CallInvalidateSession jsval jsval
  | CallDiscovery string
  | CallStateCreate
  | CallPkceCreate
  | CallNonceCreate
  | CallStateUse
  | CallPkceUse
  | CallNonceUse
  | CallValidateAuthResponse
  | CallTokenExchange
  | CallConform
  | CallProcessResponse
  | CallUserinfoRequest
  | CallUserInfo
  | CallProfile
  | CallOnAuth

text \<open>
  An \<^verbatim>\<open>async\<close> function body that does not change the object it is called on: the calls
  it made, and the exception it threw (\<open>Inl\<close>) or the value it returned (\<open>Inr\<close>).
\<close>

type_synonym 'a comp = "event list \<times> (error + 'a)"

definition ret :: "'a \<Rightarrow> 'a comp" where
  "ret x = ([], Inr x)"

definition throw :: "error \<Rightarrow> 'a comp" where
  "throw e = ([], Inl e)"

definition call :: "event \<Rightarrow> (error + 'a) \<Rightarrow> 'a comp" where
  "call ev r = ([ev], r)"

definition bind :: "'a comp \<Rightarrow> ('a \<Rightarrow> 'b comp) \<Rightarrow> 'b comp" where
  "bind m f =
     (case m of
        (t, Inl e) \<Rightarrow> (t, Inl e)
      | (t, Inr x) \<Rightarrow> (case f x of (t', r) \<Rightarrow> (t @ t', r)))"

definition calls :: "'a comp \<Rightarrow> event list" where
  "calls m = fst m"

definition outcome :: "'a comp \<Rightarrow> error + 'a" where
  "outcome m = snd m"

section \<open>Cookies, requests and responses\<close>

text \<open>\<^verbatim>\<open>CookieSerializeOptions\<close> of the \<^verbatim>\<open>cookie\<close> package, the attributes the repository sets.\<close>

record serialize_options =
  opt_path :: "string option"
  opt_domain :: "string option"
  opt_maxAge :: "int option"
  opt_secure :: "bool option"
  opt_httpOnly :: "bool option"
  opt_sameSite :: "string option"

text \<open>\<^verbatim>\<open>interface Cookie { name; value; options? }\<close>\<close>

record cookie =
  cookie_name :: string
  cookie_value :: string
  cookie_options :: "serialize_options option"

text \<open>One entry of \<^verbatim>\<open>CookiesOptions\<close>: the name and attributes of a cookie the library sets.\<close>

record cookie_option =
  co_name :: string
  co_options :: serialize_options

text \<open>
  \<^verbatim>\<open>InternalResponse\<close>: every field is optional. \<open>resp_cookies = None\<close> is a response without
  a \<^verbatim>\<open>cookies\<close> property; \<open>resp_user = JUndefined\<close> one without a \<^verbatim>\<open>user\<close>.
\<close>

record internal_response =
  resp_status :: "int option"
  resp_headers :: "(string \<times> string) list option"
  resp_body :: "jsval option"
  resp_redirect :: "string option"
  resp_cookies :: "cookie list option"
  resp_user :: jsval
  resp_session :: jsval

text \<open>The object literal \<^verbatim>\<open>{}\<close>.\<close>

definition empty_response :: internal_response where
  "empty_response =
     \<lparr> resp_status = None, resp_headers = None, resp_body = None, resp_redirect = None,
       resp_cookies = None, resp_user = JUndefined, resp_session = JUndefined \<rparr>"

text \<open>
  \<^verbatim>\<open>response.cookies ??= []; response.cookies.push(...cs)\<close>: the list the response has,
  or a new empty one, with \<open>cs\<close> at its end.
\<close>

definition push_cookies :: "internal_response \<Rightarrow> cookie list \<Rightarrow> internal_response" where
  "push_cookies response cs =
     response\<lparr> resp_cookies :=
       Some ((case resp_cookies response of None \<Rightarrow> [] | Some old \<Rightarrow> old) @ cs) \<rparr>"

text \<open>
  A WHATWG \<^verbatim>\<open>URL\<close>: its origin, its serialisation up to the query, and its
  \<^verbatim>\<open>searchParams\<close> as the ordered list of name/value pairs.
\<close>

record url =
  url_origin :: string
  url_base :: string
  searchParams :: "(string \<times> string) list"

text \<open>\<^verbatim>\<open>InternalRequest\<close>: the parsed URL and the cookie map of the request.\<close>

record internal_request =
  req_url :: url
  req_cookies :: "string \<rightharpoonup> string"

text \<open>
  The Fetch \<^verbatim>\<open>Request\<close> that \<^verbatim>\<open>getUser\<close> and \<^verbatim>\<open>logout\<close> receive: only its
  \<^verbatim>\<open>cookie\<close> header is read.
\<close>

record fetch_request =
  header_cookie :: "string option"

section \<open>Token codec (\<^verbatim>\<open>security/jwt\<close>)\<close>

text \<open>
  The JWT library (\<^verbatim>\<open>jose\<close>) and the key derivation (\<^verbatim>\<open>@panva/hkdf\<close>) are outside the
  repository. Each is a function that resolves (\<open>Inr\<close>) or rejects (\<open>Inl\<close>);
  \<open>jwtDecrypt\<close> stands for \<^verbatim>\<open>(await jwtDecrypt(token, key, ...)).payload\<close> and
  \<open>encryptJWT\<close> for the \<^verbatim>\<open>EncryptJWT\<close> builder chain, given the payload, the expiration
  time and the key.
\<close>

record jwt_library =
  hkdf :: "string \<Rightarrow> error + string"
  jwtDecrypt :: "string \<Rightarrow> string \<Rightarrow> error + jsval"
  encryptJWT :: "jsval \<Rightarrow> int \<Rightarrow> string \<Rightarrow> error + string"
  now :: int

record jwt_encode_params =
  enc_token :: jsval
  enc_secret :: string
  enc_maxAge :: "int option"

record jwt_decode_params =
  dec_token :: "string option"
  dec_secret :: string

definition DEFAULT_MAX_AGE :: int where
  "DEFAULT_MAX_AGE = 30 * 24 * 60 * 60"

definition getDerivedEncryptionKey :: "jwt_library \<Rightarrow> string \<Rightarrow> error + string" where
  "getDerivedEncryptionKey lib secret = hkdf lib secret"

text \<open>\<^verbatim>\<open>encode\<close>: the defaults \<^verbatim>\<open>token = {}\<close> and \<^verbatim>\<open>maxAge = DEFAULT_MAX_AGE\<close> apply to \<^verbatim>\<open>undefined\<close>.\<close>

definition encode :: "jwt_library \<Rightarrow> jwt_encode_params \<Rightarrow> error + string" where
  "encode lib params =
     (let token = (if enc_token params = JUndefined then JObj [] else enc_token params);
          secret = enc_secret params;
          maxAge = (case enc_maxAge params of None \<Rightarrow> DEFAULT_MAX_AGE | Some a \<Rightarrow> a)
      in case getDerivedEncryptionKey lib secret of
           Inl e \<Rightarrow> Inl e
         | Inr encryptionSecret \<Rightarrow> encryptJWT lib token (now lib + maxAge) encryptionSecret)"

text \<open>
  \<^verbatim>\<open>decode\<close>: \<^verbatim>\<open>null\<close> for a missing token; otherwise the payload \<^verbatim>\<open>jwtDecrypt\<close> resolves
  with. There is no \<^verbatim>\<open>try\<close>: a rejection of the key derivation or of \<^verbatim>\<open>jwtDecrypt\<close> is
  the rejection of \<^verbatim>\<open>decode\<close>.
\<close>

definition decode :: "jwt_library \<Rightarrow> jwt_decode_params \<Rightarrow> error + jsval" where
  "decode lib params =
     (let token = dec_token params; secret = dec_secret params
      in case token of
           None \<Rightarrow> Inr JNull
         | Some tok \<Rightarrow>
             (case getDerivedEncryptionKey lib secret of
                Inl e \<Rightarrow> Inl e
              | Inr encryptionSecret \<Rightarrow> jwtDecrypt lib tok encryptionSecret))"

section \<open>Token session manager\<close>

definition DefaultAccessTokenMaxAge :: int where
  "DefaultAccessTokenMaxAge = 60 * 60"

definition DefaultRefreshTokenMaxAge :: int where
  "DefaultRefreshTokenMaxAge = 60 * 60 * 24 * 7"

text \<open>
  \<^verbatim>\<open>NewSession = { accessToken, refreshToken? } | Nullish\<close>: a nullish session is \<open>None\<close>,
  a missing \<^verbatim>\<open>refreshToken\<close> is \<open>JUndefined\<close>.
\<close>

record new_session =
  accessToken :: jsval
  refreshToken :: jsval

record token_max_age =
  max_accessToken :: int
  max_refreshToken :: int

text \<open>
  \<^verbatim>\<open>CookiesOptions\<close> is declared in \<^verbatim>\<open>security/cookie\<close>, which is not among the sources. The
  session manager reads its \<^verbatim>\<open>accessToken\<close> and \<^verbatim>\<open>refreshToken\<close> entries only.
\<close>

record cookies_options =
  ck_accessToken :: cookie_option
  ck_refreshToken :: cookie_option

text \<open>
  The optional codec of \<^verbatim>\<open>JWTOptions\<close>: what the constructor reads of \<^verbatim>\<open>config.jwt\<close>. (The
  secret in it is replaced by \<^verbatim>\<open>config.secret\<close>.)
\<close>

record jwt_config =
  jwt_encode :: "(jwt_encode_params \<Rightarrow> error + string) option"
  jwt_decode :: "(jwt_decode_params \<Rightarrow> error + jsval) option"

record token_session_config =
  cfg_secret :: string
  cfg_jwt :: "jwt_config option"
  cfg_maxAge_accessToken :: "int option"
  cfg_maxAge_refreshToken :: "int option"
  cfg_useSecureCookies :: "bool option"
  cfg_createSession :: "jsval \<Rightarrow> error + new_session option"
  cfg_refreshSession :: "jsval \<Rightarrow> error + new_session option"
  cfg_onInvalidateSession :: "(jsval \<Rightarrow> jsval \<Rightarrow> error + internal_response option) option"

record token_session_manager =
  secret :: string
  mgr_encode :: "jwt_encode_params \<Rightarrow> error + string"
  mgr_decode :: "jwt_decode_params \<Rightarrow> error + jsval"
  maxAge :: token_max_age
  cookies :: cookies_options
  createSession :: "jsval \<Rightarrow> error + new_session option"
  refreshSession :: "jsval \<Rightarrow> error + new_session option"
  onInvalidateSession :: "(jsval \<Rightarrow> jsval \<Rightarrow> error + internal_response option) option"

text \<open>
  The constructor. \<open>createCookiesOptions\<close> (\<^verbatim>\<open>security/cookie\<close>) is not among the sources
  and is a parameter; \<open>lib\<close> is the JWT library behind the default \<^verbatim>\<open>encode\<close> and
  \<^verbatim>\<open>decode\<close>. The field \<^verbatim>\<open>jwt\<close>, which no method reads, is left out.
\<close>

definition TokenSessionManager ::
  "jwt_library \<Rightarrow> (bool option \<Rightarrow> cookies_options) \<Rightarrow> token_session_config
     \<Rightarrow> token_session_manager" where
  "TokenSessionManager lib createCookiesOptions config =
     \<lparr> secret = cfg_secret config,
       mgr_encode =
         (case cfg_jwt config of
            None \<Rightarrow> encode lib
          | Some j \<Rightarrow> (case jwt_encode j of None \<Rightarrow> encode lib | Some f \<Rightarrow> f)),
       mgr_decode =
         (case cfg_jwt config of
            None \<Rightarrow> decode lib
          | Some j \<Rightarrow> (case jwt_decode j of None \<Rightarrow> decode lib | Some f \<Rightarrow> f)),
       maxAge =
         \<lparr> max_accessToken =
             (case cfg_maxAge_accessToken config of
                None \<Rightarrow> DefaultAccessTokenMaxAge | Some a \<Rightarrow> a),
           max_refreshToken =
             (case cfg_maxAge_refreshToken config of
                None \<Rightarrow> DefaultRefreshTokenMaxAge | Some a \<Rightarrow> a) \<rparr>,
       cookies = createCookiesOptions (cfg_useSecureCookies config),
       createSession = cfg_createSession config,
       refreshSession = cfg_refreshSession config,
       onInvalidateSession = cfg_onInvalidateSession config \<rparr>"

text \<open>\<^verbatim>\<open>await this.encode({ secret, maxAge, token })\<close>, recorded as a call.\<close>

definition call_encode :: "token_session_manager \<Rightarrow> jsval \<Rightarrow> int \<Rightarrow> string comp" where
  "call_encode m token age =
     call (CallEncode token age)
       (mgr_encode m \<lparr> enc_token = token, enc_secret = secret m, enc_maxAge = Some age \<rparr>)"

text \<open>\<^verbatim>\<open>await this.decode({ secret, token })\<close>, recorded as a call.\<close>

definition call_decode :: "token_session_manager \<Rightarrow> string option \<Rightarrow> jsval comp" where
  "call_decode m token =
     call (CallDecode token) (mgr_decode m \<lparr> dec_token = token, dec_secret = secret m \<rparr>)"

text \<open>\<^verbatim>\<open>newSession?.accessToken\<close> and \<^verbatim>\<open>newSession?.refreshToken\<close>.\<close>

definition session_accessToken :: "new_session option \<Rightarrow> jsval" where
  "session_accessToken newSession =
     (case newSession of None \<Rightarrow> JUndefined | Some s \<Rightarrow> accessToken s)"

definition session_refreshToken :: "new_session option \<Rightarrow> jsval" where
  "session_refreshToken newSession =
     (case newSession of None \<Rightarrow> JUndefined | Some s \<Rightarrow> refreshToken s)"

definition access_cookie :: "token_session_manager \<Rightarrow> string \<Rightarrow> cookie" where
  "access_cookie m v =
     \<lparr> cookie_name = co_name (ck_accessToken (cookies m)),
       cookie_value = v,
       cookie_options =
         Some ((co_options (ck_accessToken (cookies m)))
                 \<lparr> opt_maxAge := Some (max_accessToken (maxAge m)) \<rparr>) \<rparr>"

definition refresh_cookie :: "token_session_manager \<Rightarrow> string \<Rightarrow> cookie" where
  "refresh_cookie m v =
     \<lparr> cookie_name = co_name (ck_refreshToken (cookies m)),
       cookie_value = v,
       cookie_options =
         Some ((co_options (ck_refreshToken (cookies m)))
                 \<lparr> opt_maxAge := Some (max_refreshToken (maxAge m)) \<rparr>) \<rparr>"

text \<open>\<^verbatim>\<open>createCookies\<close>: the two \<^verbatim>\<open>if\<close> blocks, each pushing at most one cookie.\<close>

definition createCookies :: "token_session_manager \<Rightarrow> new_session option \<Rightarrow> cookie list comp" where
  "createCookies m newSession =
     bind (if truthy (session_accessToken newSession)
           then bind (call_encode m (session_accessToken newSession) (max_accessToken (maxAge m)))
                  (\<lambda>v. ret [access_cookie m v])
           else ret [])
       (\<lambda>cookies1.
          bind (if truthy (session_refreshToken newSession)
                then bind (call_encode m (session_refreshToken newSession)
                             (max_refreshToken (maxAge m)))
                       (\<lambda>v. ret [refresh_cookie m v])
                else ret [])
            (\<lambda>cookies2. ret (cookies1 @ cookies2)))"

text \<open>\<^verbatim>\<open>handleRequest\<close>: the refresh cookie is decoded before anything is tested.\<close>

definition handleRequest ::
  "token_session_manager \<Rightarrow> internal_request \<Rightarrow> internal_response comp" where
  "handleRequest m request =
     (let accessTok = req_cookies request (co_name (ck_accessToken (cookies m)));
          refreshTok = req_cookies request (co_name (ck_refreshToken (cookies m)))
      in bind (call_decode m refreshTok)
           (\<lambda>refresh.
              if \<not> truthy_str accessTok \<and> truthy_str refreshTok \<and> truthy refresh
              then bind (call (CallRefreshSession refresh) (refreshSession m refresh))
                     (\<lambda>newSession.
                        bind (createCookies m newSession)
                          (\<lambda>cs. ret (empty_response\<lparr> resp_cookies := Some cs \<rparr>)))
              else ret empty_response))"

text \<open>\<^verbatim>\<open>handleResponse\<close>: the response object itself is returned, with the new cookies pushed.\<close>

definition handleResponse ::
  "token_session_manager \<Rightarrow> internal_response \<Rightarrow> internal_response comp" where
  "handleResponse m response =
     (if \<not> truthy (resp_user response) then ret response
      else bind (call (CallCreateSession (resp_user response))
                   (createSession m (resp_user response)))
             (\<lambda>newSession.
                bind (createCookies m newSession)
                  (\<lambda>cs. ret (push_cookies response cs))))"

text \<open>
  \<^verbatim>\<open>parse\<close> of the \<^verbatim>\<open>cookie\<close> package is a parameter: it maps the header (\<^verbatim>\<open>""\<close> when
  there is none) to the cookie map.
\<close>

definition header_cookies ::
  "(string \<Rightarrow> (string \<rightharpoonup> string)) \<Rightarrow> fetch_request \<Rightarrow> (string \<rightharpoonup> string)" where
  "header_cookies parse request =
     parse (case header_cookie request of None \<Rightarrow> [] | Some h \<Rightarrow> h)"

text \<open>\<^verbatim>\<open>getUser\<close>: no decoding at all without an access cookie.\<close>

definition getUser ::
  "(string \<Rightarrow> (string \<rightharpoonup> string)) \<Rightarrow> token_session_manager \<Rightarrow> fetch_request \<Rightarrow> jsval comp" where
  "getUser parse m request =
     (let cs = header_cookies parse request;
          accessTok = cs (co_name (ck_accessToken (cookies m)))
      in if \<not> truthy_str accessTok then ret JNull
         else call_decode m accessTok)"

definition clear_access_cookie :: "token_session_manager \<Rightarrow> cookie" where
  "clear_access_cookie m =
     \<lparr> cookie_name = co_name (ck_accessToken (cookies m)),
       cookie_value = [],
       cookie_options = Some ((co_options (ck_accessToken (cookies m)))\<lparr> opt_maxAge := Some 0 \<rparr>) \<rparr>"

definition clear_refresh_cookie :: "token_session_manager \<Rightarrow> cookie" where
  "clear_refresh_cookie m =
     \<lparr> cookie_name = co_name (ck_refreshToken (cookies m)),
       cookie_value = [],
       cookie_options = Some ((co_options (ck_refreshToken (cookies m)))\<lparr> opt_maxAge := Some 0 \<rparr>) \<rparr>"

text \<open>
  \<^verbatim>\<open>session ? (await this.onInvalidateSession?.(session, refresh)) ?? {} : {}\<close>
\<close>

definition invalidate ::
  "token_session_manager \<Rightarrow> jsval \<Rightarrow> jsval \<Rightarrow> internal_response comp" where
  "invalidate m session refresh =
     (if truthy session
      then (case onInvalidateSession m of
              None \<Rightarrow> ret empty_response
            | Some hook \<Rightarrow>
                bind (call (CallInvalidateSession session refresh) (hook session refresh))
                  (\<lambda>r. ret (case r of None \<Rightarrow> empty_response | Some response \<Rightarrow> response)))
      else ret empty_response)"

text \<open>\<^verbatim>\<open>logout\<close>: both cookies are decoded, then the hook runs, then the cookies are pushed.\<close>

definition logout ::
  "(string \<Rightarrow> (string \<rightharpoonup> string)) \<Rightarrow> token_session_manager \<Rightarrow> fetch_request
     \<Rightarrow> internal_response comp" where
  "logout parse m request =
     (let cs = header_cookies parse request;
          accessTok = cs (co_name (ck_accessToken (cookies m)));
          refreshTok = cs (co_name (ck_refreshToken (cookies m)))
      in bind (call_decode m accessTok)
           (\<lambda>session.
              bind (call_decode m refreshTok)
                (\<lambda>refresh.
                   bind (invalidate m session refresh)
                     (\<lambda>response.
                        ret (push_cookies response
                               [clear_access_cookie m, clear_refresh_cookie m])))))"

section \<open>Objects, URLs and the provider's collaborators\<close>

type_synonym js_object = "(string \<times> jsval) list"

text \<open>\<^verbatim>\<open>obj[k] = v\<close>: an existing property keeps its place, a new one goes last.\<close>

fun js_assign :: "string \<Rightarrow> jsval \<Rightarrow> js_object \<Rightarrow> js_object" where
  "js_assign k v [] = [(k, v)]"
| "js_assign k v ((k', v') # ps) =
     (if k = k' then (k, v) # ps else (k', v') # js_assign k v ps)"

text \<open>\<^verbatim>\<open>{ ...a, ...b }\<close>\<close>

definition js_spread :: "js_object \<Rightarrow> js_object \<Rightarrow> js_object" where
  "js_spread a b = fold (\<lambda>(k, v) acc. js_assign k v acc) b a"

text \<open>\<^verbatim>\<open>obj.k\<close>: \<^verbatim>\<open>undefined\<close> for a missing property.\<close>

definition js_get :: "js_object \<Rightarrow> string \<Rightarrow> jsval" where
  "js_get obj k = (case map_of obj k of None \<Rightarrow> JUndefined | Some v \<Rightarrow> v)"

text \<open>
  \<^verbatim>\<open>URLSearchParams.set\<close>: the first pair of that name takes the value and the other pairs
  of that name are removed; without such a pair, the new one is appended.
\<close>

fun params_set :: "string \<Rightarrow> string \<Rightarrow> (string \<times> string) list \<Rightarrow> (string \<times> string) list" where
  "params_set k v [] = [(k, v)]"
| "params_set k v ((k', v') # ps) =
     (if k = k' then (k, v) # filter (\<lambda>(n, _). n \<noteq> k) ps else (k', v') # params_set k v ps)"

text \<open>\<^verbatim>\<open>URLSearchParams.has\<close> and \<^verbatim>\<open>URLSearchParams.get\<close> (the first value of that name).\<close>

definition params_has :: "string \<Rightarrow> (string \<times> string) list \<Rightarrow> bool" where
  "params_has k ps = (map_of ps k \<noteq> None)"

definition params_get :: "string \<Rightarrow> (string \<times> string) list \<Rightarrow> string option" where
  "params_get k ps = map_of ps k"

text \<open>\<^verbatim>\<open>url.searchParams.set(k, v)\<close>\<close>

definition url_set :: "string \<Rightarrow> string \<Rightarrow> url \<Rightarrow> url" where
  "url_set k v u = u\<lparr> searchParams := params_set k v (searchParams u) \<rparr>"

text \<open>
  \<^verbatim>\<open>Object.entries(params).forEach(([key, value]) => { if (typeof value === 'string')
  url.searchParams.set(key, value) })\<close>
\<close>

definition set_string_params :: "js_object \<Rightarrow> url \<Rightarrow> url" where
  "set_string_params entries u =
     fold (\<lambda>(key, v) acc. case v of JStr s \<Rightarrow> url_set key s acc | _ \<Rightarrow> acc) entries u"

text \<open>
  The platform's \<^verbatim>\<open>URL\<close> class: \<open>parseURL\<close> is \<^verbatim>\<open>new URL(string)\<close> (\<open>None\<close> when it throws
  its \<^verbatim>\<open>TypeError\<close>), \<open>urlToString\<close> is \<^verbatim>\<open>url.toString()\<close>.
\<close>

record platform =
  parseURL :: "string \<Rightarrow> url option"
  urlToString :: "url \<Rightarrow> string"

definition newURL :: "platform \<Rightarrow> string \<Rightarrow> error + url" where
  "newURL pf s = (case parseURL pf s of None \<Rightarrow> Inl (TypeError ''Invalid URL'') | Some u \<Rightarrow> Inr u)"

text \<open>\<^verbatim>\<open>type OAuthCheck = 'pkce' | 'state' | 'none' | 'nonce'\<close>\<close>

datatype oauth_check = Pkce | State | NoCheck | Nonce

text \<open>\<^verbatim>\<open>oauth.AuthorizationServer\<close>, the fields the providers read or write.\<close>

record authorization_server =
  issuer :: "string option"
  authorization_endpoint :: "string option"
  token_endpoint :: "string option"
  userinfo_endpoint :: "string option"
  code_challenge_methods_supported :: "string list option"

text \<open>A Fetch \<^verbatim>\<open>Response\<close> is opaque to the providers; \<^verbatim>\<open>clone()\<close> is the identity on it.\<close>

type_synonym http_response = jsval

text \<open>The result of a library call that may be an OAuth 2.0 error object (\<^verbatim>\<open>isOAuth2Error\<close>).\<close>

datatype 'a or_oauth2_error = IsOAuth2Error "string option" | NotOAuth2Error 'a

text \<open>
  The \<^verbatim>\<open>oauth4webapi\<close> functions the providers call. \<open>userInfoRequest\<close> stands for the request
  followed by \<^verbatim>\<open>response.json()\<close>.
\<close>

record oauth_library =
  discoveryRequest :: "url \<Rightarrow> error + http_response"
  processDiscoveryResponse :: "url \<Rightarrow> http_response \<Rightarrow> error + authorization_server"
  validateAuthResponse ::
    "authorization_server \<Rightarrow> js_object \<Rightarrow> (string \<times> string) list \<Rightarrow> jsval
       \<Rightarrow> error + (string \<times> string) list or_oauth2_error"
  authorizationCodeGrantRequest ::
    "authorization_server \<Rightarrow> js_object \<Rightarrow> (string \<times> string) list \<Rightarrow> string \<Rightarrow> jsval
       \<Rightarrow> error + http_response"
  parseWwwAuthenticateChallenges :: "http_response \<Rightarrow> error + jsval list option"
  processAuthorizationCodeOAuth2Response ::
    "authorization_server \<Rightarrow> js_object \<Rightarrow> http_response \<Rightarrow> error + js_object or_oauth2_error"
  processAuthorizationCodeOpenIDResponse ::
    "authorization_server \<Rightarrow> js_object \<Rightarrow> http_response \<Rightarrow> jsval
       \<Rightarrow> error + js_object or_oauth2_error"
  getValidatedIdTokenClaims :: "js_object \<Rightarrow> error + jsval"
  userInfoRequest :: "authorization_server \<Rightarrow> js_object \<Rightarrow> jsval \<Rightarrow> error + jsval"

text \<open>
  The checks module (\<^verbatim>\<open>security/checks\<close>) is not among the sources: its six functions are
  parameters. \<^verbatim>\<open>create(provider)\<close> resolves with the value and its cookie;
  \<^verbatim>\<open>use(request, provider)\<close> resolves with the value and a cookie or nothing, or throws.
\<close>

record 'p checks_module =
  state_create :: "'p \<Rightarrow> error + (string \<times> cookie)"
  state_use :: "internal_request \<Rightarrow> 'p \<Rightarrow> error + (jsval \<times> cookie option)"
  pkce_create :: "'p \<Rightarrow> error + (string \<times> cookie)"
  pkce_use :: "internal_request \<Rightarrow> 'p \<Rightarrow> error + (jsval \<times> cookie option)"
  nonce_create :: "'p \<Rightarrow> error + (string \<times> cookie)"
  nonce_use :: "internal_request \<Rightarrow> 'p \<Rightarrow> error + (jsval \<times> cookie option)"

text \<open>\<^verbatim>\<open>if (c) cookies.push(c)\<close>\<close>

definition push_if :: "cookie option \<Rightarrow> cookie list \<Rightarrow> cookie list" where
  "push_if c cs = (case c of None \<Rightarrow> cs | Some x \<Rightarrow> cs @ [x])"

section \<open>Methods that may change their object\<close>

text \<open>
  A method of a provider: from the provider before the call to the provider after it, the
  calls made and the exception thrown or the value returned. The provider after the call
  is there also when the method throws.
\<close>

type_synonym ('s, 'a) proc = "'s \<Rightarrow> 's \<times> event list \<times> (error + 'a)"

definition sret :: "'a \<Rightarrow> ('s, 'a) proc" where
  "sret x = (\<lambda>s. (s, [], Inr x))"

definition sthrow :: "error \<Rightarrow> ('s, 'a) proc" where
  "sthrow e = (\<lambda>s. (s, [], Inl e))"

definition sbind :: "('s, 'a) proc \<Rightarrow> ('a \<Rightarrow> ('s, 'b) proc) \<Rightarrow> ('s, 'b) proc" where
  "sbind m f =
     (\<lambda>s. case m s of
            (s1, t1, Inl e) \<Rightarrow> (s1, t1, Inl e)
          | (s1, t1, Inr x) \<Rightarrow> (case f x s1 of (s2, t2, r) \<Rightarrow> (s2, t1 @ t2, r)))"

text \<open>Reading \<^verbatim>\<open>this\<close>, assigning to a field of \<^verbatim>\<open>this\<close>.\<close>

definition sget :: "('s, 's) proc" where
  "sget = (\<lambda>s. (s, [], Inr s))"

definition smodify :: "('s \<Rightarrow> 's) \<Rightarrow> ('s, unit) proc" where
  "smodify f = (\<lambda>s. (f s, [], Inr ()))"

text \<open>A recorded call that is given \<^verbatim>\<open>this\<close>; a step that may throw and is not recorded.\<close>

definition scall :: "event \<Rightarrow> ('s \<Rightarrow> error + 'a) \<Rightarrow> ('s, 'a) proc" where
  "scall ev f = (\<lambda>s. (s, [ev], f s))"

definition slift :: "(error + 'a) \<Rightarrow> ('s, 'a) proc" where
  "slift r = (\<lambda>s. (s, [], r))"

definition after :: "'s \<times> event list \<times> (error + 'a) \<Rightarrow> 's" where
  "after r = fst r"

definition made :: "'s \<times> event list \<times> (error + 'a) \<Rightarrow> event list" where
  "made r = fst (snd r)"

definition result :: "'s \<times> event list \<times> (error + 'a) \<Rightarrow> error + 'a" where
  "result r = snd (snd r)"

section \<open>OAuth 2.0 provider\<close>

text \<open>\<^verbatim>\<open>interface Pages { login; callback }\<close>\<close>

record pages =
  pg_login :: string
  pg_callback :: string

text \<open>
  What a hook typed \<^verbatim>\<open>Awaitable<T>\<close> hands back: a plain value, or a promise with what
  it settles to. The difference shows where \<^verbatim>\<open>??\<close> is applied before \<^verbatim>\<open>await\<close>.
\<close>

datatype 'a awaitable = Immediate 'a | Promised "error + 'a"

text \<open>
  \<^verbatim>\<open>interface Endpoint { url; params?; request?; conform? }\<close>. The context of \<^verbatim>\<open>request\<close> is
  \<^verbatim>\<open>{ provider, tokens }\<close>; the hook is given the tokens here.
\<close>

record endpoint =
  ep_url :: string
  ep_params :: "js_object option"
  ep_request :: "(js_object \<Rightarrow> error + jsval awaitable) option"
  ep_conform :: "(http_response \<Rightarrow> error + http_response option) option"

record oauth_endpoints =
  ep_authorization :: endpoint
  ep_token :: endpoint
  ep_userinfo :: endpoint

text \<open>\<^verbatim>\<open>JWTOptions\<close>: the secret and the maximal age, with the optional codec.\<close>

record jwt_options = jwt_config +
  jo_secret :: string
  jo_maxAge :: "int option"

text \<open>\<^verbatim>\<open>interface OAuthConfig\<close>, the internal options: everything is defined.\<close>

record oauth_config =
  oa_id :: string
  oa_clientId :: string
  oa_clientSecret :: string
  oa_client :: js_object
  oa_jwt :: jwt_options
  oa_cookies :: cookies_options
  oa_checks :: "oauth_check list"
  oa_pages :: pages
  oa_endpoints :: oauth_endpoints
  oa_onAuth :: "jsval \<Rightarrow> error + internal_response"

text \<open>\<^verbatim>\<open>class OAuthProvider implements OAuthConfig\<close>: the options and the authorization server.\<close>

record oauth_provider = oauth_config +
  oa_authorizationServer :: authorization_server

text \<open>\<^verbatim>\<open>string | Endpoint\<close> in the user's options.\<close>

datatype user_endpoint = UrlString string | EndpointObject endpoint

record user_endpoints =
  ue_authorization :: "user_endpoint option"
  ue_token :: "user_endpoint option"
  ue_userinfo :: "user_endpoint option"

record user_pages =
  up_login :: "string option"
  up_callback :: "string option"

text \<open>\<^verbatim>\<open>interface OAuthUserConfig\<close>\<close>

record oauth_user_config =
  uo_id :: "string option"
  uo_clientId :: string
  uo_clientSecret :: string
  uo_client :: "js_object option"
  uo_onAuth :: "(jsval \<Rightarrow> error + internal_response) option"
  uo_checks :: "oauth_check list option"
  uo_pages :: "user_pages option"
  uo_endpoints :: "user_endpoints option"
  uo_jwt :: "jwt_options option"
  uo_useSecureCookies :: "bool option"

text \<open>\<^verbatim>\<open>interface OAuthDefaultConfig\<close>: what a provider preset brings.\<close>

record oauth_default_config =
  dc_id :: string
  dc_checks :: "oauth_check list option"
  dc_client :: "js_object option"
  dc_endpoints :: oauth_endpoints

text \<open>
  \<^verbatim>\<open>typeof e === 'string' ? e : (e?.url ?? dflt)\<close> and \<^verbatim>\<open>typeof e === 'object' ? e : {}\<close>
\<close>

definition endpoint_url :: "user_endpoint option \<Rightarrow> string \<Rightarrow> string" where
  "endpoint_url e dflt =
     (case e of
        Some (UrlString s) \<Rightarrow> s
      | Some (EndpointObject ob) \<Rightarrow> ep_url ob
      | None \<Rightarrow> dflt)"

definition endpoint_options :: "user_endpoint option \<Rightarrow> endpoint option" where
  "endpoint_options e = (case e of Some (EndpointObject ob) \<Rightarrow> Some ob | _ \<Rightarrow> None)"

text \<open>\<^verbatim>\<open>{ ...dflt, ...options }\<close> on endpoints: a property the options have wins.\<close>

definition spread_endpoint :: "endpoint \<Rightarrow> endpoint option \<Rightarrow> endpoint" where
  "spread_endpoint dflt options =
     (case options of
        None \<Rightarrow> dflt
      | Some ob \<Rightarrow>
          \<lparr> ep_url = ep_url ob,
            ep_params = (case ep_params ob of None \<Rightarrow> ep_params dflt | Some x \<Rightarrow> Some x),
            ep_request = (case ep_request ob of None \<Rightarrow> ep_request dflt | Some x \<Rightarrow> Some x),
            ep_conform = (case ep_conform ob of None \<Rightarrow> ep_conform dflt | Some x \<Rightarrow> Some x) \<rparr>)"

definition user_endpoint_of ::
  "oauth_user_config \<Rightarrow> (user_endpoints \<Rightarrow> user_endpoint option) \<Rightarrow> user_endpoint option" where
  "user_endpoint_of userOptions sel =
     (case uo_endpoints userOptions of None \<Rightarrow> None | Some es \<Rightarrow> sel es)"

text \<open>
  \<^verbatim>\<open>mergeOAuthOptions\<close>. \<open>createCookiesOptions\<close> (\<^verbatim>\<open>security/cookie\<close>) is a parameter.
\<close>

definition mergeOAuthOptions ::
  "(bool option \<Rightarrow> cookies_options) \<Rightarrow> oauth_user_config \<Rightarrow> oauth_default_config
     \<Rightarrow> oauth_config" where
  "mergeOAuthOptions createCookiesOptions userOptions defaultOptions =
     (let id = (case uo_id userOptions of None \<Rightarrow> dc_id defaultOptions | Some i \<Rightarrow> i);
          authorizationUrl =
            endpoint_url (user_endpoint_of userOptions ue_authorization)
              (ep_url (ep_authorization (dc_endpoints defaultOptions)));
          authorizationOptions = endpoint_options (user_endpoint_of userOptions ue_authorization);
          tokenUrl =
            endpoint_url (user_endpoint_of userOptions ue_token)
              (ep_url (ep_token (dc_endpoints defaultOptions)));
          tokenOptions = endpoint_options (user_endpoint_of userOptions ue_token);
          userinfoUrl =
            endpoint_url (user_endpoint_of userOptions ue_userinfo)
              (ep_url (ep_userinfo (dc_endpoints defaultOptions)));
          userinfoOptions = endpoint_options (user_endpoint_of userOptions ue_userinfo)
      in \<lparr> oa_id = id,
           oa_clientId = uo_clientId userOptions,
           oa_clientSecret = uo_clientSecret userOptions,
           oa_client =
             js_spread
               (js_spread (case dc_client defaultOptions of None \<Rightarrow> [] | Some c \<Rightarrow> c)
                  (case uo_client userOptions of None \<Rightarrow> [] | Some c \<Rightarrow> c))
               [(''client_id'', JStr (uo_clientId userOptions)),
                (''client_secret'', JStr (uo_clientSecret userOptions))],
           oa_jwt =
             (case uo_jwt userOptions of
                None \<Rightarrow> \<lparr> jwt_encode = None, jwt_decode = None, jo_secret = [], jo_maxAge = None \<rparr>
              | Some j \<Rightarrow> j\<lparr> jo_secret := [] \<rparr>),
           oa_cookies = createCookiesOptions (uo_useSecureCookies userOptions),
           oa_checks =
             (case uo_checks userOptions of
                Some cs \<Rightarrow> cs
              | None \<Rightarrow> (case dc_checks defaultOptions of Some cs \<Rightarrow> cs | None \<Rightarrow> [Pkce])),
           oa_pages =
             \<lparr> pg_login =
                 (case (case uo_pages userOptions of None \<Rightarrow> None | Some pg \<Rightarrow> up_login pg) of
                    None \<Rightarrow> ''/auth/login/'' @ id | Some l \<Rightarrow> l),
               pg_callback =
                 (case (case uo_pages userOptions of None \<Rightarrow> None | Some pg \<Rightarrow> up_callback pg) of
                    None \<Rightarrow> ''/auth/callback/'' @ id | Some c \<Rightarrow> c) \<rparr>,
           oa_endpoints =
             \<lparr> ep_authorization =
                 (spread_endpoint (ep_authorization (dc_endpoints defaultOptions))
                    authorizationOptions)
                 \<lparr> ep_url := authorizationUrl,
                   ep_params :=
                     Some (js_spread
                       (case ep_params (ep_authorization (dc_endpoints defaultOptions)) of
                          None \<Rightarrow> [] | Some ps \<Rightarrow> ps)
                       [(''client_id'', JStr (uo_clientId userOptions)),
                        (''response_type'', JStr ''code'')]) \<rparr>,
               ep_token =
                 (spread_endpoint (ep_token (dc_endpoints defaultOptions)) tokenOptions)
                 \<lparr> ep_url := tokenUrl \<rparr>,
               ep_userinfo =
                 (spread_endpoint (ep_userinfo (dc_endpoints defaultOptions)) userinfoOptions)
                 \<lparr> ep_url := userinfoUrl \<rparr> \<rparr>,
           oa_onAuth =
             (case uo_onAuth userOptions of
                Some f \<Rightarrow> f
              | None \<Rightarrow>
                  (\<lambda>user. Inr (empty_response\<lparr> resp_user := user, resp_session := user \<rparr>))) \<rparr>)"

text \<open>The constructor copies the options; OAuth does not use discovery.\<close>

definition OAuthProvider :: "oauth_config \<Rightarrow> oauth_provider" where
  "OAuthProvider options =
     oauth_config.extend options
       \<lparr> oa_authorizationServer =
           \<lparr> issuer = Some ''auth.js'',
             authorization_endpoint = Some (ep_url (ep_authorization (oa_endpoints options))),
             token_endpoint = Some (ep_url (ep_token (oa_endpoints options))),
             userinfo_endpoint = Some (ep_url (ep_userinfo (oa_endpoints options))),
             code_challenge_methods_supported = None \<rparr> \<rparr>"

text \<open>The three \<^verbatim>\<open>if (this.checks?.includes(...))\<close> blocks of \<^verbatim>\<open>login\<close>, on the local URL and cookie list.\<close>

definition login_state ::
  "oauth_provider checks_module \<Rightarrow> url \<times> cookie list
     \<Rightarrow> (oauth_provider, url \<times> cookie list) proc" where
  "login_state ch uc =
     sbind sget (\<lambda>this.
       if State \<in> set (oa_checks this)
       then sbind (scall CallStateCreate (state_create ch))
              (\<lambda>(state, stateCookie).
                 sret (url_set ''state'' state (fst uc), snd uc @ [stateCookie]))
       else sret uc)"

definition login_pkce ::
  "oauth_provider checks_module \<Rightarrow> url \<times> cookie list
     \<Rightarrow> (oauth_provider, url \<times> cookie list) proc" where
  "login_pkce ch uc =
     sbind sget (\<lambda>this.
       if Pkce \<in> set (oa_checks this)
       then sbind (scall CallPkceCreate (pkce_create ch))
              (\<lambda>(pkce, pkceCookie).
                 sret (url_set ''code_challenge_method'' ''S256''
                         (url_set ''code_challenge'' pkce (fst uc)),
                       snd uc @ [pkceCookie]))
       else sret uc)"

definition login_nonce ::
  "oauth_provider checks_module \<Rightarrow> url \<times> cookie list
     \<Rightarrow> (oauth_provider, url \<times> cookie list) proc" where
  "login_nonce ch uc =
     sbind sget (\<lambda>this.
       if Nonce \<in> set (oa_checks this)
       then sbind (scall CallNonceCreate (nonce_create ch))
              (\<lambda>(nonce, nonceCookie).
                 sret (url_set ''nonce'' nonce (fst uc), snd uc @ [nonceCookie]))
       else sret uc)"

text \<open>\<^verbatim>\<open>if (!url.searchParams.has('redirect_uri')) url.searchParams.set('redirect_uri', ...)\<close>\<close>

definition set_redirect_uri :: "string \<Rightarrow> url \<Rightarrow> url" where
  "set_redirect_uri target u =
     (if \<not> params_has ''redirect_uri'' (searchParams u)
      then url_set ''redirect_uri'' target u else u)"

definition redirect_response :: "string \<Rightarrow> cookie list \<Rightarrow> internal_response" where
  "redirect_response target cs =
     empty_response\<lparr> resp_status := Some 302, resp_redirect := Some target,
                     resp_cookies := Some cs \<rparr>"

text \<open>\<^verbatim>\<open>OAuthProvider.login\<close>: a new \<^verbatim>\<open>URL\<close> for every request.\<close>

definition login ::
  "platform \<Rightarrow> oauth_provider checks_module \<Rightarrow> internal_request
     \<Rightarrow> (oauth_provider, internal_response) proc" where
  "login pf ch request =
     sbind sget (\<lambda>this.
       sbind (slift (newURL pf (ep_url (ep_authorization (oa_endpoints this))))) (\<lambda>url0.
         sbind (login_state ch
                  (set_string_params
                     (case ep_params (ep_authorization (oa_endpoints this)) of
                        None \<Rightarrow> [] | Some ps \<Rightarrow> ps) url0, [])) (\<lambda>uc1.
           sbind (login_pkce ch uc1) (\<lambda>uc2.
             sbind (login_nonce ch uc2) (\<lambda>(url3, cs).
               sret (redirect_response
                       (urlToString pf
                          (set_redirect_uri
                             (url_origin (req_url request) @ pg_callback (oa_pages this)) url3))
                       cs))))))"

text \<open>
  \<^verbatim>\<open>OAuthProvider.callback\<close>, in the order of the source. The part after the validation of
  the authorization response is \<open>callback_exchange\<close>, the part after the token response
  \<open>callback_profile\<close>.
\<close>

definition callback_profile ::
  "oauth_library \<Rightarrow> js_object \<Rightarrow> cookie list \<Rightarrow> (oauth_provider, internal_response) proc" where
  "callback_profile lib tokens cs =
     sbind sget (\<lambda>this.
       sbind
         (case ep_request (ep_userinfo (oa_endpoints this)) of
            None \<Rightarrow>
              scall CallUserInfo (\<lambda>this.
                userInfoRequest lib (oa_authorizationServer this) (oa_client this)
                  (js_get tokens ''access_token''))
          | Some request_hook \<Rightarrow>
              sbind (scall CallUserinfoRequest (\<lambda>this. request_hook tokens)) (\<lambda>r.
                case r of
                  Promised settled \<Rightarrow> slift settled
                | Immediate v \<Rightarrow>
                    if nullish v
                    then scall CallUserInfo (\<lambda>this.
                           userInfoRequest lib (oa_authorizationServer this) (oa_client this)
                             (js_get tokens ''access_token''))
                    else sret v))
         (\<lambda>profile.
            if \<not> truthy profile then sthrow (Error (Some ''TODO: Handle missing profile''))
            else sbind (scall CallOnAuth (\<lambda>this. oa_onAuth this profile))
                   (\<lambda>processedResponse. sret (push_cookies processedResponse cs))))"

definition callback_exchange ::
  "oauth_library \<Rightarrow> oauth_provider checks_module \<Rightarrow> internal_request
     \<Rightarrow> (string \<times> string) list \<Rightarrow> cookie list \<Rightarrow> (oauth_provider, internal_response) proc" where
  "callback_exchange lib ch request codeGrantParams cs =
     sbind (scall CallPkceUse (pkce_use ch request)) (\<lambda>(pkce, pkceCookie).
       sbind (scall CallTokenExchange (\<lambda>this.
                authorizationCodeGrantRequest lib (oa_authorizationServer this) (oa_client this)
                  codeGrantParams
                  (url_origin (req_url request) @ pg_callback (oa_pages this)) pkce))
         (\<lambda>initialCodeGrantResponse.
            sbind sget (\<lambda>this.
              sbind
                (case ep_conform (ep_token (oa_endpoints this)) of
                   None \<Rightarrow> sret initialCodeGrantResponse
                 | Some conform \<Rightarrow>
                     sbind (scall CallConform (\<lambda>this. conform initialCodeGrantResponse))
                       (\<lambda>r. sret (case r of None \<Rightarrow> initialCodeGrantResponse
                                   | Some conformed \<Rightarrow> conformed)))
                (\<lambda>codeGrantResponse.
                   sbind (slift (parseWwwAuthenticateChallenges lib codeGrantResponse))
                     (\<lambda>challenges.
                        case challenges of
                          Some found \<Rightarrow>
                            sthrow (Error (Some
                              ''TODO: Handle www-authenticate challenges as needed''))
                        | None \<Rightarrow>
                            sbind (scall CallProcessResponse (\<lambda>this.
                                     processAuthorizationCodeOAuth2Response lib
                                       (oa_authorizationServer this) (oa_client this)
                                       codeGrantResponse))
                              (\<lambda>tokens.
                                 case tokens of
                                   IsOAuth2Error d \<Rightarrow>
                                     sthrow (Error (Some
                                       ''TODO: Handle OAuth 2.0 response body error''))
                                 | NotOAuth2Error tokenSet \<Rightarrow>
                                     callback_profile lib tokenSet
                                       (push_if pkceCookie cs)))))))"

definition callback ::
  "oauth_library \<Rightarrow> oauth_provider checks_module \<Rightarrow> internal_request
     \<Rightarrow> (oauth_provider, internal_response) proc" where
  "callback lib ch request =
     sbind (scall CallStateUse (state_use ch request)) (\<lambda>(state, stateCookie).
       sbind (scall CallValidateAuthResponse (\<lambda>this.
                validateAuthResponse lib (oa_authorizationServer this) (oa_client this)
                  (searchParams (req_url request)) state))
         (\<lambda>codeGrantParams.
            case codeGrantParams of
              IsOAuth2Error error_description \<Rightarrow> sthrow (Error error_description)
            | NotOAuth2Error params \<Rightarrow>
                callback_exchange lib ch request params (push_if stateCookie [])))"

section \<open>OpenID Connect provider\<close>

text \<open>
  \<^verbatim>\<open>interface Pages { signIn; signOut; callback }\<close>. Without \<^verbatim>\<open>options.pages\<close> the
  constructor stores an empty object, so each page may be \<^verbatim>\<open>undefined\<close>.
\<close>

record oidc_pages =
  pg_signIn :: "string option"
  pg_signOut :: "string option"
  pg_oidc_callback :: "string option"

text \<open>An endpoint of the configuration: a string, an object, or nothing.\<close>

record endpoint_object =
  eo_url :: "string option"
  eo_params :: "js_object option"
  eo_conform :: "(http_response \<Rightarrow> error + http_response) option"

datatype endpoint_config = EpUndefined | EpString string | EpObject endpoint_object

text \<open>
  \<^verbatim>\<open>OAuthConfig\<close> of \<^verbatim>\<open>@auth/core\<close>, the properties the provider reads. \<open>cf_options\<close> is
  \<^verbatim>\<open>provider.options\<close>, the user's options, which are opaque to the provider.
\<close>

record oidc_config =
  cf_id :: string
  cf_issuer :: "string option"
  cf_clientId :: "string option"
  cf_clientSecret :: "string option"
  cf_client :: "js_object option"
  cf_authorization :: endpoint_config
  cf_token :: endpoint_config
  cf_checks :: "oauth_check list option"
  cf_profile :: "(jsval \<Rightarrow> js_object \<Rightarrow> error + jsval) option"
  cf_options :: "js_object option"

text \<open>\<^verbatim>\<open>interface Options\<close>, the second argument of the constructor.\<close>

record oidc_options =
  op_useSecureCookies :: "bool option"
  op_onAuth :: "(jsval \<Rightarrow> js_object \<Rightarrow> error + internal_response option) option"
  op_jwt :: "jwt_options option"
  op_pages :: "oidc_pages option"

text \<open>\<^verbatim>\<open>this.oauthFlow\<close> once \<^verbatim>\<open>initialize\<close> has filled it.\<close>

record oauth_flow =
  flow_authorization_url :: url
  flow_token_url :: url
  flow_token_conform :: "(http_response \<Rightarrow> error + http_response) option"
  flow_userinfo_url :: url

text \<open>
  \<^verbatim>\<open>class OIDCProvider\<close>. \<open>initialized = False\<close> is the missing or false flag;
  \<open>oauthFlow = None\<close> is the empty object of the constructor.
\<close>

record oidc_provider =
  initialized :: bool
  provider :: oidc_config
  config :: oidc_config
  authorizationServer :: authorization_server
  client :: js_object
  oidc_cookies :: cookies_options
  oidc_jwt :: "jwt_options option"
  oidc_pages :: oidc_pages
  oidc_onAuth :: "(jsval \<Rightarrow> js_object \<Rightarrow> error + internal_response option) option"
  oauthFlow :: "oauth_flow option"

text \<open>\<^verbatim>\<open>Object.create(null)\<close> as an authorization server: no property is set.\<close>

definition no_authorization_server :: authorization_server where
  "no_authorization_server =
     \<lparr> issuer = None, authorization_endpoint = None, token_endpoint = None,
       userinfo_endpoint = None, code_challenge_methods_supported = None \<rparr>"

text \<open>
  The constructor. \<open>merge\<close> (\<^verbatim>\<open>utils/merge\<close>), \<open>defaultProfile\<close> (\<^verbatim>\<open>utils/profile\<close>) and
  \<open>defaultCookies\<close> (\<^verbatim>\<open>security/cookie\<close>) are not among the sources and are parameters.
\<close>

definition OIDCProvider ::
  "(oidc_config \<Rightarrow> js_object option \<Rightarrow> oidc_config) \<Rightarrow> (jsval \<Rightarrow> js_object \<Rightarrow> error + jsval)
     \<Rightarrow> (bool option \<Rightarrow> cookies_options) \<Rightarrow> oidc_config \<Rightarrow> oidc_options \<Rightarrow> oidc_provider" where
  "OIDCProvider merge defaultProfile defaultCookies prov options =
     (let merged = merge prov (cf_options prov)
      in \<lparr> initialized = False,
           provider = prov,
           config =
             merged\<lparr> cf_checks :=
                        Some (case cf_checks merged of None \<Rightarrow> [Pkce] | Some cs \<Rightarrow> cs),
                     cf_profile :=
                        Some (case cf_profile merged of None \<Rightarrow> defaultProfile | Some f \<Rightarrow> f) \<rparr>,
           authorizationServer = no_authorization_server,
           client =
             js_spread
               [(''client_id'', JStr (case cf_clientId prov of None \<Rightarrow> [] | Some c \<Rightarrow> c)),
                (''client_secret'', JStr (case cf_clientSecret prov of None \<Rightarrow> [] | Some c \<Rightarrow> c))]
               (case cf_client prov of None \<Rightarrow> [] | Some c \<Rightarrow> c),
           oidc_cookies = defaultCookies (op_useSecureCookies options),
           oidc_jwt = op_jwt options,
           oidc_pages =
             (case op_pages options of
                None \<Rightarrow> \<lparr> pg_signIn = None, pg_signOut = None, pg_oidc_callback = None \<rparr>
              | Some pg \<Rightarrow> pg),
           oidc_onAuth = op_onAuth options,
           oauthFlow = None \<rparr>)"

text \<open>\<^verbatim>\<open>this.config.checks?.includes(c)\<close>\<close>

definition checks_include :: "oidc_provider \<Rightarrow> oauth_check \<Rightarrow> bool" where
  "checks_include this c =
     (case cf_checks (config this) of None \<Rightarrow> False | Some cs \<Rightarrow> c \<in> set cs)"

text \<open>\<^verbatim>\<open>initializeAuthorizationServer\<close>: without an issuer there is no discovery.\<close>

definition initializeAuthorizationServer ::
  "platform \<Rightarrow> oauth_library \<Rightarrow> (oidc_provider, unit) proc" where
  "initializeAuthorizationServer pf lib =
     sbind sget (\<lambda>this.
       case cf_issuer (config this) of
         None \<Rightarrow>
           smodify (\<lambda>p. p\<lparr> authorizationServer :=
                             no_authorization_server\<lparr> issuer := Some ''authjs.dev'' \<rparr> \<rparr>)
       | Some iss \<Rightarrow>
           if iss = []
           then smodify (\<lambda>p. p\<lparr> authorizationServer :=
                                  no_authorization_server\<lparr> issuer := Some ''authjs.dev'' \<rparr> \<rparr>)
           else sbind (slift (newURL pf iss)) (\<lambda>issuerUrl.
                  sbind (scall (CallDiscovery iss) (\<lambda>this. discoveryRequest lib issuerUrl))
                    (\<lambda>discoveryResponse.
                       sbind (slift (processDiscoveryResponse lib issuerUrl discoveryResponse))
                         (\<lambda>server. smodify (\<lambda>p. p\<lparr> authorizationServer := server \<rparr>)))))"

text \<open>
  \<^verbatim>\<open>s ? new URL(s) : undefined\<close> for an endpoint of the authorization server.
\<close>

definition server_endpoint_url :: "platform \<Rightarrow> string option \<Rightarrow> error + url option" where
  "server_endpoint_url pf e =
     (case e of
        None \<Rightarrow> Inr None
      | Some s \<Rightarrow>
          if s = [] then Inr None
          else (case newURL pf s of Inl err \<Rightarrow> Inl err | Inr u \<Rightarrow> Inr (Some u)))"

definition configured_authorization_url :: "platform \<Rightarrow> oidc_provider \<Rightarrow> error + url option" where
  "configured_authorization_url pf this =
     (case cf_authorization (config this) of
        EpString s \<Rightarrow> (case newURL pf s of Inl err \<Rightarrow> Inl err | Inr u \<Rightarrow> Inr (Some u))
      | EpObject ob \<Rightarrow>
          if truthy_str (eo_url ob)
          then (case newURL pf (case eo_url ob of None \<Rightarrow> [] | Some s \<Rightarrow> s) of
                  Inl err \<Rightarrow> Inl err | Inr u \<Rightarrow> Inr (Some u))
          else server_endpoint_url pf (authorization_endpoint (authorizationServer this))
      | EpUndefined \<Rightarrow>
          server_endpoint_url pf (authorization_endpoint (authorizationServer this)))"

definition configured_token_url :: "platform \<Rightarrow> oidc_provider \<Rightarrow> error + url option" where
  "configured_token_url pf this =
     (case cf_token (config this) of
        EpString s \<Rightarrow> (case newURL pf s of Inl err \<Rightarrow> Inl err | Inr u \<Rightarrow> Inr (Some u))
      | _ \<Rightarrow> server_endpoint_url pf (token_endpoint (authorizationServer this)))"

text \<open>
  \<^verbatim>\<open>{ response_type: "code", client_id: this.config.clientId ?? '',
  ...(typeof this.config.authorization === 'object' && this.config.authorization?.params) }\<close>
\<close>

definition authorization_params :: "oidc_provider \<Rightarrow> js_object" where
  "authorization_params this =
     js_spread
       [(''response_type'', JStr ''code''),
        (''client_id'', JStr (case cf_clientId (config this) of None \<Rightarrow> [] | Some c \<Rightarrow> c))]
       (case cf_authorization (config this) of
          EpObject ob \<Rightarrow> (case eo_params ob of None \<Rightarrow> [] | Some ps \<Rightarrow> ps)
        | _ \<Rightarrow> [])"

definition token_conform ::
  "oidc_provider \<Rightarrow> (http_response \<Rightarrow> error + http_response) option" where
  "token_conform this =
     (case cf_token (config this) of
        EpObject ob \<Rightarrow> eo_conform ob
      | _ \<Rightarrow> Some (\<lambda>response. Inr response))"

definition placeholder_url :: string where
  "placeholder_url = ''placeholder-url: OIDC gets user info from tokens directly.''"

text \<open>\<^verbatim>\<open>initialize\<close>: the flag is set last, after every step that may throw.\<close>

definition initialize :: "platform \<Rightarrow> oauth_library \<Rightarrow> (oidc_provider, unit) proc" where
  "initialize pf lib =
     sbind (initializeAuthorizationServer pf lib) (\<lambda>_.
       sbind sget (\<lambda>this.
         sbind (slift (configured_authorization_url pf this)) (\<lambda>authorizationUrl0.
           case authorizationUrl0 of
             None \<Rightarrow> sthrow (TypeError ''Invalid authorization endpoint'')
           | Some parsed \<Rightarrow>
               let authorizationUrl = set_string_params (authorization_params this) parsed
               in sbind (slift (configured_token_url pf this)) (\<lambda>tokenUrl0.
                    case tokenUrl0 of
                      None \<Rightarrow> sthrow (TypeError ''Invalid token endpoint'')
                    | Some tokenUrl \<Rightarrow>
                        sbind (slift (newURL pf placeholder_url)) (\<lambda>userinfoUrl.
                          smodify (\<lambda>p.
                            p\<lparr> oauthFlow :=
                                 Some \<lparr> flow_authorization_url = authorizationUrl,
                                        flow_token_url = tokenUrl,
                                        flow_token_conform = token_conform this,
                                        flow_userinfo_url = userinfoUrl \<rparr>,
                               authorizationServer :=
                                 (authorizationServer p)
                                   \<lparr> authorization_endpoint :=
                                       Some (urlToString pf authorizationUrl),
                                     token_endpoint := Some (urlToString pf tokenUrl),
                                     userinfo_endpoint := Some (urlToString pf userinfoUrl) \<rparr>,
                               initialized := True \<rparr>))))))"

text \<open>\<^verbatim>\<open>if (!this.initialized) await this.initialize()\<close>\<close>

definition ensure_initialized :: "platform \<Rightarrow> oauth_library \<Rightarrow> (oidc_provider, unit) proc" where
  "ensure_initialized pf lib =
     sbind sget (\<lambda>this. if \<not> initialized this then initialize pf lib else sret ())"

text \<open>
  \<^verbatim>\<open>url.searchParams.set(k, v)\<close> in \<^verbatim>\<open>signIn\<close>: \<^verbatim>\<open>url\<close> is the object stored in
  \<^verbatim>\<open>this.oauthFlow.authorization\<close>, so the provider's URL is what changes.
\<close>

definition flow_url_update :: "(url \<Rightarrow> url) \<Rightarrow> oidc_provider \<Rightarrow> oidc_provider" where
  "flow_url_update f p =
     p\<lparr> oauthFlow :=
          map_option (\<lambda>flow. flow\<lparr> flow_authorization_url := f (flow_authorization_url flow) \<rparr>)
            (oauthFlow p) \<rparr>"

text \<open>\<^verbatim>\<open>this.authorizationServer.code_challenge_methods_supported?.includes('S256')\<close>\<close>

definition supports_S256 :: "oidc_provider \<Rightarrow> bool" where
  "supports_S256 this =
     (case code_challenge_methods_supported (authorizationServer this) of
        None \<Rightarrow> False
      | Some methods \<Rightarrow> ''S256'' \<in> set methods)"

text \<open>The three check blocks of \<^verbatim>\<open>signIn\<close>; each returns the cookies it pushes.\<close>

definition signIn_state :: "oidc_provider checks_module \<Rightarrow> (oidc_provider, cookie list) proc" where
  "signIn_state ch =
     sbind sget (\<lambda>this.
       if checks_include this State
       then sbind (scall CallStateCreate (state_create ch)) (\<lambda>(state, stateCookie).
              sbind (smodify (flow_url_update (url_set ''state'' state)))
                (\<lambda>_. sret [stateCookie]))
       else sret [])"

definition signIn_pkce :: "oidc_provider checks_module \<Rightarrow> (oidc_provider, cookie list) proc" where
  "signIn_pkce ch =
     sbind sget (\<lambda>this.
       if checks_include this Pkce
       then (if \<not> supports_S256 this
             then sbind (smodify (\<lambda>p. p\<lparr> config := (config p)\<lparr> cf_checks := Some [Nonce] \<rparr> \<rparr>))
                    (\<lambda>_. sret [])
             else sbind (scall CallPkceCreate (pkce_create ch)) (\<lambda>(pkce, pkceCookie).
                    sbind (smodify (flow_url_update
                             (\<lambda>u. url_set ''code_challenge_method'' ''S256''
                                    (url_set ''code_challenge'' pkce u))))
                      (\<lambda>_. sret [pkceCookie])))
       else sret [])"

definition signIn_nonce :: "oidc_provider checks_module \<Rightarrow> (oidc_provider, cookie list) proc" where
  "signIn_nonce ch =
     sbind sget (\<lambda>this.
       if checks_include this Nonce
       then sbind (scall CallNonceCreate (nonce_create ch)) (\<lambda>(nonce, nonceCookie).
              sbind (smodify (flow_url_update (url_set ''nonce'' nonce)))
                (\<lambda>_. sret [nonceCookie]))
       else sret [])"

text \<open>\<^verbatim>\<open>${request.url.origin}${this.pages.callback}\<close>: an undefined page prints as its name.\<close>

definition oidc_callback_page :: "oidc_provider \<Rightarrow> internal_request \<Rightarrow> string" where
  "oidc_callback_page this request =
     url_origin (req_url request)
       @ (case pg_oidc_callback (oidc_pages this) of None \<Rightarrow> ''undefined'' | Some c \<Rightarrow> c)"

definition set_scope :: "url \<Rightarrow> url" where
  "set_scope u =
     (if \<not> params_has ''scope'' (searchParams u)
      then url_set ''scope'' ''openid profile email'' u else u)"

text \<open>
  \<^verbatim>\<open>OIDCProvider.signIn\<close>: the lazy initialization, then \<open>signIn_flow\<close>, the rest of the
  method.
\<close>

definition signIn_flow ::
  "platform \<Rightarrow> oidc_provider checks_module \<Rightarrow> internal_request
     \<Rightarrow> (oidc_provider, internal_response) proc" where
  "signIn_flow pf ch request =
     sbind sget (\<lambda>this.
       case oauthFlow this of
         None \<Rightarrow> sthrow (TypeError ''Cannot destructure property url'')
       | Some flow0 \<Rightarrow>
           sbind (signIn_state ch) (\<lambda>cookies1.
             sbind (signIn_pkce ch) (\<lambda>cookies2.
               sbind (signIn_nonce ch) (\<lambda>cookies3.
                 sbind sget (\<lambda>this.
                   sbind (smodify (flow_url_update
                            (set_redirect_uri (oidc_callback_page this request)))) (\<lambda>_.
                     sbind (smodify (flow_url_update set_scope)) (\<lambda>_.
                       sbind sget (\<lambda>this.
                         case oauthFlow this of
                           None \<Rightarrow> sthrow (TypeError ''Cannot destructure property url'')
                         | Some flow \<Rightarrow>
                             sret (redirect_response
                                     (urlToString pf (flow_authorization_url flow))
                                     (cookies1 @ cookies2 @ cookies3))))))))))"

definition signIn ::
  "platform \<Rightarrow> oauth_library \<Rightarrow> oidc_provider checks_module \<Rightarrow> internal_request
     \<Rightarrow> (oidc_provider, internal_response) proc" where
  "signIn pf lib ch request =
     sbind (ensure_initialized pf lib) (\<lambda>_. signIn_flow pf ch request)"

text \<open>
  \<^verbatim>\<open>OIDCProvider.callback\<close>: the lazy initialization, then \<open>oidc_callback_checks\<close> up to
  the validation of the authorization response, then \<open>oidc_callback_exchange\<close>. The cookies
  collected from the checks are not part of the response object the source returns.
\<close>

definition oidc_callback_exchange ::
  "oauth_library \<Rightarrow> oidc_provider checks_module \<Rightarrow> internal_request
     \<Rightarrow> (string \<times> string) list \<Rightarrow> cookie list \<Rightarrow> (oidc_provider, internal_response) proc" where
  "oidc_callback_exchange lib ch request codeGrantParams cs =
     sbind (scall CallPkceUse (pkce_use ch request)) (\<lambda>(pkce, pkceCookie).
       sbind (scall CallTokenExchange (\<lambda>this.
                authorizationCodeGrantRequest lib (authorizationServer this) (client this)
                  codeGrantParams (oidc_callback_page this request) pkce))
         (\<lambda>initialCodeGrantResponse.
            sbind sget (\<lambda>this.
              sbind
                (case oauthFlow this of
                   None \<Rightarrow> sthrow (TypeError ''Cannot read properties of undefined'')
                 | Some flow \<Rightarrow>
                     (case flow_token_conform flow of
                        None \<Rightarrow> sthrow (TypeError ''conform is not a function'')
                      | Some conform \<Rightarrow>
                          scall CallConform (\<lambda>this. conform initialCodeGrantResponse)))
                (\<lambda>codeGrantResponse.
                   sbind (slift (parseWwwAuthenticateChallenges lib codeGrantResponse))
                     (\<lambda>challenges.
                        case challenges of
                          Some found \<Rightarrow>
                            sthrow (Error (Some
                              ''TODO: Handle www-authenticate challenges as needed''))
                        | None \<Rightarrow>
                            sbind (scall CallNonceUse (nonce_use ch request))
                              (\<lambda>(nonce, nonceCookie).
                                 sbind (scall CallProcessResponse (\<lambda>this.
                                          processAuthorizationCodeOpenIDResponse lib
                                            (authorizationServer this) (client this)
                                            codeGrantResponse nonce))
                                   (\<lambda>res.
                                      case res of
                                        IsOAuth2Error d \<Rightarrow>
                                          sthrow (Error (Some
                                            ''TODO: Handle OIDC response body error''))
                                      | NotOAuth2Error tokenSet \<Rightarrow>
                                          sbind (slift (getValidatedIdTokenClaims lib tokenSet))
                                            (\<lambda>profile.
                                               sbind (scall CallProfile (\<lambda>this.
                                                        case cf_profile (config this) of
                                                          None \<Rightarrow>
                                                            Inl (TypeError
                                                              ''profile is not a function'')
                                                        | Some f \<Rightarrow> f profile tokenSet))
                                                 (\<lambda>session.
                                                    sret (empty_response
                                                      \<lparr> resp_status := Some 302,
                                                        resp_redirect := Some ''/'',
                                                        resp_session := session \<rparr>))))))))))"

definition oidc_callback_checks ::
  "oauth_library \<Rightarrow> oidc_provider checks_module \<Rightarrow> internal_request
     \<Rightarrow> (oidc_provider, internal_response) proc" where
  "oidc_callback_checks lib ch request =
     sbind (scall CallStateUse (state_use ch request)) (\<lambda>(state, stateCookie).
       sbind (scall CallValidateAuthResponse (\<lambda>this.
                validateAuthResponse lib (authorizationServer this) (client this)
                  (searchParams (req_url request)) state))
         (\<lambda>codeGrantParams.
            case codeGrantParams of
              IsOAuth2Error error_description \<Rightarrow> sthrow (Error error_description)
            | NotOAuth2Error params \<Rightarrow>
                oidc_callback_exchange lib ch request params (push_if stateCookie [])))"

definition oidc_callback ::
  "platform \<Rightarrow> oauth_library \<Rightarrow> oidc_provider checks_module \<Rightarrow> internal_request
     \<Rightarrow> (oidc_provider, internal_response) proc" where
  "oidc_callback pf lib ch request =
     sbind (ensure_initialized pf lib) (\<lambda>_. oidc_callback_checks lib ch request)"

section \<open>Notions used in the statements\<close>

text \<open>The two calls of the encoder that \<^verbatim>\<open>createCookies\<close> may make.\<close>

definition encode_access :: "token_session_manager \<Rightarrow> new_session option \<Rightarrow> error + string" where
  "encode_access m s =
     mgr_encode m \<lparr> enc_token = session_accessToken s, enc_secret = secret m,
                    enc_maxAge = Some (max_accessToken (maxAge m)) \<rparr>"

definition encode_refresh :: "token_session_manager \<Rightarrow> new_session option \<Rightarrow> error + string" where
  "encode_refresh m s =
     mgr_encode m \<lparr> enc_token = session_refreshToken s, enc_secret = secret m,
                    enc_maxAge = Some (max_refreshToken (maxAge m)) \<rparr>"

text \<open>What the manager's decoder does with a cookie value.\<close>

definition decoded :: "token_session_manager \<Rightarrow> string option \<Rightarrow> error + jsval" where
  "decoded m tok = mgr_decode m \<lparr> dec_token = tok, dec_secret = secret m \<rparr>"

text \<open>The access and refresh cookies of a request, as \<^verbatim>\<open>handleRequest\<close> and \<^verbatim>\<open>logout\<close> read them.\<close>

definition request_accessToken :: "token_session_manager \<Rightarrow> internal_request \<Rightarrow> string option" where
  "request_accessToken m request = req_cookies request (co_name (ck_accessToken (cookies m)))"

definition request_refreshToken :: "token_session_manager \<Rightarrow> internal_request \<Rightarrow> string option" where
  "request_refreshToken m request = req_cookies request (co_name (ck_refreshToken (cookies m)))"

definition header_accessToken ::
  "(string \<Rightarrow> (string \<rightharpoonup> string)) \<Rightarrow> token_session_manager \<Rightarrow> fetch_request
     \<Rightarrow> string option" where
  "header_accessToken parse m request =
     header_cookies parse request (co_name (ck_accessToken (cookies m)))"

definition header_refreshToken ::
  "(string \<Rightarrow> (string \<rightharpoonup> string)) \<Rightarrow> token_session_manager \<Rightarrow> fetch_request
     \<Rightarrow> string option" where
  "header_refreshToken parse m request =
     header_cookies parse request (co_name (ck_refreshToken (cookies m)))"

text \<open>The test of \<^verbatim>\<open>handleRequest\<close>: \<^verbatim>\<open>!accessToken && refreshToken && refresh\<close>.\<close>

definition should_refresh :: "string option \<Rightarrow> string option \<Rightarrow> jsval \<Rightarrow> bool" where
  "should_refresh accessTok refreshTok refresh =
     (\<not> truthy_str accessTok \<and> truthy_str refreshTok \<and> truthy refresh)"

text \<open>The cookie list a response has before \<^verbatim>\<open>push\<close>.\<close>

definition old_cookies :: "internal_response \<Rightarrow> cookie list" where
  "old_cookies response = (case resp_cookies response of None \<Rightarrow> [] | Some old \<Rightarrow> old)"

text \<open>The authorization URL of an OAuth provider with its configured parameters set.\<close>

definition authorization_url_template :: "oauth_provider \<Rightarrow> url \<Rightarrow> url" where
  "authorization_url_template p url0 =
     set_string_params
       (case ep_params (ep_authorization (oa_endpoints p)) of None \<Rightarrow> [] | Some ps \<Rightarrow> ps) url0"

text \<open>An OIDC provider once the lazy initialization of a request has run.\<close>

definition initialized_provider ::
  "platform \<Rightarrow> oauth_library \<Rightarrow> oidc_provider \<Rightarrow> oidc_provider" where
  "initialized_provider pf lib p = after (ensure_initialized pf lib p)"

text \<open>The provider as the PKCE block and the nonce block of \<^verbatim>\<open>signIn\<close> find it.\<close>

definition before_pkce :: "oidc_provider checks_module \<Rightarrow> oidc_provider \<Rightarrow> oidc_provider" where
  "before_pkce ch p = after (signIn_state ch p)"

definition before_nonce :: "oidc_provider checks_module \<Rightarrow> oidc_provider \<Rightarrow> oidc_provider" where
  "before_nonce ch p = after (signIn_pkce ch (before_pkce ch p))"

text \<open>A method keeps a relation between the object before and after it, whatever it returns.\<close>

definition maintains :: "('s \<Rightarrow> 's \<Rightarrow> bool) \<Rightarrow> ('s, 'a) proc \<Rightarrow> bool" where
  "maintains R m = (\<forall>s. R s (after (m s)))"

text \<open>The part of \<^verbatim>\<open>oauthFlow\<close> other than the authorization URL.\<close>

definition flow_rest ::
  "oauth_flow \<Rightarrow> url \<times> (http_response \<Rightarrow> error + http_response) option \<times> url" where
  "flow_rest flow = (flow_token_url flow, flow_token_conform flow, flow_userinfo_url flow)"

text \<open>
  What a login keeps of an OIDC provider: every field but the list of checks and the
  authorization URL; and the list of checks changes only by the PKCE fallback.
\<close>

definition login_frame :: "oidc_provider \<Rightarrow> oidc_provider \<Rightarrow> bool" where
  "login_frame p p' =
     (initialized p' = initialized p \<and> provider p' = provider p \<and>
      config p' = (config p)\<lparr> cf_checks := cf_checks (config p') \<rparr> \<and>
      authorizationServer p' = authorizationServer p \<and> client p' = client p \<and>
      oidc_cookies p' = oidc_cookies p \<and> oidc_jwt p' = oidc_jwt p \<and>
      oidc_pages p' = oidc_pages p \<and> oidc_onAuth p' = oidc_onAuth p \<and>
      map_option flow_rest (oauthFlow p') = map_option flow_rest (oauthFlow p) \<and>
      (cf_checks (config p') = cf_checks (config p) \<or>
       checks_include p Pkce \<and> \<not> supports_S256 p \<and> cf_checks (config p') = Some [Nonce]))"

text \<open>What the initialization keeps: everything the constructor took from its arguments.\<close>

definition init_frame :: "oidc_provider \<Rightarrow> oidc_provider \<Rightarrow> bool" where
  "init_frame p p' =
     (provider p' = provider p \<and> config p' = config p \<and> client p' = client p \<and>
      oidc_cookies p' = oidc_cookies p \<and> oidc_jwt p' = oidc_jwt p \<and>
      oidc_pages p' = oidc_pages p \<and> oidc_onAuth p' = oidc_onAuth p)"

section \<open>Example collaborators, providers and requests\<close>

text \<open>
  A JWT library that knows two tokens and rejects every other one, as \<^verbatim>\<open>jwtDecrypt\<close>
  rejects a token it cannot decrypt.
\<close>

definition test_jwt_library :: jwt_library where
  "test_jwt_library =
     \<lparr> hkdf = (\<lambda>s. Inr (''key:'' @ s)),
       jwtDecrypt = (\<lambda>tok key.
          if tok = ''jwt(refresh-7)'' then Inr (JStr ''refresh-7'')
          else if tok = ''jwt(access-7)'' then Inr (JStr ''access-7'')
          else Inl (Thrown ''JWEDecryptionFailed'')),
       encryptJWT = (\<lambda>payload exp key.
          case payload of JStr s \<Rightarrow> Inr (''jwt('' @ s @ '')'') | _ \<Rightarrow> Inr ''jwt(object)''),
       now = 1000 \<rparr>"

definition test_serialize_options :: serialize_options where
  "test_serialize_options =
     \<lparr> opt_path = Some ''/'', opt_domain = None, opt_maxAge = None, opt_secure = Some False,
       opt_httpOnly = Some True, opt_sameSite = Some ''lax'' \<rparr>"

definition test_cookies_options :: cookies_options where
  "test_cookies_options =
     \<lparr> ck_accessToken = \<lparr> co_name = ''access'', co_options = test_serialize_options \<rparr>,
       ck_refreshToken = \<lparr> co_name = ''refresh'', co_options = test_serialize_options \<rparr> \<rparr>"

definition test_config :: token_session_config where
  "test_config =
     \<lparr> cfg_secret = ''s3cret'', cfg_jwt = None, cfg_maxAge_accessToken = None,
       cfg_maxAge_refreshToken = None, cfg_useSecureCookies = None,
       cfg_createSession = (\<lambda>user.
          Inr (Some \<lparr> accessToken = JStr ''access-7'', refreshToken = JStr ''refresh-7'' \<rparr>)),
       cfg_refreshSession = (\<lambda>refresh.
          Inr (Some \<lparr> accessToken = JStr ''access-8'', refreshToken = JStr ''refresh-8'' \<rparr>)),
       cfg_onInvalidateSession = None \<rparr>"

text \<open>A manager with the default codec, and one whose invalidation hook throws.\<close>

definition test_manager :: token_session_manager where
  "test_manager = TokenSessionManager test_jwt_library (\<lambda>secure. test_cookies_options) test_config"

definition test_manager_failing_hook :: token_session_manager where
  "test_manager_failing_hook =
     TokenSessionManager test_jwt_library (\<lambda>secure. test_cookies_options)
       (test_config\<lparr> cfg_onInvalidateSession :=
          Some (\<lambda>session refresh. Inl (Thrown ''session store unavailable'')) \<rparr>)"

definition test_url :: "string \<Rightarrow> string \<Rightarrow> url" where
  "test_url origin base = \<lparr> url_origin = origin, url_base = base, searchParams = [] \<rparr>"

definition test_request :: "(string \<rightharpoonup> string) \<Rightarrow> internal_request" where
  "test_request cs =
     \<lparr> req_url = test_url ''https://app.example'' ''https://app.example/'', req_cookies = cs \<rparr>"

text \<open>A cookie header parser for headers with one cookie.\<close>

definition test_parse :: "string \<Rightarrow> (string \<rightharpoonup> string)" where
  "test_parse header =
     (if header = ''access=tampered'' then [''access'' \<mapsto> ''tampered'']
      else if header = ''access=jwt(access-7)'' then [''access'' \<mapsto> ''jwt(access-7)'']
      else Map.empty)"

text \<open>A platform whose URLs are the non-empty strings.\<close>

definition test_platform :: platform where
  "test_platform =
     \<lparr> parseURL = (\<lambda>s. if s = [] then None else Some (test_url ''https://idp.example'' s)),
       urlToString = (\<lambda>u.
          case searchParams u of
            [] \<Rightarrow> url_base u
          | (k, v) # ps \<Rightarrow>
              url_base u @ ''?'' @ k @ ''='' @ v
                @ concat (map (\<lambda>(k', v'). ''&'' @ k' @ ''='' @ v') ps)) \<rparr>"

definition test_cookie :: "string \<Rightarrow> string \<Rightarrow> cookie" where
  "test_cookie n v =
     \<lparr> cookie_name = n, cookie_value = v, cookie_options = Some test_serialize_options \<rparr>"

text \<open>
  A checks module: each \<^verbatim>\<open>create\<close> gives a fixed value and its cookie, each \<^verbatim>\<open>use\<close> throws
  without its cookie and gives the value and a clearing cookie with it.
\<close>

definition test_use ::
  "string \<Rightarrow> string \<Rightarrow> string \<Rightarrow> internal_request \<Rightarrow> error + (jsval \<times> cookie option)" where
  "test_use n enc v request =
     (case req_cookies request n of
        None \<Rightarrow> Inl (Thrown (n @ '' cookie was missing''))
      | Some tok \<Rightarrow>
          if tok = enc
          then Inr (JStr v,
                 Some ((test_cookie n [])
                   \<lparr> cookie_options := Some (test_serialize_options\<lparr> opt_maxAge := Some 0 \<rparr>) \<rparr>))
          else Inl (Thrown (n @ '' value could not be parsed'')))"

definition test_checks :: "'p checks_module" where
  "test_checks =
     \<lparr> state_create = (\<lambda>p. Inr (''st-1'', test_cookie ''state'' ''enc(st-1)'')),
       state_use = (\<lambda>request p. test_use ''state'' ''enc(st-1)'' ''st-1'' request),
       pkce_create = (\<lambda>p. Inr (''challenge-1'', test_cookie ''pkce'' ''enc(verifier-1)'')),
       pkce_use = (\<lambda>request p. test_use ''pkce'' ''enc(verifier-1)'' ''verifier-1'' request),
       nonce_create = (\<lambda>p. Inr (''n-1'', test_cookie ''nonce'' ''enc(n-1)'')),
       nonce_use = (\<lambda>request p. test_use ''nonce'' ''enc(n-1)'' ''n-1'' request) \<rparr>"

text \<open>
  An OAuth library: the authorization response is rejected when its \<^verbatim>\<open>state\<close> is not the
  expected one; discovery finds an authorization server that does not announce its code
  challenge methods.
\<close>

definition test_oauth_library :: oauth_library where
  "test_oauth_library =
     \<lparr> discoveryRequest = (\<lambda>u. Inr (JStr ''metadata'')),
       processDiscoveryResponse = (\<lambda>u r.
          Inr \<lparr> issuer = Some (url_base u),
                authorization_endpoint = Some (url_base u @ ''/authorize''),
                token_endpoint = Some (url_base u @ ''/token''),
                userinfo_endpoint = None,
                code_challenge_methods_supported = None \<rparr>),
       validateAuthResponse = (\<lambda>server cl params expected.
          case expected of
            JStr s \<Rightarrow>
              if params_get ''state'' params = Some s then Inr (NotOAuth2Error params)
              else Inl (Thrown ''unexpected state response parameter value'')
          | _ \<Rightarrow> Inr (NotOAuth2Error params)),
       authorizationCodeGrantRequest = (\<lambda>server cl params redirect verifier.
          Inr (JStr ''token response'')),
       parseWwwAuthenticateChallenges = (\<lambda>r. Inr None),
       processAuthorizationCodeOAuth2Response = (\<lambda>server cl r.
          Inr (NotOAuth2Error [(''access_token'', JStr ''at-1'')])),
       processAuthorizationCodeOpenIDResponse = (\<lambda>server cl r nonce.
          Inr (NotOAuth2Error [(''id_token'', JStr ''id-1'')])),
       getValidatedIdTokenClaims = (\<lambda>tokens. Inr (JObj [(''sub'', JStr ''7'')])),
       userInfoRequest = (\<lambda>server cl token. Inr (JObj [(''login'', JStr ''octo'')])) \<rparr>"

definition test_endpoint :: "string \<Rightarrow> endpoint" where
  "test_endpoint u = \<lparr> ep_url = u, ep_params = None, ep_request = None, ep_conform = None \<rparr>"

definition test_user_options :: oauth_user_config where
  "test_user_options =
     \<lparr> uo_id = None, uo_clientId = ''abc'', uo_clientSecret = ''xyz'', uo_client = None,
       uo_onAuth = None, uo_checks = None, uo_pages = None, uo_endpoints = None,
       uo_jwt = None, uo_useSecureCookies = None \<rparr>"

definition test_default_options :: oauth_default_config where
  "test_default_options =
     \<lparr> dc_id = ''github'', dc_checks = None, dc_client = None,
       dc_endpoints =
         \<lparr> ep_authorization = test_endpoint ''https://github.com/login/oauth/authorize'',
           ep_token = test_endpoint ''https://github.com/login/oauth/access_token'',
           ep_userinfo = test_endpoint ''https://api.github.com/user'' \<rparr> \<rparr>"

text \<open>An OAuth provider with the default checks, and one whose preset asks for \<^verbatim>\<open>state\<close>.\<close>

definition test_oauth_provider :: oauth_provider where
  "test_oauth_provider =
     OAuthProvider
       (mergeOAuthOptions (\<lambda>secure. test_cookies_options) test_user_options test_default_options)"

definition test_state_provider :: oauth_provider where
  "test_state_provider =
     OAuthProvider
       (mergeOAuthOptions (\<lambda>secure. test_cookies_options) test_user_options
          (test_default_options\<lparr> dc_checks := Some [State] \<rparr>))"

definition test_oidc_config :: oidc_config where
  "test_oidc_config =
     \<lparr> cf_id = ''google'', cf_issuer = Some ''https://accounts.google.com'',
       cf_clientId = Some ''abc'', cf_clientSecret = Some ''xyz'', cf_client = None,
       cf_authorization = EpUndefined, cf_token = EpUndefined, cf_checks = None,
       cf_profile = None, cf_options = None \<rparr>"

definition test_oidc_options :: oidc_options where
  "test_oidc_options =
     \<lparr> op_useSecureCookies = None, op_onAuth = None, op_jwt = None,
       op_pages = Some \<lparr> pg_signIn = Some ''/auth/login/google'',
                         pg_signOut = Some ''/auth/logout/google'',
                         pg_oidc_callback = Some ''/auth/callback/google'' \<rparr> \<rparr>"

text \<open>An OIDC provider as the constructor leaves it, and the same after its first request.\<close>

definition test_oidc_provider :: oidc_provider where
  "test_oidc_provider =
     OIDCProvider (\<lambda>prov options. prov) (\<lambda>profile tokens. Inr profile)
       (\<lambda>secure. test_cookies_options) test_oidc_config test_oidc_options"

definition test_oidc_initialized :: oidc_provider where
  "test_oidc_initialized =
     initialized_provider test_platform test_oauth_library test_oidc_provider"


section \<open>Calls and results: basic facts\<close>

lemma bind_cases:
  "bind m f =
     (case snd m of
        Inl e \<Rightarrow> (fst m, Inl e)
      | Inr x \<Rightarrow> (fst m @ fst (f x), snd (f x)))"
  by (cases m) (simp add: bind_def split: sum.splits prod.splits)

lemma outcome_pair [simp]: "outcome (t, r) = r"
  by (simp add: outcome_def)

lemma calls_pair [simp]: "calls (t, r) = t"
  by (simp add: calls_def)

lemmas comp_simps = ret_def throw_def call_def

lemma sbind_cases:
  "sbind m f s =
     (case result (m s) of
        Inl e \<Rightarrow> (after (m s), made (m s), Inl e)
      | Inr x \<Rightarrow> (after (f x (after (m s))), made (m s) @ made (f x (after (m s))),
                  result (f x (after (m s)))))"
  by (cases "m s") (auto simp: sbind_def after_def made_def result_def split: sum.splits prod.splits)

lemma proc_simps [simp]:
  "sret x s = (s, [], Inr x)"
  "sthrow e s = (s, [], Inl e)"
  "sget s = (s, [], Inr s)"
  "smodify g s = (g s, [], Inr ())"
  "scall ev h s = (s, [ev], h s)"
  "slift r s = (s, [], r)"
  by (simp_all add: sret_def sthrow_def sget_def smodify_def scall_def slift_def)

lemma proj_simps [simp]:
  "after (s, t, r) = s" "made (s, t, r) = t" "result (s, t, r) = r"
  by (simp_all add: after_def made_def result_def)

lemma proc_eq: "r = (after r, made r, result r)"
  by (cases r) simp

lemma maintains_sbind:
  assumes "transp R" "maintains R m" "\<And>x. maintains R (f x)"
  shows "maintains R (sbind m f)"
  unfolding maintains_def
proof
  fix s
  show "R s (after (sbind m f s))"
  proof (cases "result (m s)")
    case (Inl e)
    then show ?thesis using assms(2) by (simp add: sbind_cases maintains_def)
  next
    case (Inr x)
    have "R s (after (m s))" using assms(2) by (simp add: maintains_def)
    moreover have "R (after (m s)) (after (f x (after (m s))))"
      using assms(3) by (simp add: maintains_def)
    ultimately show ?thesis using Inr assms(1) by (auto simp: sbind_cases dest: transpD)
  qed
qed

lemma maintains_basic:
  "reflp R \<Longrightarrow> maintains R (sret x)"
  "reflp R \<Longrightarrow> maintains R (sthrow e)"
  "reflp R \<Longrightarrow> maintains R sget"
  "reflp R \<Longrightarrow> maintains R (scall ev h)"
  "reflp R \<Longrightarrow> maintains R (slift r)"
  by (simp_all add: maintains_def reflpD)

lemma maintains_smodify: "(\<And>s. R s (g s)) \<Longrightarrow> maintains R (smodify g)"
  by (simp add: maintains_def)

lemma maintains_cases:
  "(c \<Longrightarrow> maintains R a) \<Longrightarrow> (\<not> c \<Longrightarrow> maintains R b) \<Longrightarrow> maintains R (if c then a else b)"
  "(\<And>a b. maintains R (f2 a b)) \<Longrightarrow> maintains R (case_prod f2 pr)"
  "maintains R g \<Longrightarrow> (\<And>x. maintains R (f1 x)) \<Longrightarrow> maintains R (case_option g f1 opt)"
  "(\<And>d. maintains R (fe d)) \<Longrightarrow> (\<And>x. maintains R (fn x)) \<Longrightarrow>
     maintains R (case_or_oauth2_error fe fn oe)"
  "(\<And>v. maintains R (fi v)) \<Longrightarrow> (\<And>r. maintains R (fp r)) \<Longrightarrow>
     maintains R (case_awaitable fi fp aw)"
  by (auto split: prod.splits option.splits or_oauth2_error.splits awaitable.splits)

lemmas maintains_eq =
  maintains_sbind [where R = "(=)", OF transp_on_equality]
  maintains_basic [where R = "(=)", OF reflp_on_equality]
  maintains_cases [where R = "(=)"]

section \<open>Token codec and session manager\<close>

lemma createCookies_cases:
  "createCookies m s =
     (if truthy (session_accessToken s)
      then (case encode_access m s of
              Inl e \<Rightarrow> ([CallEncode (session_accessToken s) (max_accessToken (maxAge m))], Inl e)
            | Inr va \<Rightarrow>
               (if truthy (session_refreshToken s)
                then (case encode_refresh m s of
                       Inl e \<Rightarrow> ([CallEncode (session_accessToken s) (max_accessToken (maxAge m)),
                                  CallEncode (session_refreshToken s) (max_refreshToken (maxAge m))], Inl e)
                     | Inr vr \<Rightarrow> ([CallEncode (session_accessToken s) (max_accessToken (maxAge m)),
                                  CallEncode (session_refreshToken s) (max_refreshToken (maxAge m))],
                                  Inr [access_cookie m va, refresh_cookie m vr]))
                else ([CallEncode (session_accessToken s) (max_accessToken (maxAge m))],
                      Inr [access_cookie m va])))
      else (if truthy (session_refreshToken s)
            then (case encode_refresh m s of
                    Inl e \<Rightarrow> ([CallEncode (session_refreshToken s) (max_refreshToken (maxAge m))], Inl e)
                  | Inr vr \<Rightarrow> ([CallEncode (session_refreshToken s) (max_refreshToken (maxAge m))],
                               Inr [refresh_cookie m vr]))
            else ([], Inr [])))"
  by (simp add: createCookies_def call_encode_def encode_access_def encode_refresh_def
        bind_cases comp_simps split: sum.splits)

lemma createCookies_calls:
  "ev \<in> set (calls (createCookies m s)) \<Longrightarrow> \<exists>t a. ev = CallEncode t a"
  by (auto simp: createCookies_cases split: sum.splits if_splits)

lemma handleRequest_cases:
  "handleRequest m request =
     (case decoded m (request_refreshToken m request) of
        Inl e \<Rightarrow> ([CallDecode (request_refreshToken m request)], Inl e)
      | Inr refresh \<Rightarrow>
          if should_refresh (request_accessToken m request) (request_refreshToken m request) refresh
          then (case refreshSession m refresh of
                  Inl e \<Rightarrow> ([CallDecode (request_refreshToken m request),
                              CallRefreshSession refresh], Inl e)
                | Inr s \<Rightarrow>
                    (CallDecode (request_refreshToken m request) # CallRefreshSession refresh
                       # calls (createCookies m s),
                     case outcome (createCookies m s) of
                       Inl e \<Rightarrow> Inl e
                     | Inr cs \<Rightarrow> Inr (empty_response\<lparr> resp_cookies := Some cs \<rparr>)))
          else ([CallDecode (request_refreshToken m request)], Inr empty_response))"
  unfolding handleRequest_def Let_def call_decode_def decoded_def request_accessToken_def
    request_refreshToken_def should_refresh_def
  by (simp add: bind_cases call_def ret_def calls_def outcome_def split: sum.splits)

lemma invalidate_cases:
  "invalidate m session refresh =
     (if truthy session
      then (case onInvalidateSession m of
              None \<Rightarrow> ([], Inr empty_response)
            | Some hook \<Rightarrow>
                (case hook session refresh of
                   Inl e \<Rightarrow> ([CallInvalidateSession session refresh], Inl e)
                 | Inr None \<Rightarrow> ([CallInvalidateSession session refresh], Inr empty_response)
                 | Inr (Some response) \<Rightarrow> ([CallInvalidateSession session refresh], Inr response)))
      else ([], Inr empty_response))"
  by (simp add: invalidate_def bind_cases call_def ret_def split: sum.splits option.splits)

lemma logout_cases:
  "logout parse m request =
     (case decoded m (header_accessToken parse m request) of
        Inl e \<Rightarrow> ([CallDecode (header_accessToken parse m request)], Inl e)
      | Inr session \<Rightarrow>
         (case decoded m (header_refreshToken parse m request) of
            Inl e \<Rightarrow> ([CallDecode (header_accessToken parse m request),
                        CallDecode (header_refreshToken parse m request)], Inl e)
          | Inr refresh \<Rightarrow>
              (CallDecode (header_accessToken parse m request)
                 # CallDecode (header_refreshToken parse m request)
                 # calls (invalidate m session refresh),
               case outcome (invalidate m session refresh) of
                 Inl e \<Rightarrow> Inl e
               | Inr response \<Rightarrow>
                   Inr (push_cookies response [clear_access_cookie m, clear_refresh_cookie m]))))"
  unfolding logout_def Let_def call_decode_def decoded_def header_accessToken_def
    header_refreshToken_def
  by (simp add: bind_cases call_def ret_def calls_def outcome_def split: sum.splits)

lemma default_decoder_absent:
  "cfg_jwt c = None \<Longrightarrow>
   decoded (TokenSessionManager lib createCookiesOptions c) None = Inr JNull"
  by (simp add: decoded_def TokenSessionManager_def decode_def)

lemma handleResponse_cases:
  "handleResponse m response =
     (if \<not> truthy (resp_user response) then ([], Inr response)
      else (case createSession m (resp_user response) of
              Inl e \<Rightarrow> ([CallCreateSession (resp_user response)], Inl e)
            | Inr s \<Rightarrow>
                (CallCreateSession (resp_user response) # calls (createCookies m s),
                 case outcome (createCookies m s) of
                   Inl e \<Rightarrow> Inl e
                 | Inr cs \<Rightarrow> Inr (push_cookies response cs))))"
  by (simp add: handleResponse_def bind_cases call_def ret_def calls_def outcome_def
        split: sum.splits)

lemmas test_manager_defs =
  test_manager_def test_manager_failing_hook_def TokenSessionManager_def test_jwt_library_def
  test_config_def test_cookies_options_def test_serialize_options_def encode_def decode_def
  getDerivedEncryptionKey_def DefaultAccessTokenMaxAge_def DefaultRefreshTokenMaxAge_def
  test_request_def test_url_def test_parse_def

text \<open>
  C3, as stated: \<^verbatim>\<open>decode\<close> never throws on a malformed, tampered or expired token and
  returns null for a token with a mutated byte. It fails on the code: \<^verbatim>\<open>decode\<close> has no
  \<^verbatim>\<open>try\<close>, so what \<^verbatim>\<open>jwtDecrypt\<close> rejects, \<^verbatim>\<open>decode\<close> rejects.
\<close>

theorem decode_rejects_tampered_token:
  "decode test_jwt_library \<lparr> dec_token = Some ''tampered'', dec_secret = ''s3cret'' \<rparr> =
     Inl (Thrown ''JWEDecryptionFailed'')"
  by (simp add: test_manager_defs)

text \<open>
  C3, amended: \<^verbatim>\<open>decode\<close> returns null when the token is missing; for a token that is
  there it returns what \<^verbatim>\<open>jwtDecrypt\<close> resolves with and rejects with what \<^verbatim>\<open>jwtDecrypt\<close> or the
  key derivation rejects with. A failure is never turned into null.
\<close>

theorem decode_null_or_jwtDecrypt:
  "decode lib \<lparr> dec_token = None, dec_secret = s \<rparr> = Inr JNull \<and>
   (hkdf lib s = Inr key \<longrightarrow>
      decode lib \<lparr> dec_token = Some tok, dec_secret = s \<rparr> = jwtDecrypt lib tok key) \<and>
   (hkdf lib s = Inl e \<longrightarrow> decode lib \<lparr> dec_token = Some tok, dec_secret = s \<rparr> = Inl e)"
  by (simp add: decode_def getDerivedEncryptionKey_def)

text \<open>The amended C3 on the example library: a missing token, and a token the library knows.\<close>

theorem decode_null_or_jwtDecrypt_witness:
  "hkdf test_jwt_library ''s3cret'' = Inr ''key:s3cret'' \<and>
   decode test_jwt_library \<lparr> dec_token = None, dec_secret = ''s3cret'' \<rparr> = Inr JNull \<and>
   decode test_jwt_library \<lparr> dec_token = Some ''jwt(access-7)'', dec_secret = ''s3cret'' \<rparr> =
     Inr (JStr ''access-7'')"
  using decode_null_or_jwtDecrypt [of test_jwt_library "''s3cret''" "''key:s3cret''"
      "''jwt(access-7)''"]
  by (simp add: test_jwt_library_def)

text \<open>
  C4, as stated: an access-token cookie is emitted if and only if the session's
  \<^verbatim>\<open>accessToken\<close> is defined. It fails on the code, which tests the token for truthiness: a
  session whose access token is the empty string gets no cookie.
\<close>

theorem createCookies_skips_empty_token:
  "JStr [] \<noteq> JUndefined \<and>
   createCookies test_manager (Some \<lparr> accessToken = JStr [], refreshToken = JUndefined \<rparr>) =
     ([], Inr [])"
  by (simp add: createCookies_cases session_accessToken_def session_refreshToken_def)

text \<open>
  C4, amended: when \<^verbatim>\<open>createCookies\<close> returns, its list is the access-token cookie if and only
  if the session's \<^verbatim>\<open>accessToken\<close> is truthy, followed by the refresh-token cookie if and only
  if its \<^verbatim>\<open>refreshToken\<close> is truthy. The access-token cookie has the name and the options of
  \<^verbatim>\<open>cookies.accessToken\<close>, the value the encoder gave for the access token and the max-age
  \<^verbatim>\<open>maxAge.accessToken\<close>; the refresh-token cookie has those of \<^verbatim>\<open>cookies.refreshToken\<close>, of the
  refresh token and of \<^verbatim>\<open>maxAge.refreshToken\<close>. When the two names differ, a cookie of either
  name is in the list exactly when its token is truthy. A value is truthy unless it is
  \<^verbatim>\<open>undefined\<close>, \<^verbatim>\<open>null\<close>, \<^verbatim>\<open>false\<close>, \<^verbatim>\<open>0\<close>, \<^verbatim>\<open>NaN\<close>, \<^verbatim>\<open>0n\<close> or the empty string.
  \<^verbatim>\<open>createCookies\<close> returns whenever the encoder does not throw; for a null or undefined
  session it emits no cookie and calls nothing.
\<close>

theorem createCookies_truthy:
  "createCookies m None = ([], Inr []) \<and>
   (outcome (createCookies m (Some sess)) = Inr cs \<longrightarrow>
      (\<exists>va vr.
         cs =
           (if truthy (accessToken sess)
            then [\<lparr> cookie_name = co_name (ck_accessToken (cookies m)),
                     cookie_value = va,
                     cookie_options =
                       Some ((co_options (ck_accessToken (cookies m)))
                               \<lparr> opt_maxAge := Some (max_accessToken (maxAge m)) \<rparr>) \<rparr>]
            else [])
           @ (if truthy (refreshToken sess)
              then [\<lparr> cookie_name = co_name (ck_refreshToken (cookies m)),
                       cookie_value = vr,
                       cookie_options =
                         Some ((co_options (ck_refreshToken (cookies m)))
                                 \<lparr> opt_maxAge := Some (max_refreshToken (maxAge m)) \<rparr>) \<rparr>]
              else []) \<and>
         (truthy (accessToken sess) \<longrightarrow>
            mgr_encode m \<lparr> enc_token = accessToken sess, enc_secret = secret m,
                            enc_maxAge = Some (max_accessToken (maxAge m)) \<rparr> = Inr va) \<and>
         (truthy (refreshToken sess) \<longrightarrow>
            mgr_encode m \<lparr> enc_token = refreshToken sess, enc_secret = secret m,
                            enc_maxAge = Some (max_refreshToken (maxAge m)) \<rparr> = Inr vr))) \<and>
   (outcome (createCookies m (Some sess)) = Inr cs \<and>
    co_name (ck_accessToken (cookies m)) \<noteq> co_name (ck_refreshToken (cookies m)) \<longrightarrow>
      (\<exists>c \<in> set cs. cookie_name c = co_name (ck_accessToken (cookies m)))
        = truthy (accessToken sess) \<and>
      (\<exists>c \<in> set cs. cookie_name c = co_name (ck_refreshToken (cookies m)))
        = truthy (refreshToken sess) \<and>
      length cs = (if truthy (accessToken sess) then 1 else 0)
                    + (if truthy (refreshToken sess) then 1 else 0)) \<and>
   ((truthy (accessToken sess) \<longrightarrow>
       \<not> isl (mgr_encode m \<lparr> enc_token = accessToken sess, enc_secret = secret m,
                               enc_maxAge = Some (max_accessToken (maxAge m)) \<rparr>)) \<and>
    (truthy (refreshToken sess) \<longrightarrow>
       \<not> isl (mgr_encode m \<lparr> enc_token = refreshToken sess, enc_secret = secret m,
                               enc_maxAge = Some (max_refreshToken (maxAge m)) \<rparr>))
      \<longrightarrow> \<not> isl (outcome (createCookies m (Some sess)))) \<and>
   (\<not> truthy v) = (v \<in> {JUndefined, JNull, JBool False, JNum 0, JNaN, JBigInt 0, JStr []})"
proof -
  let ?ea = "mgr_encode m \<lparr> enc_token = accessToken sess, enc_secret = secret m,
                            enc_maxAge = Some (max_accessToken (maxAge m)) \<rparr>"
  let ?er = "mgr_encode m \<lparr> enc_token = refreshToken sess, enc_secret = secret m,
                            enc_maxAge = Some (max_refreshToken (maxAge m)) \<rparr>"
  have ea: "encode_access m (Some sess) = ?ea"
    by (simp add: encode_access_def session_accessToken_def)
  have er: "encode_refresh m (Some sess) = ?er"
    by (simp add: encode_refresh_def session_refreshToken_def)
  have c: "createCookies m (Some sess) =
     (if truthy (accessToken sess)
      then (case ?ea of
              Inl e \<Rightarrow> ([CallEncode (accessToken sess) (max_accessToken (maxAge m))], Inl e)
            | Inr va \<Rightarrow>
               (if truthy (refreshToken sess)
                then (case ?er of
                       Inl e \<Rightarrow> ([CallEncode (accessToken sess) (max_accessToken (maxAge m)),
                                  CallEncode (refreshToken sess) (max_refreshToken (maxAge m))], Inl e)
                     | Inr vr \<Rightarrow> ([CallEncode (accessToken sess) (max_accessToken (maxAge m)),
                                  CallEncode (refreshToken sess) (max_refreshToken (maxAge m))],
                                  Inr [access_cookie m va, refresh_cookie m vr]))
                else ([CallEncode (accessToken sess) (max_accessToken (maxAge m))],
                      Inr [access_cookie m va])))
      else (if truthy (refreshToken sess)
            then (case ?er of
                    Inl e \<Rightarrow> ([CallEncode (refreshToken sess) (max_refreshToken (maxAge m))], Inl e)
                  | Inr vr \<Rightarrow> ([CallEncode (refreshToken sess) (max_refreshToken (maxAge m))],
                               Inr [refresh_cookie m vr]))
            else ([], Inr [])))"
    by (simp add: createCookies_def call_encode_def session_accessToken_def
          session_refreshToken_def bind_cases comp_simps split: sum.splits)
  have none: "createCookies m None = ([], Inr [])"
    by (simp add: createCookies_cases session_accessToken_def session_refreshToken_def)
  have shape: "outcome (createCookies m (Some sess)) = Inr cs \<longrightarrow>
      (\<exists>va vr.
         cs =
           (if truthy (accessToken sess)
            then [\<lparr> cookie_name = co_name (ck_accessToken (cookies m)),
                     cookie_value = va,
                     cookie_options =
                       Some ((co_options (ck_accessToken (cookies m)))
                               \<lparr> opt_maxAge := Some (max_accessToken (maxAge m)) \<rparr>) \<rparr>]
            else [])
           @ (if truthy (refreshToken sess)
              then [\<lparr> cookie_name = co_name (ck_refreshToken (cookies m)),
                       cookie_value = vr,
                       cookie_options =
                         Some ((co_options (ck_refreshToken (cookies m)))
                                 \<lparr> opt_maxAge := Some (max_refreshToken (maxAge m)) \<rparr>) \<rparr>]
              else []) \<and>
         (truthy (accessToken sess) \<longrightarrow> ?ea = Inr va) \<and>
         (truthy (refreshToken sess) \<longrightarrow> ?er = Inr vr))"
    unfolding c
    by (auto simp: access_cookie_def refresh_cookie_def split: sum.splits if_splits)
  have names: "outcome (createCookies m (Some sess)) = Inr cs \<and>
    co_name (ck_accessToken (cookies m)) \<noteq> co_name (ck_refreshToken (cookies m)) \<longrightarrow>
      (\<exists>c \<in> set cs. cookie_name c = co_name (ck_accessToken (cookies m)))
        = truthy (accessToken sess) \<and>
      (\<exists>c \<in> set cs. cookie_name c = co_name (ck_refreshToken (cookies m)))
        = truthy (refreshToken sess) \<and>
      length cs = (if truthy (accessToken sess) then 1 else 0)
                    + (if truthy (refreshToken sess) then 1 else 0)"
    unfolding c
    by (auto simp: access_cookie_def refresh_cookie_def split: sum.splits if_splits)
  have total: "(truthy (accessToken sess) \<longrightarrow> \<not> isl ?ea) \<and>
    (truthy (refreshToken sess) \<longrightarrow> \<not> isl ?er)
      \<longrightarrow> \<not> isl (outcome (createCookies m (Some sess)))"
    unfolding c
    by (auto split: sum.splits if_splits)
  have falsy: "(\<not> truthy v) = (v \<in> {JUndefined, JNull, JBool False, JNum 0, JNaN, JBigInt 0, JStr []})"
    by (cases v) auto
  from none shape names total falsy show ?thesis by blast
qed

text \<open>
  The amended C4 on the example manager: a session with an access token only, and one whose
  access token is \<^verbatim>\<open>NaN\<close> and that has a refresh token.
\<close>

theorem createCookies_truthy_witness:
  "outcome (createCookies test_manager
      (Some \<lparr> accessToken = JStr ''access-7'', refreshToken = JUndefined \<rparr>)) =
     Inr [\<lparr> cookie_name = ''access'', cookie_value = ''jwt(access-7)'',
            cookie_options = Some (test_serialize_options\<lparr> opt_maxAge := Some 3600 \<rparr>) \<rparr>] \<and>
   outcome (createCookies test_manager
      (Some \<lparr> accessToken = JNaN, refreshToken = JStr ''refresh-7'' \<rparr>)) =
     Inr [\<lparr> cookie_name = ''refresh'', cookie_value = ''jwt(refresh-7)'',
            cookie_options = Some (test_serialize_options\<lparr> opt_maxAge := Some 604800 \<rparr>) \<rparr>]"
proof -
  let ?a = "\<lparr> accessToken = JStr ''access-7'', refreshToken = JUndefined \<rparr>"
  let ?r = "\<lparr> accessToken = JNaN, refreshToken = JStr ''refresh-7'' \<rparr>"
  have fields:
    "co_name (ck_accessToken (cookies test_manager)) = ''access''"
    "co_name (ck_refreshToken (cookies test_manager)) = ''refresh''"
    "co_options (ck_accessToken (cookies test_manager)) = test_serialize_options"
    "co_options (ck_refreshToken (cookies test_manager)) = test_serialize_options"
    "max_accessToken (maxAge test_manager) = 3600"
    "max_refreshToken (maxAge test_manager) = 604800"
    by (simp_all add: test_manager_def TokenSessionManager_def test_config_def
          test_cookies_options_def DefaultAccessTokenMaxAge_def DefaultRefreshTokenMaxAge_def)
  have ea: "mgr_encode test_manager
      \<lparr> enc_token = JStr ''access-7'', enc_secret = secret test_manager,
        enc_maxAge = Some 3600 \<rparr> = Inr ''jwt(access-7)''"
    by (simp add: test_manager_defs)
  have er: "mgr_encode test_manager
      \<lparr> enc_token = JStr ''refresh-7'', enc_secret = secret test_manager,
        enc_maxAge = Some 604800 \<rparr> = Inr ''jwt(refresh-7)''"
    by (simp add: test_manager_defs)
  obtain ca where ca: "outcome (createCookies test_manager (Some ?a)) = Inr ca"
    using createCookies_truthy [where m = test_manager and sess = ?a] ea
    by (cases "outcome (createCookies test_manager (Some ?a))") (simp_all add: fields)
  obtain cr where cr: "outcome (createCookies test_manager (Some ?r)) = Inr cr"
    using createCookies_truthy [where m = test_manager and sess = ?r] er
    by (cases "outcome (createCookies test_manager (Some ?r))") (simp_all add: fields)
  have "ca = [\<lparr> cookie_name = ''access'', cookie_value = ''jwt(access-7)'',
            cookie_options = Some (test_serialize_options\<lparr> opt_maxAge := Some 3600 \<rparr>) \<rparr>]"
    using createCookies_truthy [where m = test_manager and sess = ?a and cs = ca] ca ea
    by (auto simp: fields)
  moreover have "cr = [\<lparr> cookie_name = ''refresh'', cookie_value = ''jwt(refresh-7)'',
            cookie_options = Some (test_serialize_options\<lparr> opt_maxAge := Some 604800 \<rparr>) \<rparr>]"
    using createCookies_truthy [where m = test_manager and sess = ?r and cs = cr] cr er
    by (auto simp: fields)
  ultimately show ?thesis
    using ca cr by simp
qed

text \<open>
  C5, as stated: when the refresh cookie fails to decode, the request passes through with
  an empty response. It fails on the code with the default decoder: \<^verbatim>\<open>handleRequest\<close> has no
  \<^verbatim>\<open>try\<close> around the decoding, so a refresh cookie that \<^verbatim>\<open>jwtDecrypt\<close> rejects makes
  \<^verbatim>\<open>handleRequest\<close> throw.
\<close>

theorem handleRequest_throws_on_tampered_refresh:
  "handleRequest test_manager (test_request [''refresh'' \<mapsto> ''tampered'']) =
     ([CallDecode (Some ''tampered'')], Inl (Thrown ''JWEDecryptionFailed''))"
  by (simp add: handleRequest_cases decoded_def request_refreshToken_def test_manager_defs)

text \<open>
  C5, amended: \<^verbatim>\<open>handleRequest\<close> first decodes the refresh cookie, and throws what the decoder
  throws. When the decoder returns, the refresh callback is invoked exactly when the access
  cookie is missing or empty, the refresh cookie is not, and the decoded payload is truthy; it
  is given that payload, and the response carries exactly the cookies \<^verbatim>\<open>createCookies\<close> makes
  for the new session (an exception of the callback or of the encoder is thrown on). In
  every other case the response is empty. The session-creation callback is never invoked,
  and after the refresh callback only the encoder is called.
\<close>

theorem handleRequest_refresh:
  "(decoded m (request_refreshToken m request) = Inl e \<longrightarrow>
      handleRequest m request = ([CallDecode (request_refreshToken m request)], Inl e)) \<and>
   (decoded m (request_refreshToken m request) = Inr refresh \<and>
    \<not> should_refresh (request_accessToken m request) (request_refreshToken m request) refresh \<longrightarrow>
      handleRequest m request = ([CallDecode (request_refreshToken m request)], Inr empty_response)) \<and>
   (decoded m (request_refreshToken m request) = Inr refresh \<and>
    should_refresh (request_accessToken m request) (request_refreshToken m request) refresh \<longrightarrow>
      (\<exists>t. calls (handleRequest m request) =
              CallDecode (request_refreshToken m request) # CallRefreshSession refresh # t \<and>
            (\<forall>ev \<in> set t. \<exists>tok age. ev = CallEncode tok age)) \<and>
      (refreshSession m refresh = Inl e \<longrightarrow> outcome (handleRequest m request) = Inl e) \<and>
      (refreshSession m refresh = Inr s \<and> outcome (createCookies m s) = Inl e \<longrightarrow>
         outcome (handleRequest m request) = Inl e) \<and>
      (refreshSession m refresh = Inr s \<and> outcome (createCookies m s) = Inr cs \<longrightarrow>
         outcome (handleRequest m request) = Inr (empty_response\<lparr> resp_cookies := Some cs \<rparr>))) \<and>
   (\<forall>user. CallCreateSession user \<notin> set (calls (handleRequest m request))) \<and>
   ((\<exists>x. CallRefreshSession x \<in> set (calls (handleRequest m request))) =
    (\<exists>x. decoded m (request_refreshToken m request) = Inr x \<and>
         should_refresh (request_accessToken m request) (request_refreshToken m request) x))"
proof (intro conjI impI allI)
  assume "decoded m (request_refreshToken m request) = Inl e"
  then show "handleRequest m request = ([CallDecode (request_refreshToken m request)], Inl e)"
    by (simp add: handleRequest_cases)
next
  assume "decoded m (request_refreshToken m request) = Inr refresh \<and>
    \<not> should_refresh (request_accessToken m request) (request_refreshToken m request) refresh"
  then show "handleRequest m request =
      ([CallDecode (request_refreshToken m request)], Inr empty_response)"
    by (simp add: handleRequest_cases)
next
  assume a: "decoded m (request_refreshToken m request) = Inr refresh \<and>
    should_refresh (request_accessToken m request) (request_refreshToken m request) refresh"
  show "\<exists>t. calls (handleRequest m request) =
              CallDecode (request_refreshToken m request) # CallRefreshSession refresh # t \<and>
            (\<forall>ev \<in> set t. \<exists>tok age. ev = CallEncode tok age)"
    using a createCookies_calls by (auto simp: handleRequest_cases split: sum.splits)
  {
    assume "refreshSession m refresh = Inl e"
    then show "outcome (handleRequest m request) = Inl e"
      using a by (simp add: handleRequest_cases)
  }
  {
    assume "refreshSession m refresh = Inr s \<and> outcome (createCookies m s) = Inl e"
    then show "outcome (handleRequest m request) = Inl e"
      using a by (simp add: handleRequest_cases)
  }
  {
    assume "refreshSession m refresh = Inr s \<and> outcome (createCookies m s) = Inr cs"
    then show "outcome (handleRequest m request) =
        Inr (empty_response\<lparr> resp_cookies := Some cs \<rparr>)"
      using a by (simp add: handleRequest_cases)
  }
next
  fix user
  show "CallCreateSession user \<notin> set (calls (handleRequest m request))"
    using createCookies_calls by (auto simp: handleRequest_cases split: sum.splits)
next
  show "(\<exists>x. CallRefreshSession x \<in> set (calls (handleRequest m request))) =
    (\<exists>x. decoded m (request_refreshToken m request) = Inr x \<and>
         should_refresh (request_accessToken m request) (request_refreshToken m request) x)"
    using createCookies_calls by (auto simp: handleRequest_cases split: sum.splits)
qed

text \<open>The amended C5 on the example manager: a request with a valid refresh cookie only.\<close>

theorem handleRequest_refresh_witness:
  "decoded test_manager
     (request_refreshToken test_manager (test_request [''refresh'' \<mapsto> ''jwt(refresh-7)''])) =
     Inr (JStr ''refresh-7'') \<and>
   should_refresh
     (request_accessToken test_manager (test_request [''refresh'' \<mapsto> ''jwt(refresh-7)'']))
     (request_refreshToken test_manager (test_request [''refresh'' \<mapsto> ''jwt(refresh-7)'']))
     (JStr ''refresh-7'') \<and>
   outcome (handleRequest test_manager (test_request [''refresh'' \<mapsto> ''jwt(refresh-7)''])) =
     Inr (empty_response\<lparr> resp_cookies :=
            Some [access_cookie test_manager ''jwt(access-8)'',
                  refresh_cookie test_manager ''jwt(refresh-8)''] \<rparr>) \<and>
   (\<forall>user. CallCreateSession user \<notin>
      set (calls (handleRequest test_manager (test_request [''refresh'' \<mapsto> ''jwt(refresh-7)'']))))"
proof -
  let ?rq = "test_request [''refresh'' \<mapsto> ''jwt(refresh-7)'']"
  let ?s = "Some \<lparr> accessToken = JStr ''access-8'', refreshToken = JStr ''refresh-8'' \<rparr>"
  have d: "decoded test_manager (request_refreshToken test_manager ?rq) = Inr (JStr ''refresh-7'')"
    by (simp add: decoded_def request_refreshToken_def test_manager_defs)
  have sr: "should_refresh (request_accessToken test_manager ?rq)
              (request_refreshToken test_manager ?rq) (JStr ''refresh-7'')"
    by (simp add: should_refresh_def request_accessToken_def request_refreshToken_def
          test_manager_defs)
  have rs: "refreshSession test_manager (JStr ''refresh-7'') = Inr ?s"
    by (simp add: test_manager_defs)
  have cc: "outcome (createCookies test_manager ?s) =
      Inr [access_cookie test_manager ''jwt(access-8)'',
           refresh_cookie test_manager ''jwt(refresh-8)'']"
    by (simp add: createCookies_cases session_accessToken_def session_refreshToken_def
          encode_access_def encode_refresh_def test_manager_defs)
  show ?thesis
    using d sr rs cc
      handleRequest_refresh [of test_manager ?rq "Thrown []" "JStr ''refresh-7''" ?s
        "[access_cookie test_manager ''jwt(access-8)'',
          refresh_cookie test_manager ''jwt(refresh-8)'']"]
    by simp
qed

text \<open>
  C2, as stated: \<^verbatim>\<open>logout\<close> returns the two clearing cookies also when decoding a cookie
  fails or the invalidation hook fails, and never throws. It fails on the code: \<^verbatim>\<open>logout\<close>
  has no \<^verbatim>\<open>try\<close>, so an access cookie that \<^verbatim>\<open>jwtDecrypt\<close> rejects, and a hook that throws, each
  make \<^verbatim>\<open>logout\<close> throw before the cookies are pushed.
\<close>

theorem logout_throws_before_clearing:
  "logout test_parse test_manager \<lparr> header_cookie = Some ''access=tampered'' \<rparr> =
     ([CallDecode (Some ''tampered'')], Inl (Thrown ''JWEDecryptionFailed'')) \<and>
   logout test_parse test_manager_failing_hook \<lparr> header_cookie = Some ''access=jwt(access-7)'' \<rparr> =
     ([CallDecode (Some ''jwt(access-7)''), CallDecode None,
       CallInvalidateSession (JStr ''access-7'') JNull],
      Inl (Thrown ''session store unavailable''))"
  by (simp add: logout_cases invalidate_cases decoded_def header_accessToken_def
        header_refreshToken_def header_cookies_def test_manager_defs)

text \<open>
  C2, amended: whenever the decoder returns for both cookies (a payload or null) and the
  invalidation hook, if it is invoked, returns (a response or nothing), \<^verbatim>\<open>logout\<close> returns
  the hook's response, or an empty one, with the clearing cookies of the access and the
  refresh cookie (empty value, max-age 0) at the end of its cookie list; so it does with
  the default decoder when neither cookie is present. The hook is invoked only for a truthy
  decoded session. When the decoder or the hook throws, \<^verbatim>\<open>logout\<close> throws that error and
  returns no response.
\<close>

theorem logout_clears_unless_thrown:
  "(decoded m (header_accessToken parse m request) = Inr session \<and>
    decoded m (header_refreshToken parse m request) = Inr refresh \<and>
    outcome (invalidate m session refresh) = Inr base \<longrightarrow>
      outcome (logout parse m request) =
        Inr (base\<lparr> resp_cookies :=
               Some (old_cookies base @ [clear_access_cookie m, clear_refresh_cookie m]) \<rparr>)) \<and>
   (decoded m (header_accessToken parse m request) = Inl e \<longrightarrow>
      logout parse m request = ([CallDecode (header_accessToken parse m request)], Inl e)) \<and>
   (decoded m (header_accessToken parse m request) = Inr session \<and>
    decoded m (header_refreshToken parse m request) = Inl e \<longrightarrow>
      outcome (logout parse m request) = Inl e) \<and>
   (decoded m (header_accessToken parse m request) = Inr session \<and>
    decoded m (header_refreshToken parse m request) = Inr refresh \<and>
    outcome (invalidate m session refresh) = Inl e \<longrightarrow>
      outcome (logout parse m request) = Inl e) \<and>
   (\<not> truthy session \<or> onInvalidateSession m = None \<longrightarrow>
      invalidate m session refresh = ([], Inr empty_response)) \<and>
   (truthy session \<and> onInvalidateSession m = Some hook \<longrightarrow>
      invalidate m session refresh =
        ([CallInvalidateSession session refresh],
         case hook session refresh of
           Inl err \<Rightarrow> Inl err
         | Inr None \<Rightarrow> Inr empty_response
         | Inr (Some response) \<Rightarrow> Inr response)) \<and>
   (cfg_jwt c = None \<and>
    header_accessToken parse (TokenSessionManager lib createCookiesOptions c) request = None \<and>
    header_refreshToken parse (TokenSessionManager lib createCookiesOptions c) request = None \<longrightarrow>
      outcome (logout parse (TokenSessionManager lib createCookiesOptions c) request) =
        Inr (empty_response\<lparr> resp_cookies :=
               Some [clear_access_cookie (TokenSessionManager lib createCookiesOptions c),
                     clear_refresh_cookie (TokenSessionManager lib createCookiesOptions c)] \<rparr>)) \<and>
   cookie_name (clear_access_cookie m) = co_name (ck_accessToken (cookies m)) \<and>
   cookie_value (clear_access_cookie m) = [] \<and>
   map_option opt_maxAge (cookie_options (clear_access_cookie m)) = Some (Some 0) \<and>
   cookie_name (clear_refresh_cookie m) = co_name (ck_refreshToken (cookies m)) \<and>
   cookie_value (clear_refresh_cookie m) = [] \<and>
   map_option opt_maxAge (cookie_options (clear_refresh_cookie m)) = Some (Some 0)"
proof -
  have dflt: "cfg_jwt c = None \<and>
    header_accessToken parse (TokenSessionManager lib createCookiesOptions c) request = None \<and>
    header_refreshToken parse (TokenSessionManager lib createCookiesOptions c) request = None \<longrightarrow>
      outcome (logout parse (TokenSessionManager lib createCookiesOptions c) request) =
        Inr (empty_response\<lparr> resp_cookies :=
               Some [clear_access_cookie (TokenSessionManager lib createCookiesOptions c),
                     clear_refresh_cookie (TokenSessionManager lib createCookiesOptions c)] \<rparr>)"
    by (simp add: logout_cases default_decoder_absent invalidate_cases push_cookies_def
          empty_response_def)
  show ?thesis
    using dflt
    by (auto simp: logout_cases invalidate_cases push_cookies_def old_cookies_def
          clear_access_cookie_def clear_refresh_cookie_def split: sum.splits option.splits)
qed

text \<open>The amended C2 on the example manager: a request with a valid access cookie, and one without cookies.\<close>

theorem logout_clears_unless_thrown_witness:
  "decoded test_manager
     (header_accessToken test_parse test_manager \<lparr> header_cookie = Some ''access=jwt(access-7)'' \<rparr>) =
     Inr (JStr ''access-7'') \<and>
   outcome (logout test_parse test_manager \<lparr> header_cookie = Some ''access=jwt(access-7)'' \<rparr>) =
     Inr (empty_response\<lparr> resp_cookies :=
            Some [clear_access_cookie test_manager, clear_refresh_cookie test_manager] \<rparr>) \<and>
   outcome (logout test_parse test_manager \<lparr> header_cookie = None \<rparr>) =
     Inr (empty_response\<lparr> resp_cookies :=
            Some [clear_access_cookie test_manager, clear_refresh_cookie test_manager] \<rparr>)"
proof -
  let ?rq = "\<lparr> header_cookie = Some ''access=jwt(access-7)'' \<rparr>"
  have a: "decoded test_manager (header_accessToken test_parse test_manager ?rq) =
      Inr (JStr ''access-7'')"
    by (simp add: decoded_def header_accessToken_def header_cookies_def test_manager_defs)
  have r: "decoded test_manager (header_refreshToken test_parse test_manager ?rq) = Inr JNull"
    by (simp add: decoded_def header_refreshToken_def header_cookies_def test_manager_defs)
  have i: "outcome (invalidate test_manager (JStr ''access-7'') JNull) = Inr empty_response"
    by (simp add: invalidate_cases test_manager_defs)
  have o: "old_cookies empty_response = []"
    by (simp add: old_cookies_def empty_response_def)
  have n: "cfg_jwt test_config = None"
    "header_accessToken test_parse test_manager \<lparr> header_cookie = None \<rparr> = None"
    "header_refreshToken test_parse test_manager \<lparr> header_cookie = None \<rparr> = None"
    by (simp_all add: header_accessToken_def header_refreshToken_def header_cookies_def
          test_manager_defs)
  have first: "outcome (logout test_parse test_manager ?rq) =
     Inr (empty_response\<lparr> resp_cookies :=
            Some [clear_access_cookie test_manager, clear_refresh_cookie test_manager] \<rparr>)"
    using a r i o
      logout_clears_unless_thrown [where m = test_manager and parse = test_parse
        and request = ?rq and session = "JStr ''access-7''" and refresh = JNull
        and base = empty_response]
    by simp
  have second: "outcome (logout test_parse test_manager \<lparr> header_cookie = None \<rparr>) =
     Inr (empty_response\<lparr> resp_cookies :=
            Some [clear_access_cookie test_manager, clear_refresh_cookie test_manager] \<rparr>)"
    using n
      logout_clears_unless_thrown [where c = test_config and parse = test_parse
        and lib = test_jwt_library and createCookiesOptions = "\<lambda>secure. test_cookies_options"
        and request = "\<lparr> header_cookie = None \<rparr>"]
    by (simp add: test_manager_def)
  show ?thesis using a first second by simp
qed

text \<open>
  C9: \<^verbatim>\<open>handleResponse\<close> returns the response as it is, calling nothing, when the response
  carries no user (its \<^verbatim>\<open>user\<close> is falsy, the test the code makes); when it carries one, the
  session-creation callback is invoked with that user, and only the encoder after it; when
  the callback and the encoder return, the result is the response with the new cookies
  after the cookies it had; and whenever \<^verbatim>\<open>handleResponse\<close> returns, every other field of the
  response is as it was and the old cookies are still there, in front.
\<close>

theorem handleResponse_appends:
  "(\<not> truthy (resp_user response) \<longrightarrow> handleResponse m response = ([], Inr response)) \<and>
   (truthy (resp_user response) \<longrightarrow>
      (\<exists>t. calls (handleResponse m response) = CallCreateSession (resp_user response) # t \<and>
           (\<forall>ev \<in> set t. \<exists>tok age. ev = CallEncode tok age))) \<and>
   (truthy (resp_user response) \<and> createSession m (resp_user response) = Inr s \<and>
    outcome (createCookies m s) = Inr cs \<longrightarrow>
      outcome (handleResponse m response) =
        Inr (response\<lparr> resp_cookies := Some (old_cookies response @ cs) \<rparr>)) \<and>
   (outcome (handleResponse m response) = Inr r \<longrightarrow>
      resp_status r = resp_status response \<and> resp_headers r = resp_headers response \<and>
      resp_body r = resp_body response \<and> resp_redirect r = resp_redirect response \<and>
      resp_user r = resp_user response \<and> resp_session r = resp_session response \<and>
      (r = response \<or> (\<exists>new. resp_cookies r = Some (old_cookies response @ new))))"
  using createCookies_calls
  by (auto simp: handleResponse_cases push_cookies_def old_cookies_def
        split: sum.splits option.splits)

text \<open>C9 on the example manager: a redirect response with a user and one cookie.\<close>

theorem handleResponse_appends_witness:
  "truthy (JStr ''u7'') \<and>
   outcome (handleResponse test_manager
      (empty_response\<lparr> resp_status := Some 302, resp_redirect := Some ''/'',
                       resp_cookies := Some [test_cookie ''state'' []],
                       resp_user := JStr ''u7'' \<rparr>)) =
     Inr (empty_response\<lparr> resp_status := Some 302, resp_redirect := Some ''/'',
            resp_cookies := Some [test_cookie ''state'' [],
                                  access_cookie test_manager ''jwt(access-7)'',
                                  refresh_cookie test_manager ''jwt(refresh-7)''],
            resp_user := JStr ''u7'' \<rparr>)"
proof -
  let ?resp = "empty_response\<lparr> resp_status := Some 302, resp_redirect := Some ''/'',
                       resp_cookies := Some [test_cookie ''state'' []],
                       resp_user := JStr ''u7'' \<rparr>"
  let ?s = "Some \<lparr> accessToken = JStr ''access-7'', refreshToken = JStr ''refresh-7'' \<rparr>"
  have c: "createSession test_manager (resp_user ?resp) = Inr ?s"
    by (simp add: test_manager_defs)
  have cc: "outcome (createCookies test_manager ?s) =
      Inr [access_cookie test_manager ''jwt(access-7)'',
           refresh_cookie test_manager ''jwt(refresh-7)'']"
    by (simp add: createCookies_cases session_accessToken_def session_refreshToken_def
          encode_access_def encode_refresh_def test_manager_defs)
  have u: "truthy (resp_user ?resp)" by simp
  have step: "outcome (handleResponse test_manager ?resp) =
      Inr (?resp\<lparr> resp_cookies := Some (old_cookies ?resp
             @ [access_cookie test_manager ''jwt(access-7)'',
                refresh_cookie test_manager ''jwt(refresh-7)'']) \<rparr>)"
    using handleResponse_appends [where response = ?resp and m = test_manager and s = ?s
        and cs = "[access_cookie test_manager ''jwt(access-7)'',
                   refresh_cookie test_manager ''jwt(refresh-7)'']" and r = ?resp,
        THEN conjunct2, THEN conjunct2, THEN conjunct1] u c cc
    by blast
  show ?thesis
    using step by (simp add: old_cookies_def)
qed

section \<open>Search parameters\<close>

lemma map_of_filter_neq:
  "k' \<noteq> k \<Longrightarrow> map_of (filter (\<lambda>(n, _). n \<noteq> k) ps) k' = map_of ps k'"
  by (induction ps) auto

lemma params_get_set:
  "params_get k' (params_set k v ps) = (if k' = k then Some v else params_get k' ps)"
  by (induction ps) (auto simp: params_get_def map_of_filter_neq)

lemma params_has_get: "params_has k ps = (params_get k ps \<noteq> None)"
  by (simp add: params_has_def params_get_def)

lemma url_get_set [simp]:
  "params_get k' (searchParams (url_set k v u)) =
     (if k' = k then Some v else params_get k' (searchParams u))"
  by (simp add: url_set_def params_get_set)

lemma url_set_base [simp]:
  "url_base (url_set k v u) = url_base u" "url_origin (url_set k v u) = url_origin u"
  by (simp_all add: url_set_def)

lemma set_redirect_uri_get:
  "params_get ''redirect_uri'' (searchParams (set_redirect_uri target u)) =
     (case params_get ''redirect_uri'' (searchParams u) of
        None \<Rightarrow> Some target | Some x \<Rightarrow> Some x)"
  by (auto simp: set_redirect_uri_def params_has_get split: option.splits)

lemma set_redirect_uri_other:
  "k \<noteq> ''redirect_uri'' \<Longrightarrow>
   params_get k (searchParams (set_redirect_uri target u)) = params_get k (searchParams u)"
  by (simp add: set_redirect_uri_def)

lemma set_redirect_uri_base [simp]:
  "url_base (set_redirect_uri target u) = url_base u"
  "url_origin (set_redirect_uri target u) = url_origin u"
  by (simp_all add: set_redirect_uri_def)

lemma set_scope_get:
  "k \<noteq> ''scope'' \<Longrightarrow> params_get k (searchParams (set_scope u)) = params_get k (searchParams u)"
  by (simp add: set_scope_def)

lemma set_scope_base [simp]:
  "url_base (set_scope u) = url_base u" "url_origin (set_scope u) = url_origin u"
  by (simp_all add: set_scope_def)

lemma set_string_params_base [simp]:
  "url_base (set_string_params es u) = url_base u \<and>
   url_origin (set_string_params es u) = url_origin u"
  unfolding set_string_params_def
  by (induction es arbitrary: u) (auto split: jsval.splits)

section \<open>OAuth 2.0 provider\<close>

lemma login_state_cases:
  "login_state ch uc p =
     (if State \<in> set (oa_checks p)
      then (case state_create ch p of
              Inl e \<Rightarrow> (p, [CallStateCreate], Inl e)
            | Inr (state, stateCookie) \<Rightarrow>
                (p, [CallStateCreate],
                 Inr (url_set ''state'' state (fst uc), snd uc @ [stateCookie])))
      else (p, [], Inr uc))"
  by (simp add: login_state_def sbind_cases split: sum.splits prod.splits)

lemma login_pkce_cases:
  "login_pkce ch uc p =
     (if Pkce \<in> set (oa_checks p)
      then (case pkce_create ch p of
              Inl e \<Rightarrow> (p, [CallPkceCreate], Inl e)
            | Inr (pkce, pkceCookie) \<Rightarrow>
                (p, [CallPkceCreate],
                 Inr (url_set ''code_challenge_method'' ''S256''
                        (url_set ''code_challenge'' pkce (fst uc)),
                      snd uc @ [pkceCookie])))
      else (p, [], Inr uc))"
  by (simp add: login_pkce_def sbind_cases split: sum.splits prod.splits)

lemma login_nonce_cases:
  "login_nonce ch uc p =
     (if Nonce \<in> set (oa_checks p)
      then (case nonce_create ch p of
              Inl e \<Rightarrow> (p, [CallNonceCreate], Inl e)
            | Inr (nonce, nonceCookie) \<Rightarrow>
                (p, [CallNonceCreate],
                 Inr (url_set ''nonce'' nonce (fst uc), snd uc @ [nonceCookie])))
      else (p, [], Inr uc))"
  by (simp add: login_nonce_def sbind_cases split: sum.splits prod.splits)

lemma login_returns:
  assumes parse: "parseURL pf (ep_url (ep_authorization (oa_endpoints p))) = Some url0"
    and st: "State \<in> set (oa_checks p) \<longrightarrow> state_create ch p = Inr (state, stateCookie)"
    and pk: "Pkce \<in> set (oa_checks p) \<longrightarrow> pkce_create ch p = Inr (pkce, pkceCookie)"
    and no: "Nonce \<in> set (oa_checks p) \<longrightarrow> nonce_create ch p = Inr (nonce, nonceCookie)"
  shows "\<exists>u. result (login pf ch request p) =
            Inr (redirect_response (urlToString pf u)
                   ((if State \<in> set (oa_checks p) then [stateCookie] else [])
                      @ (if Pkce \<in> set (oa_checks p) then [pkceCookie] else [])
                      @ (if Nonce \<in> set (oa_checks p) then [nonceCookie] else []))) \<and>
            url_base u = url_base url0 \<and> url_origin u = url_origin url0 \<and>
            (State \<in> set (oa_checks p) \<longrightarrow> params_get ''state'' (searchParams u) = Some state) \<and>
            (Pkce \<in> set (oa_checks p) \<longrightarrow>
               params_get ''code_challenge'' (searchParams u) = Some pkce \<and>
               params_get ''code_challenge_method'' (searchParams u) = Some ''S256'') \<and>
            (Nonce \<in> set (oa_checks p) \<longrightarrow> params_get ''nonce'' (searchParams u) = Some nonce) \<and>
            params_get ''redirect_uri'' (searchParams u) =
              (case params_get ''redirect_uri''
                      (searchParams (authorization_url_template p url0)) of
                 None \<Rightarrow> Some (url_origin (req_url request) @ pg_callback (oa_pages p))
               | Some x \<Rightarrow> Some x)"
proof -
  let ?t = "authorization_url_template p url0"
  let ?u1 = "if State \<in> set (oa_checks p) then url_set ''state'' state ?t else ?t"
  let ?u2 = "if Pkce \<in> set (oa_checks p)
             then url_set ''code_challenge_method'' ''S256'' (url_set ''code_challenge'' pkce ?u1)
             else ?u1"
  let ?u3 = "if Nonce \<in> set (oa_checks p) then url_set ''nonce'' nonce ?u2 else ?u2"
  let ?u = "set_redirect_uri (url_origin (req_url request) @ pg_callback (oa_pages p)) ?u3"
  have res: "result (login pf ch request p) =
            Inr (redirect_response (urlToString pf ?u)
                   ((if State \<in> set (oa_checks p) then [stateCookie] else [])
                      @ (if Pkce \<in> set (oa_checks p) then [pkceCookie] else [])
                      @ (if Nonce \<in> set (oa_checks p) then [nonceCookie] else [])))"
    using parse st pk no
    by (simp add: login_def sbind_cases newURL_def login_state_cases login_pkce_cases
          login_nonce_cases authorization_url_template_def)
  have base: "url_base ?t = url_base url0" "url_origin ?t = url_origin url0"
    by (simp_all add: authorization_url_template_def)
  show ?thesis
    apply (rule exI [of _ ?u])
    apply (intro conjI)
          apply (rule res)
         apply (simp_all add: set_redirect_uri_get set_redirect_uri_other base)
    done
qed

lemma login_unchanged: "maintains (=) (login pf ch request)"
  unfolding login_def login_state_def login_pkce_def login_nonce_def
  by (intro maintains_eq)

lemma callback_unchanged: "maintains (=) (callback lib ch request)"
  unfolding callback_def callback_exchange_def callback_profile_def
  by (intro maintains_eq)




section \<open>OpenID Connect provider\<close>

lemma signIn_state_cases:
  "signIn_state ch p =
     (if checks_include p State
      then (case state_create ch p of
              Inl e \<Rightarrow> (p, [CallStateCreate], Inl e)
            | Inr (state, stateCookie) \<Rightarrow>
                (flow_url_update (url_set ''state'' state) p, [CallStateCreate],
                 Inr [stateCookie]))
      else (p, [], Inr []))"
  by (simp add: signIn_state_def sbind_cases split: sum.splits prod.splits)

lemma signIn_pkce_cases:
  "signIn_pkce ch p =
     (if checks_include p Pkce
      then (if \<not> supports_S256 p
            then (p\<lparr> config := (config p)\<lparr> cf_checks := Some [Nonce] \<rparr> \<rparr>, [], Inr [])
            else (case pkce_create ch p of
                    Inl e \<Rightarrow> (p, [CallPkceCreate], Inl e)
                  | Inr (pkce, pkceCookie) \<Rightarrow>
                      (flow_url_update (\<lambda>u. url_set ''code_challenge_method'' ''S256''
                                              (url_set ''code_challenge'' pkce u)) p,
                       [CallPkceCreate], Inr [pkceCookie])))
      else (p, [], Inr []))"
  by (simp add: signIn_pkce_def sbind_cases split: sum.splits prod.splits)

lemma signIn_nonce_cases:
  "signIn_nonce ch p =
     (if checks_include p Nonce
      then (case nonce_create ch p of
              Inl e \<Rightarrow> (p, [CallNonceCreate], Inl e)
            | Inr (nonce, nonceCookie) \<Rightarrow>
                (flow_url_update (url_set ''nonce'' nonce) p, [CallNonceCreate],
                 Inr [nonceCookie]))
      else (p, [], Inr []))"
  by (simp add: signIn_nonce_def sbind_cases split: sum.splits prod.splits)

lemma flow_url_update_fields [simp]:
  "initialized (flow_url_update f p) = initialized p"
  "provider (flow_url_update f p) = provider p"
  "config (flow_url_update f p) = config p"
  "authorizationServer (flow_url_update f p) = authorizationServer p"
  "client (flow_url_update f p) = client p"
  "oidc_cookies (flow_url_update f p) = oidc_cookies p"
  "oidc_jwt (flow_url_update f p) = oidc_jwt p"
  "oidc_pages (flow_url_update f p) = oidc_pages p"
  "oidc_onAuth (flow_url_update f p) = oidc_onAuth p"
  "oauthFlow (flow_url_update f p) =
     map_option (\<lambda>flow. flow\<lparr> flow_authorization_url := f (flow_authorization_url flow) \<rparr>)
       (oauthFlow p)"
  by (simp_all add: flow_url_update_def)

lemma flow_url_update_derived [simp]:
  "checks_include (flow_url_update f p) c = checks_include p c"
  "supports_S256 (flow_url_update f p) = supports_S256 p"
  "oidc_callback_page (flow_url_update f p) request = oidc_callback_page p request"
  by (simp_all add: checks_include_def supports_S256_def oidc_callback_page_def)

lemma fallback_derived [simp]:
  "checks_include (p\<lparr> config := (config p)\<lparr> cf_checks := Some cs \<rparr> \<rparr>) c = (c \<in> set cs)"
  "supports_S256 (p\<lparr> config := cfg \<rparr>) = supports_S256 p"
  "oidc_callback_page (p\<lparr> config := cfg \<rparr>) request = oidc_callback_page p request"
  by (simp_all add: checks_include_def supports_S256_def oidc_callback_page_def)

text \<open>A login on an initialized provider, when no creation of a check throws.\<close>

lemma signIn_flow_returns:
  assumes flow: "oauthFlow p = Some flow"
    and st: "checks_include p State \<longrightarrow> state_create ch p = Inr (state, stateCookie)"
    and pk: "checks_include p Pkce \<and> supports_S256 p \<longrightarrow>
               pkce_create ch (before_pkce ch p) = Inr (pkce, pkceCookie)"
    and no: "checks_include (before_nonce ch p) Nonce \<longrightarrow>
               nonce_create ch (before_nonce ch p) = Inr (nonce, nonceCookie)"
  shows "\<exists>u. result (signIn_flow pf ch request p) =
            Inr (redirect_response (urlToString pf u)
                   ((if checks_include p State then [stateCookie] else [])
                      @ (if checks_include p Pkce \<and> supports_S256 p then [pkceCookie] else [])
                      @ (if checks_include (before_nonce ch p) Nonce then [nonceCookie] else []))) \<and>
            oauthFlow (after (signIn_flow pf ch request p)) =
              Some (flow\<lparr> flow_authorization_url := u \<rparr>) \<and>
            config (after (signIn_flow pf ch request p)) =
              (if checks_include p Pkce \<and> \<not> supports_S256 p
               then (config p)\<lparr> cf_checks := Some [Nonce] \<rparr> else config p) \<and>
            checks_include (before_nonce ch p) Nonce =
              (if checks_include p Pkce \<and> \<not> supports_S256 p then True
               else checks_include p Nonce) \<and>
            url_base u = url_base (flow_authorization_url flow) \<and>
            url_origin u = url_origin (flow_authorization_url flow) \<and>
            (checks_include p State \<longrightarrow> params_get ''state'' (searchParams u) = Some state) \<and>
            (if checks_include p Pkce \<and> supports_S256 p
             then params_get ''code_challenge'' (searchParams u) = Some pkce \<and>
                  params_get ''code_challenge_method'' (searchParams u) = Some ''S256''
             else params_get ''code_challenge'' (searchParams u) =
                    params_get ''code_challenge'' (searchParams (flow_authorization_url flow)) \<and>
                  params_get ''code_challenge_method'' (searchParams u) =
                    params_get ''code_challenge_method''
                      (searchParams (flow_authorization_url flow))) \<and>
            (checks_include (before_nonce ch p) Nonce \<longrightarrow>
               params_get ''nonce'' (searchParams u) = Some nonce) \<and>
            params_get ''redirect_uri'' (searchParams u) =
              (case params_get ''redirect_uri'' (searchParams (flow_authorization_url flow)) of
                 None \<Rightarrow> Some (oidc_callback_page p request)
               | Some x \<Rightarrow> Some x)"
proof -
  let ?p1 = "before_pkce ch p"
  let ?p2 = "before_nonce ch p"
  have s1: "signIn_state ch p =
     (?p1, if checks_include p State then [CallStateCreate] else [],
      Inr (if checks_include p State then [stateCookie] else []))"
    and p1: "?p1 = (if checks_include p State
                    then flow_url_update (url_set ''state'' state) p else p)"
    using st by (simp_all add: before_pkce_def signIn_state_cases)
  have c1: "checks_include ?p1 c = checks_include p c" "supports_S256 ?p1 = supports_S256 p" for c
    by (simp_all add: p1)
  have s2: "signIn_pkce ch ?p1 =
     (?p2, if checks_include p Pkce \<and> supports_S256 p then [CallPkceCreate] else [],
      Inr (if checks_include p Pkce \<and> supports_S256 p then [pkceCookie] else []))"
    and p2: "?p2 = (if checks_include p Pkce
                   then (if \<not> supports_S256 p
                         then ?p1\<lparr> config := (config ?p1)\<lparr> cf_checks := Some [Nonce] \<rparr> \<rparr>
                         else flow_url_update (\<lambda>u. url_set ''code_challenge_method'' ''S256''
                                              (url_set ''code_challenge'' pkce u)) ?p1)
                   else ?p1)"
    using pk by (simp_all add: before_nonce_def signIn_pkce_cases c1)
  have s3: "signIn_nonce ch ?p2 =
     (if checks_include ?p2 Nonce then flow_url_update (url_set ''nonce'' nonce) ?p2 else ?p2,
      if checks_include ?p2 Nonce then [CallNonceCreate] else [],
      Inr (if checks_include ?p2 Nonce then [nonceCookie] else []))"
    using no by (simp add: signIn_nonce_cases)
  have f1: "oauthFlow ?p1 = Some (flow\<lparr> flow_authorization_url :=
              (if checks_include p State
               then url_set ''state'' state (flow_authorization_url flow)
               else flow_authorization_url flow) \<rparr>)"
    using flow by (simp add: p1)
  have g1: "config ?p1 = config p"
    by (simp add: p1)
  have page: "oidc_callback_page ?p2 request = oidc_callback_page p request"
    and page1: "oidc_callback_page ?p1 request = oidc_callback_page p request"
    by (simp_all add: p2 p1)
  have c2: "checks_include ?p2 Nonce =
              (if checks_include p Pkce \<and> \<not> supports_S256 p then True else checks_include p Nonce)"
    by (simp add: p2 c1)
  let ?u1 = "if checks_include p State then url_set ''state'' state (flow_authorization_url flow)
             else flow_authorization_url flow"
  let ?u2 = "if checks_include p Pkce \<and> supports_S256 p
             then url_set ''code_challenge_method'' ''S256'' (url_set ''code_challenge'' pkce ?u1)
             else ?u1"
  let ?u3 = "if checks_include ?p2 Nonce then url_set ''nonce'' nonce ?u2 else ?u2"
  let ?u = "set_scope (set_redirect_uri (oidc_callback_page p request) ?u3)"
  have run: "signIn_flow pf ch request p =
      (after (signIn_flow pf ch request p), made (signIn_flow pf ch request p),
       Inr (redirect_response (urlToString pf ?u)
                   ((if checks_include p State then [stateCookie] else [])
                      @ (if checks_include p Pkce \<and> supports_S256 p then [pkceCookie] else [])
                      @ (if checks_include ?p2 Nonce then [nonceCookie] else []))))"
    and fl: "oauthFlow (after (signIn_flow pf ch request p)) =
               Some (flow\<lparr> flow_authorization_url := ?u \<rparr>)"
    and cfg: "config (after (signIn_flow pf ch request p)) =
              (if checks_include p Pkce \<and> \<not> supports_S256 p
               then (config p)\<lparr> cf_checks := Some [Nonce] \<rparr> else config p)"
    unfolding signIn_flow_def
    by (simp_all add: sbind_cases flow s1 s2 s3 page, simp_all add: p2 f1 g1 c1 c2 page1)
  have res: "result (signIn_flow pf ch request p) =
       Inr (redirect_response (urlToString pf ?u)
                   ((if checks_include p State then [stateCookie] else [])
                      @ (if checks_include p Pkce \<and> supports_S256 p then [pkceCookie] else [])
                      @ (if checks_include ?p2 Nonce then [nonceCookie] else [])))"
    by (subst run) simp
  show ?thesis
    apply (rule exI [of _ ?u])
    apply (intro conjI)
             apply (rule res)
            apply (rule fl)
           apply (rule cfg)
          apply (rule c2)
         apply (simp_all add: set_redirect_uri_get set_redirect_uri_other set_scope_get c2)
    done
qed

lemma signIn_flow_no_pkce:
  "checks_include p Pkce \<Longrightarrow> \<not> supports_S256 p \<Longrightarrow>
   CallPkceCreate \<notin> set (made (signIn_flow pf ch request p))"
  unfolding signIn_flow_def
  by (auto simp: sbind_cases signIn_state_cases signIn_pkce_cases signIn_nonce_cases
        split: option.splits sum.splits prod.splits if_splits)

lemma login_frame_refl: "reflp login_frame"
  by (simp add: reflp_def login_frame_def)

lemma login_frame_trans: "transp login_frame"
proof (rule transpI)
  fix p p' p''
  assume a: "login_frame p p'" and b: "login_frame p' p''"
  have same: "checks_include p' Pkce \<Longrightarrow> cf_checks (config p') = cf_checks (config p)"
    using a by (auto simp: login_frame_def checks_include_def)
  have s256: "supports_S256 p' = supports_S256 p"
    using a by (simp add: login_frame_def supports_S256_def)
  have cfg: "config p'' = (config p)\<lparr> cf_checks := cf_checks (config p'') \<rparr>"
  proof -
    have "config p'' = (config p')\<lparr> cf_checks := cf_checks (config p'') \<rparr>"
      using b by (simp add: login_frame_def)
    also have "config p' = (config p)\<lparr> cf_checks := cf_checks (config p') \<rparr>"
      using a by (simp add: login_frame_def)
    finally show ?thesis by simp
  qed
  have chk: "cf_checks (config p'') = cf_checks (config p) \<or>
       checks_include p Pkce \<and> \<not> supports_S256 p \<and> cf_checks (config p'') = Some [Nonce]"
  proof (cases "cf_checks (config p'') = cf_checks (config p')")
    case True
    then show ?thesis using a by (auto simp: login_frame_def)
  next
    case False
    then have f: "checks_include p' Pkce" "\<not> supports_S256 p'"
        "cf_checks (config p'') = Some [Nonce]"
      using b by (auto simp: login_frame_def)
    then have "checks_include p Pkce" using same by (simp add: checks_include_def)
    then show ?thesis using f s256 by simp
  qed
  show "login_frame p p''"
    using a b cfg chk by (simp add: login_frame_def)
qed

lemma login_frame_url: "login_frame s (flow_url_update g s)"
  by (cases "oauthFlow s") (simp_all add: login_frame_def flow_rest_def)

lemma login_frame_fallback:
  "checks_include s Pkce \<Longrightarrow> \<not> supports_S256 s \<Longrightarrow>
   login_frame s (s\<lparr> config := (config s)\<lparr> cf_checks := Some [Nonce] \<rparr> \<rparr>)"
  by (simp add: login_frame_def)

lemmas maintains_frame =
  maintains_sbind [where R = login_frame, OF login_frame_trans]
  maintains_basic [where R = login_frame, OF login_frame_refl]
  maintains_cases [where R = login_frame]
  maintains_smodify [where R = login_frame, OF login_frame_url]

lemma signIn_pkce_frame: "maintains login_frame (signIn_pkce ch)"
  unfolding maintains_def
  by (auto simp: signIn_pkce_cases login_frame_url login_frame_fallback
        reflpD [OF login_frame_refl] split: sum.splits)

lemma signIn_flow_frame: "maintains login_frame (signIn_flow pf ch request)"
  unfolding signIn_flow_def signIn_state_def signIn_nonce_def
  by (intro maintains_frame signIn_pkce_frame)

lemma oidc_callback_checks_unchanged: "maintains (=) (oidc_callback_checks lib ch request)"
  unfolding oidc_callback_checks_def oidc_callback_exchange_def
  by (intro maintains_eq)

lemma initializeAuthorizationServer_frame:
  "maintains (\<lambda>p p'. p' = p\<lparr> authorizationServer := authorizationServer p' \<rparr>)
     (initializeAuthorizationServer pf lib)"
  unfolding maintains_def initializeAuthorizationServer_def
  by (auto simp: sbind_cases split: option.splits sum.splits)

lemma initializeAuthorizationServer_calls:
  "ev \<in> set (made (initializeAuthorizationServer pf lib p)) \<Longrightarrow> \<exists>iss. ev = CallDiscovery iss"
  unfolding initializeAuthorizationServer_def
  by (auto simp: sbind_cases split: option.splits sum.splits if_splits)

lemma initialize_cases:
  "initialize pf lib p =
     (let r0 = initializeAuthorizationServer pf lib p; p0 = after r0 in
      case result r0 of
        Inl e \<Rightarrow> (p0, made r0, Inl e)
      | Inr _ \<Rightarrow>
         (case configured_authorization_url pf p0 of
            Inl e \<Rightarrow> (p0, made r0, Inl e)
          | Inr None \<Rightarrow> (p0, made r0, Inl (TypeError ''Invalid authorization endpoint''))
          | Inr (Some parsed) \<Rightarrow>
             (case configured_token_url pf p0 of
                Inl e \<Rightarrow> (p0, made r0, Inl e)
              | Inr None \<Rightarrow> (p0, made r0, Inl (TypeError ''Invalid token endpoint''))
              | Inr (Some tokenUrl) \<Rightarrow>
                 (case newURL pf placeholder_url of
                    Inl e \<Rightarrow> (p0, made r0, Inl e)
                  | Inr userinfoUrl \<Rightarrow>
                     (p0\<lparr> oauthFlow :=
                           Some \<lparr> flow_authorization_url =
                                    set_string_params (authorization_params p0) parsed,
                                  flow_token_url = tokenUrl,
                                  flow_token_conform = token_conform p0,
                                  flow_userinfo_url = userinfoUrl \<rparr>,
                         authorizationServer :=
                           (authorizationServer p0)
                             \<lparr> authorization_endpoint :=
                                 Some (urlToString pf
                                   (set_string_params (authorization_params p0) parsed)),
                               token_endpoint := Some (urlToString pf tokenUrl),
                               userinfo_endpoint := Some (urlToString pf userinfoUrl) \<rparr>,
                         initialized := True \<rparr>,
                      made r0, Inr ())))))"
  unfolding initialize_def Let_def
  by (simp add: sbind_cases split: sum.splits option.splits)

lemma initialize_frame: "init_frame p (after (initialize pf lib p))"
proof -
  have "after (initializeAuthorizationServer pf lib p) =
          p\<lparr> authorizationServer :=
               authorizationServer (after (initializeAuthorizationServer pf lib p)) \<rparr>"
    using initializeAuthorizationServer_frame [of pf lib] by (simp add: maintains_def)
  then have "init_frame p (after (initializeAuthorizationServer pf lib p))"
    unfolding init_frame_def
    by (metis oidc_provider.select_convs oidc_provider.surjective oidc_provider.update_convs)
  then show ?thesis
    by (auto simp: initialize_cases Let_def init_frame_def split: sum.splits option.splits)
qed

lemma initialize_calls:
  "ev \<in> set (made (initialize pf lib p)) \<Longrightarrow> \<exists>iss. ev = CallDiscovery iss"
  using initializeAuthorizationServer_calls [of ev pf lib p]
  by (auto simp: initialize_cases Let_def split: sum.splits option.splits)

lemma ensure_initialized_cases:
  "ensure_initialized pf lib p = (if initialized p then (p, [], Inr ()) else initialize pf lib p)"
  by (simp add: ensure_initialized_def sbind_cases proc_eq [symmetric])

lemma ensure_initialized_calls:
  "ev \<in> set (made (ensure_initialized pf lib p)) \<Longrightarrow> \<exists>iss. ev = CallDiscovery iss"
  using initialize_calls [of ev pf lib p]
  by (simp add: ensure_initialized_cases split: if_splits)

lemma ensure_initialized_frame: "init_frame p (initialized_provider pf lib p)"
  using initialize_frame [of p pf lib]
  by (simp add: initialized_provider_def ensure_initialized_cases init_frame_def)

lemma oidc_callback_checks_cases:
  "oidc_callback_checks lib ch request p =
     (case state_use ch request p of
        Inl e \<Rightarrow> (p, [CallStateUse], Inl e)
      | Inr (state, stateCookie) \<Rightarrow>
          (case validateAuthResponse lib (authorizationServer p) (client p)
                  (searchParams (req_url request)) state of
             Inl e \<Rightarrow> (p, [CallStateUse, CallValidateAuthResponse], Inl e)
           | Inr (IsOAuth2Error d) \<Rightarrow>
               (p, [CallStateUse, CallValidateAuthResponse], Inl (Error d))
           | Inr (NotOAuth2Error params) \<Rightarrow>
               (after (oidc_callback_exchange lib ch request params (push_if stateCookie []) p),
                CallStateUse # CallValidateAuthResponse
                  # made (oidc_callback_exchange lib ch request params (push_if stateCookie []) p),
                result (oidc_callback_exchange lib ch request params (push_if stateCookie []) p))))"
  unfolding oidc_callback_checks_def
  by (simp add: sbind_cases split: sum.splits prod.splits or_oauth2_error.splits)

lemma oidc_callback_cases:
  "oidc_callback pf lib ch request p =
     (case result (ensure_initialized pf lib p) of
        Inl e \<Rightarrow> (initialized_provider pf lib p, made (ensure_initialized pf lib p), Inl e)
      | Inr _ \<Rightarrow>
          (after (oidc_callback_checks lib ch request (initialized_provider pf lib p)),
           made (ensure_initialized pf lib p)
             @ made (oidc_callback_checks lib ch request (initialized_provider pf lib p)),
           result (oidc_callback_checks lib ch request (initialized_provider pf lib p))))"
  by (simp add: oidc_callback_def sbind_cases initialized_provider_def split: sum.splits)

text \<open>
  The response of \<^verbatim>\<open>OIDCProvider.callback\<close> is the object literal
  \<^verbatim>\<open>{ session, redirect: '/', status: 302 }\<close>: the cookies its checks have given are collected
  in a local list that is not returned, where \<^verbatim>\<open>OAuthProvider.callback\<close> pushes them to the
  response of \<^verbatim>\<open>onAuth\<close>.
\<close>

lemma oidc_callback_exchange_returns:
  assumes "result (oidc_callback_exchange lib ch request params cs p) = Inr r"
  shows "resp_cookies r = None \<and> resp_status r = Some 302 \<and> resp_redirect r = Some ''/''"
  using assms unfolding oidc_callback_exchange_def
  by (auto simp: sbind_cases empty_response_def split: option.splits sum.splits prod.splits
        or_oauth2_error.splits)

lemma oidc_callback_returns:
  assumes "result (oidc_callback pf lib ch request p) = Inr r"
  shows "resp_cookies r = None \<and> resp_status r = Some 302 \<and> resp_redirect r = Some ''/''"
  using assms
  by (auto simp: oidc_callback_cases oidc_callback_checks_cases
        split: sum.splits prod.splits or_oauth2_error.splits
        dest: oidc_callback_exchange_returns)

lemma signIn_cases:
  "signIn pf lib ch request p =
     (case result (ensure_initialized pf lib p) of
        Inl e \<Rightarrow> (initialized_provider pf lib p, made (ensure_initialized pf lib p), Inl e)
      | Inr _ \<Rightarrow>
          (after (signIn_flow pf ch request (initialized_provider pf lib p)),
           made (ensure_initialized pf lib p)
             @ made (signIn_flow pf ch request (initialized_provider pf lib p)),
           result (signIn_flow pf ch request (initialized_provider pf lib p))))"
  by (simp add: signIn_def sbind_cases initialized_provider_def split: sum.splits)

section \<open>The example provider after its first request\<close>

lemma test_discovery:
  "initializeAuthorizationServer test_platform test_oauth_library test_oidc_provider =
     (test_oidc_provider
        \<lparr> authorizationServer :=
            \<lparr> issuer = Some ''https://accounts.google.com'',
              authorization_endpoint = Some ''https://accounts.google.com/authorize'',
              token_endpoint = Some ''https://accounts.google.com/token'',
              userinfo_endpoint = None,
              code_challenge_methods_supported = None \<rparr> \<rparr>,
      [CallDiscovery ''https://accounts.google.com''], Inr ())"
  by (simp add: initializeAuthorizationServer_def sbind_def test_oidc_provider_def
        OIDCProvider_def test_oidc_config_def test_platform_def test_oauth_library_def
        newURL_def test_url_def)

lemmas test_oidc_defs =
  test_oidc_provider_def OIDCProvider_def test_oidc_config_def test_oidc_options_def
  test_platform_def test_url_def test_oauth_library_def newURL_def placeholder_url_def
  configured_authorization_url_def configured_token_url_def server_endpoint_url_def
  authorization_params_def token_conform_def js_spread_def set_string_params_def url_set_def
  Let_def

lemma test_ensure_initialized:
  "made (ensure_initialized test_platform test_oauth_library test_oidc_provider) =
     [CallDiscovery ''https://accounts.google.com'']"
  "result (ensure_initialized test_platform test_oauth_library test_oidc_provider) = Inr ()"
  unfolding ensure_initialized_cases initialize_cases test_discovery
  by (simp_all add: test_oidc_defs)

lemma test_oidc_initialized_fields:
  "initialized test_oidc_initialized"
  "cf_checks (config test_oidc_initialized) = Some [Pkce]"
  "code_challenge_methods_supported (authorizationServer test_oidc_initialized) = None"
  "oidc_pages test_oidc_initialized =
     \<lparr> pg_signIn = Some ''/auth/login/google'', pg_signOut = Some ''/auth/logout/google'',
       pg_oidc_callback = Some ''/auth/callback/google'' \<rparr>"
  "map_option flow_authorization_url (oauthFlow test_oidc_initialized) =
     Some \<lparr> url_origin = ''https://idp.example'',
            url_base = ''https://accounts.google.com/authorize'',
            searchParams = [(''response_type'', ''code''), (''client_id'', ''abc'')] \<rparr>"
  unfolding test_oidc_initialized_def initialized_provider_def
    ensure_initialized_cases initialize_cases test_discovery
  by (simp_all add: test_oidc_defs)

lemma initialize_success:
  "result (initialize pf lib p) = Inr u \<Longrightarrow>
   initialized (after (initialize pf lib p)) \<and> oauthFlow (after (initialize pf lib p)) \<noteq> None"
  by (auto simp: initialize_cases Let_def split: sum.splits option.splits)

lemma ensure_initialized_success:
  "result (ensure_initialized pf lib p) = Inr u \<Longrightarrow> initialized (initialized_provider pf lib p)"
  using initialize_success [of pf lib p u]
  by (simp add: initialized_provider_def ensure_initialized_cases split: if_splits)

text \<open>
  C10: a provider constructed without a checks configuration has exactly the check
  \<^verbatim>\<open>pkce\<close> enabled, so neither \<^verbatim>\<open>state\<close> nor \<^verbatim>\<open>nonce\<close>: an OAuth provider built from
  \<^verbatim>\<open>mergeOAuthOptions\<close> when neither the user's options nor the preset's defaults give
  checks, an OIDC provider when the merged configuration gives none. Checks that are
  configured are taken as they are, the user's before the preset's.
\<close>

theorem default_checks_are_pkce:
  "(uo_checks userOptions = None \<and> dc_checks defaultOptions = None \<longrightarrow>
      oa_checks (OAuthProvider (mergeOAuthOptions createCookiesOptions userOptions defaultOptions))
        = [Pkce] \<and>
      State \<notin> set (oa_checks
        (OAuthProvider (mergeOAuthOptions createCookiesOptions userOptions defaultOptions))) \<and>
      Nonce \<notin> set (oa_checks
        (OAuthProvider (mergeOAuthOptions createCookiesOptions userOptions defaultOptions)))) \<and>
   (uo_checks userOptions = None \<and> dc_checks defaultOptions = Some cs \<longrightarrow>
      oa_checks (OAuthProvider (mergeOAuthOptions createCookiesOptions userOptions defaultOptions))
        = cs) \<and>
   (uo_checks userOptions = Some cs \<longrightarrow>
      oa_checks (OAuthProvider (mergeOAuthOptions createCookiesOptions userOptions defaultOptions))
        = cs) \<and>
   (cf_checks (merge prov (cf_options prov)) = None \<longrightarrow>
      cf_checks (config (OIDCProvider merge defaultProfile defaultCookies prov options))
        = Some [Pkce] \<and>
      \<not> checks_include (OIDCProvider merge defaultProfile defaultCookies prov options) State \<and>
      \<not> checks_include (OIDCProvider merge defaultProfile defaultCookies prov options) Nonce) \<and>
   (cf_checks (merge prov (cf_options prov)) = Some cs \<longrightarrow>
      cf_checks (config (OIDCProvider merge defaultProfile defaultCookies prov options))
        = Some cs)"
  by (simp add: OAuthProvider_def mergeOAuthOptions_def OIDCProvider_def checks_include_def
        oauth_config.defs Let_def)

text \<open>C10 on the example providers, which are built without checks.\<close>

theorem default_checks_are_pkce_witness:
  "uo_checks test_user_options = None \<and> dc_checks test_default_options = None \<and>
   oa_checks test_oauth_provider = [Pkce] \<and>
   cf_checks ((\<lambda>prov options. prov) test_oidc_config (cf_options test_oidc_config)) = None \<and>
   cf_checks (config test_oidc_provider) = Some [Pkce]"
proof -
  have h: "uo_checks test_user_options = None" "dc_checks test_default_options = None"
    "cf_checks ((\<lambda>prov options. prov) test_oidc_config (cf_options test_oidc_config)) = None"
    by (simp_all add: test_user_options_def test_default_options_def test_oidc_config_def)
  show ?thesis
    using h
      default_checks_are_pkce [where userOptions = test_user_options
        and defaultOptions = test_default_options
        and createCookiesOptions = "\<lambda>secure. test_cookies_options"
        and merge = "\<lambda>prov options. prov" and prov = test_oidc_config
        and defaultProfile = "\<lambda>profile tokens. Inr profile"
        and defaultCookies = "\<lambda>secure. test_cookies_options"
        and options = test_oidc_options and cs = "[]"]
    unfolding test_oauth_provider_def test_oidc_provider_def
    by blast
qed

text \<open>
  C7: when the \<^verbatim>\<open>pkce\<close> check is enabled on an OIDC provider and the metadata of its
  authorization server, as the lazy initialization of the request leaves them, do not list
  \<^verbatim>\<open>S256\<close> among the code challenge methods, then a login never creates a PKCE challenge or
  verifier cookie; and when the creations of its other checks do not throw, it returns the
  redirect with the \<^verbatim>\<open>nonce\<close> parameter and the nonce cookie (after the state cookie, if the
  \<^verbatim>\<open>state\<close> check is enabled too), the parameters \<^verbatim>\<open>code_challenge\<close> and
  \<^verbatim>\<open>code_challenge_method\<close> of the URL are as they were, and the provider's list of checks is
  \<^verbatim>\<open>['nonce']\<close> from then on.
\<close>

theorem pkce_fallback_to_nonce:
  assumes init: "result (ensure_initialized pf lib p) = Inr ()"
    and flow: "oauthFlow (initialized_provider pf lib p) = Some flow"
    and pkce: "checks_include (initialized_provider pf lib p) Pkce"
    and s256: "\<not> supports_S256 (initialized_provider pf lib p)"
  shows "CallPkceCreate \<notin> set (made (signIn pf lib ch request p)) \<and>
    ((checks_include (initialized_provider pf lib p) State \<longrightarrow>
        state_create ch (initialized_provider pf lib p) = Inr (state, stateCookie)) \<and>
     nonce_create ch (before_nonce ch (initialized_provider pf lib p)) = Inr (nonce, nonceCookie)
     \<longrightarrow>
       cf_checks (config (after (signIn pf lib ch request p))) = Some [Nonce] \<and>
       (\<exists>u. result (signIn pf lib ch request p) =
               Inr (redirect_response (urlToString pf u)
                      ((if checks_include (initialized_provider pf lib p) State
                        then [stateCookie] else []) @ [nonceCookie])) \<and>
            params_get ''code_challenge'' (searchParams u) =
              params_get ''code_challenge'' (searchParams (flow_authorization_url flow)) \<and>
            params_get ''code_challenge_method'' (searchParams u) =
              params_get ''code_challenge_method'' (searchParams (flow_authorization_url flow)) \<and>
            params_get ''nonce'' (searchParams u) = Some nonce))"
proof (intro conjI impI)
  let ?p1 = "initialized_provider pf lib p"
  have run: "signIn pf lib ch request p =
      (after (signIn_flow pf ch request ?p1),
       made (ensure_initialized pf lib p) @ made (signIn_flow pf ch request ?p1),
       result (signIn_flow pf ch request ?p1))"
    using init by (simp add: signIn_cases)
  show "CallPkceCreate \<notin> set (made (signIn pf lib ch request p))"
    using ensure_initialized_calls [of CallPkceCreate pf lib p]
      signIn_flow_no_pkce [OF pkce s256, of pf ch request]
    by (auto simp: run)
  assume a: "(checks_include ?p1 State \<longrightarrow> state_create ch ?p1 = Inr (state, stateCookie)) \<and>
     nonce_create ch (before_nonce ch ?p1) = Inr (nonce, nonceCookie)"
  from a have st: "checks_include ?p1 State \<longrightarrow> state_create ch ?p1 = Inr (state, stateCookie)"
    and no: "checks_include (before_nonce ch ?p1) Nonce \<longrightarrow>
               nonce_create ch (before_nonce ch ?p1) = Inr (nonce, nonceCookie)"
    by simp_all
  have pk: "checks_include ?p1 Pkce \<and> supports_S256 ?p1 \<longrightarrow>
              pkce_create ch (before_pkce ch ?p1) = Inr (state, stateCookie)"
    using s256 by simp
  from signIn_flow_returns [OF flow st pk no, of pf request]
  obtain u where u: "result (signIn_flow pf ch request ?p1) =
            Inr (redirect_response (urlToString pf u)
                   ((if checks_include ?p1 State then [stateCookie] else [])
                      @ (if checks_include ?p1 Pkce \<and> supports_S256 ?p1 then [stateCookie] else [])
                      @ (if checks_include (before_nonce ch ?p1) Nonce then [nonceCookie] else [])))"
     "config (after (signIn_flow pf ch request ?p1)) =
              (if checks_include ?p1 Pkce \<and> \<not> supports_S256 ?p1
               then (config ?p1)\<lparr> cf_checks := Some [Nonce] \<rparr> else config ?p1)"
     "checks_include (before_nonce ch ?p1) Nonce =
              (if checks_include ?p1 Pkce \<and> \<not> supports_S256 ?p1 then True
               else checks_include ?p1 Nonce)"
     "if checks_include ?p1 Pkce \<and> supports_S256 ?p1
             then params_get ''code_challenge'' (searchParams u) = Some state \<and>
                  params_get ''code_challenge_method'' (searchParams u) = Some ''S256''
             else params_get ''code_challenge'' (searchParams u) =
                    params_get ''code_challenge'' (searchParams (flow_authorization_url flow)) \<and>
                  params_get ''code_challenge_method'' (searchParams u) =
                    params_get ''code_challenge_method''
                      (searchParams (flow_authorization_url flow))"
     "checks_include (before_nonce ch ?p1) Nonce \<longrightarrow>
               params_get ''nonce'' (searchParams u) = Some nonce"
    by blast
  show "cf_checks (config (after (signIn pf lib ch request p))) = Some [Nonce]"
    using u(2) pkce s256 by (simp add: run)
  show "\<exists>u. result (signIn pf lib ch request p) =
               Inr (redirect_response (urlToString pf u)
                      ((if checks_include ?p1 State then [stateCookie] else []) @ [nonceCookie])) \<and>
            params_get ''code_challenge'' (searchParams u) =
              params_get ''code_challenge'' (searchParams (flow_authorization_url flow)) \<and>
            params_get ''code_challenge_method'' (searchParams u) =
              params_get ''code_challenge_method'' (searchParams (flow_authorization_url flow)) \<and>
            params_get ''nonce'' (searchParams u) = Some nonce"
    using u pkce s256 by (intro exI [of _ u]) (simp add: run)
qed

lemma test_oidc_flow:
  "oauthFlow test_oidc_initialized =
     Some \<lparr> flow_authorization_url =
              \<lparr> url_origin = ''https://idp.example'',
                url_base = ''https://accounts.google.com/authorize'',
                searchParams = [(''response_type'', ''code''), (''client_id'', ''abc'')] \<rparr>,
            flow_token_url = test_url ''https://idp.example'' ''https://accounts.google.com/token'',
            flow_token_conform = Some (\<lambda>response. Inr response),
            flow_userinfo_url = test_url ''https://idp.example'' placeholder_url \<rparr>"
  unfolding test_oidc_initialized_def initialized_provider_def
    ensure_initialized_cases initialize_cases test_discovery
  by (simp add: test_oidc_defs)

lemma test_oidc_checks:
  "checks_include test_oidc_initialized Pkce"
  "\<not> checks_include test_oidc_initialized State"
  "\<not> checks_include test_oidc_initialized Nonce"
  "\<not> supports_S256 test_oidc_initialized"
  by (simp_all add: checks_include_def supports_S256_def test_oidc_initialized_fields)

text \<open>C7 on the example OIDC provider, whose authorization server lists no code challenge method.\<close>

theorem pkce_fallback_to_nonce_witness:
  "result (ensure_initialized test_platform test_oauth_library test_oidc_provider) = Inr () \<and>
   checks_include (initialized_provider test_platform test_oauth_library test_oidc_provider) Pkce \<and>
   \<not> supports_S256 (initialized_provider test_platform test_oauth_library test_oidc_provider) \<and>
   CallPkceCreate \<notin> set (made (signIn test_platform test_oauth_library test_checks
                                 (test_request Map.empty) test_oidc_provider)) \<and>
   cf_checks (config (after (signIn test_platform test_oauth_library test_checks
                              (test_request Map.empty) test_oidc_provider))) = Some [Nonce]"
proof -
  let ?p1 = "initialized_provider test_platform test_oauth_library test_oidc_provider"
  have p1: "?p1 = test_oidc_initialized"
    by (simp add: test_oidc_initialized_def)
  have st: "checks_include ?p1 State \<longrightarrow>
      state_create test_checks ?p1 = Inr (''st-1'', test_cookie ''state'' ''enc(st-1)'')"
    by (simp add: test_checks_def)
  have no: "nonce_create test_checks (before_nonce test_checks ?p1) =
      Inr (''n-1'', test_cookie ''nonce'' ''enc(n-1)'')"
    by (simp add: test_checks_def)
  show ?thesis
    using st no test_ensure_initialized(2) test_oidc_checks
      pkce_fallback_to_nonce [where pf = test_platform and lib = test_oauth_library
        and p = test_oidc_provider and ch = test_checks and request = "test_request Map.empty"
        and state = "''st-1''" and stateCookie = "test_cookie ''state'' ''enc(st-1)''"
        and nonce = "''n-1''" and nonceCookie = "test_cookie ''nonce'' ''enc(n-1)''",
        OF test_ensure_initialized(2) test_oidc_flow [folded p1]]
    unfolding p1
    by blast
qed

text \<open>
  C8, as stated: the redirect URL of every login has a parameter for each enabled check.
  It fails on the code for an OIDC provider whose \<^verbatim>\<open>pkce\<close> check is enabled while its
  authorization server does not list \<^verbatim>\<open>S256\<close>: the login returns a redirect without
  \<^verbatim>\<open>code_challenge\<close> and without a PKCE cookie.
\<close>

theorem signIn_without_code_challenge:
  "checks_include test_oidc_initialized Pkce \<and>
   result (signIn test_platform test_oauth_library test_checks (test_request Map.empty)
             test_oidc_initialized) =
     Inr (redirect_response
            (''https://accounts.google.com/authorize?response_type=code&client_id=abc'' @
             ''&nonce=n-1&redirect_uri=https://app.example/auth/callback/google'' @
             ''&scope=openid profile email'')
            [test_cookie ''nonce'' ''enc(n-1)''])"
proof -
  let ?p = test_oidc_initialized
  let ?p2 = "?p\<lparr> config := (config ?p)\<lparr> cf_checks := Some [Nonce] \<rparr> \<rparr>"
  let ?rq = "test_request Map.empty"
  have init: "signIn test_platform test_oauth_library test_checks ?rq ?p =
        signIn_flow test_platform test_checks ?rq ?p"
    by (simp add: signIn_cases ensure_initialized_cases initialized_provider_def
          test_oidc_initialized_fields proc_eq [symmetric])
  have s1: "signIn_state test_checks ?p = (?p, [], Inr [])"
    by (simp add: signIn_state_cases test_oidc_checks)
  have s2: "signIn_pkce test_checks ?p = (?p2, [], Inr [])"
    by (simp add: signIn_pkce_cases test_oidc_checks)
  have s3: "signIn_nonce test_checks ?p2 =
      (flow_url_update (url_set ''nonce'' ''n-1'') ?p2, [CallNonceCreate],
       Inr [test_cookie ''nonce'' ''enc(n-1)''])"
    by (simp add: signIn_nonce_cases test_checks_def)
  have page: "oidc_callback_page ?p ?rq = ''https://app.example/auth/callback/google''"
    by (simp add: oidc_callback_page_def test_oidc_initialized_fields test_request_def
          test_url_def)
  have url: "urlToString test_platform
       (set_scope (set_redirect_uri ''https://app.example/auth/callback/google''
          (url_set ''nonce'' ''n-1''
             \<lparr> url_origin = ''https://idp.example'',
               url_base = ''https://accounts.google.com/authorize'',
               searchParams = [(''response_type'', ''code''), (''client_id'', ''abc'')] \<rparr>))) =
     ''https://accounts.google.com/authorize?response_type=code&client_id=abc'' @
     ''&nonce=n-1&redirect_uri=https://app.example/auth/callback/google'' @
     ''&scope=openid profile email''"
    by (simp add: set_redirect_uri_def set_scope_def params_has_def url_set_def
          test_platform_def)
  have "result (signIn_flow test_platform test_checks ?rq ?p) =
     Inr (redirect_response
            (''https://accounts.google.com/authorize?response_type=code&client_id=abc'' @
             ''&nonce=n-1&redirect_uri=https://app.example/auth/callback/google'' @
             ''&scope=openid profile email'')
            [test_cookie ''nonce'' ''enc(n-1)''])"
    unfolding signIn_flow_def
    by (simp add: sbind_def test_oidc_flow s1 s2 s3 page url)
  then show ?thesis
    using test_oidc_checks(1) init by simp
qed

lemma test_state_provider_fields:
  "oa_checks test_state_provider = [State]"
  "ep_url (ep_authorization (oa_endpoints test_state_provider)) =
     ''https://github.com/login/oauth/authorize''"
  "ep_params (ep_authorization (oa_endpoints test_state_provider)) =
     Some [(''client_id'', JStr ''abc''), (''response_type'', JStr ''code'')]"
  "pg_callback (oa_pages test_state_provider) = ''/auth/callback/github''"
  by (simp_all add: test_state_provider_def OAuthProvider_def mergeOAuthOptions_def
        test_user_options_def test_default_options_def test_endpoint_def endpoint_url_def
        endpoint_options_def user_endpoint_of_def spread_endpoint_def js_spread_def
        oauth_config.defs Let_def)


text \<open>
  C8, amended: a login that returns (the authorization URL parses, the creations of the
  checks do not throw; an OIDC provider has run its lazy initialization) returns a response
  with status 302, whose redirect is the authorization URL with these parameters and whose
  cookies are exactly the cookies of the checks that were created, in the order state, pkce,
  nonce: \<^verbatim>\<open>state\<close> if the state check is enabled; \<^verbatim>\<open>code_challenge\<close> with
  \<^verbatim>\<open>code_challenge_method=S256\<close> if the pkce check is enabled, except on an OIDC provider
  whose authorization server does not list \<^verbatim>\<open>S256\<close>, where no challenge is set and the nonce
  check is enabled in its place; \<^verbatim>\<open>nonce\<close> if the nonce check is enabled; and
  \<^verbatim>\<open>redirect_uri\<close>, which is the origin of the request followed by the provider's callback
  page unless the authorization URL already has one.
\<close>

theorem login_redirects_with_checks:
  "resp_status (redirect_response target cks) = Some 302 \<and>
   resp_redirect (redirect_response target cks) = Some target \<and>
   resp_cookies (redirect_response target cks) = Some cks \<and>
   (parseURL pf (ep_url (ep_authorization (oa_endpoints q))) = Some parsed \<and>
    (State \<in> set (oa_checks q) \<longrightarrow> state_create cha q = Inr (state, stateCookie)) \<and>
    (Pkce \<in> set (oa_checks q) \<longrightarrow> pkce_create cha q = Inr (pkce, pkceCookie)) \<and>
    (Nonce \<in> set (oa_checks q) \<longrightarrow> nonce_create cha q = Inr (nonce, nonceCookie)) \<longrightarrow>
      (\<exists>u. result (login pf cha request q) =
              Inr (redirect_response (urlToString pf u)
                     ((if State \<in> set (oa_checks q) then [stateCookie] else [])
                        @ (if Pkce \<in> set (oa_checks q) then [pkceCookie] else [])
                        @ (if Nonce \<in> set (oa_checks q) then [nonceCookie] else []))) \<and>
           url_base u = url_base parsed \<and> url_origin u = url_origin parsed \<and>
           (State \<in> set (oa_checks q) \<longrightarrow> params_get ''state'' (searchParams u) = Some state) \<and>
           (Pkce \<in> set (oa_checks q) \<longrightarrow>
              params_get ''code_challenge'' (searchParams u) = Some pkce \<and>
              params_get ''code_challenge_method'' (searchParams u) = Some ''S256'') \<and>
           (Nonce \<in> set (oa_checks q) \<longrightarrow> params_get ''nonce'' (searchParams u) = Some nonce) \<and>
           params_get ''redirect_uri'' (searchParams u) =
             (case params_get ''redirect_uri''
                     (searchParams (authorization_url_template q parsed)) of
                None \<Rightarrow> Some (url_origin (req_url request) @ pg_callback (oa_pages q))
              | Some x \<Rightarrow> Some x))) \<and>
   (result (ensure_initialized pf lib p) = Inr () \<and>
    oauthFlow (initialized_provider pf lib p) = Some flow \<and>
    (checks_include (initialized_provider pf lib p) State \<longrightarrow>
       state_create ch (initialized_provider pf lib p) = Inr (state', stateCookie')) \<and>
    (checks_include (initialized_provider pf lib p) Pkce \<and>
     supports_S256 (initialized_provider pf lib p) \<longrightarrow>
       pkce_create ch (before_pkce ch (initialized_provider pf lib p)) =
         Inr (pkce', pkceCookie')) \<and>
    (checks_include (before_nonce ch (initialized_provider pf lib p)) Nonce \<longrightarrow>
       nonce_create ch (before_nonce ch (initialized_provider pf lib p)) =
         Inr (nonce', nonceCookie')) \<longrightarrow>
      (\<exists>u. result (signIn pf lib ch request p) =
              Inr (redirect_response (urlToString pf u)
                     ((if checks_include (initialized_provider pf lib p) State
                       then [stateCookie'] else [])
                        @ (if checks_include (initialized_provider pf lib p) Pkce \<and>
                              supports_S256 (initialized_provider pf lib p)
                           then [pkceCookie'] else [])
                        @ (if checks_include (before_nonce ch (initialized_provider pf lib p)) Nonce
                           then [nonceCookie'] else []))) \<and>
           config (after (signIn pf lib ch request p)) =
             (if checks_include (initialized_provider pf lib p) Pkce \<and>
                 \<not> supports_S256 (initialized_provider pf lib p)
              then (config (initialized_provider pf lib p))\<lparr> cf_checks := Some [Nonce] \<rparr>
              else config (initialized_provider pf lib p)) \<and>
           checks_include (before_nonce ch (initialized_provider pf lib p)) Nonce =
             (if checks_include (initialized_provider pf lib p) Pkce \<and>
                 \<not> supports_S256 (initialized_provider pf lib p)
              then True else checks_include (initialized_provider pf lib p) Nonce) \<and>
           url_base u = url_base (flow_authorization_url flow) \<and>
           url_origin u = url_origin (flow_authorization_url flow) \<and>
           (checks_include (initialized_provider pf lib p) State \<longrightarrow>
              params_get ''state'' (searchParams u) = Some state') \<and>
           (if checks_include (initialized_provider pf lib p) Pkce \<and>
               supports_S256 (initialized_provider pf lib p)
            then params_get ''code_challenge'' (searchParams u) = Some pkce' \<and>
                 params_get ''code_challenge_method'' (searchParams u) = Some ''S256''
            else params_get ''code_challenge'' (searchParams u) =
                   params_get ''code_challenge'' (searchParams (flow_authorization_url flow)) \<and>
                 params_get ''code_challenge_method'' (searchParams u) =
                   params_get ''code_challenge_method''
                     (searchParams (flow_authorization_url flow))) \<and>
           (checks_include (before_nonce ch (initialized_provider pf lib p)) Nonce \<longrightarrow>
              params_get ''nonce'' (searchParams u) = Some nonce') \<and>
           params_get ''redirect_uri'' (searchParams u) =
             (case params_get ''redirect_uri'' (searchParams (flow_authorization_url flow)) of
                None \<Rightarrow> Some (oidc_callback_page (initialized_provider pf lib p) request)
              | Some x \<Rightarrow> Some x)))"
proof (intro conjI impI)
  show "resp_status (redirect_response target cks) = Some 302"
    "resp_redirect (redirect_response target cks) = Some target"
    "resp_cookies (redirect_response target cks) = Some cks"
    by (simp_all add: redirect_response_def)
next
  assume "parseURL pf (ep_url (ep_authorization (oa_endpoints q))) = Some parsed \<and>
    (State \<in> set (oa_checks q) \<longrightarrow> state_create cha q = Inr (state, stateCookie)) \<and>
    (Pkce \<in> set (oa_checks q) \<longrightarrow> pkce_create cha q = Inr (pkce, pkceCookie)) \<and>
    (Nonce \<in> set (oa_checks q) \<longrightarrow> nonce_create cha q = Inr (nonce, nonceCookie))"
  then show "\<exists>u. result (login pf cha request q) =
              Inr (redirect_response (urlToString pf u)
                     ((if State \<in> set (oa_checks q) then [stateCookie] else [])
                        @ (if Pkce \<in> set (oa_checks q) then [pkceCookie] else [])
                        @ (if Nonce \<in> set (oa_checks q) then [nonceCookie] else []))) \<and>
           url_base u = url_base parsed \<and> url_origin u = url_origin parsed \<and>
           (State \<in> set (oa_checks q) \<longrightarrow> params_get ''state'' (searchParams u) = Some state) \<and>
           (Pkce \<in> set (oa_checks q) \<longrightarrow>
              params_get ''code_challenge'' (searchParams u) = Some pkce \<and>
              params_get ''code_challenge_method'' (searchParams u) = Some ''S256'') \<and>
           (Nonce \<in> set (oa_checks q) \<longrightarrow> params_get ''nonce'' (searchParams u) = Some nonce) \<and>
           params_get ''redirect_uri'' (searchParams u) =
             (case params_get ''redirect_uri''
                     (searchParams (authorization_url_template q parsed)) of
                None \<Rightarrow> Some (url_origin (req_url request) @ pg_callback (oa_pages q))
              | Some x \<Rightarrow> Some x)"
    using login_returns [of pf q parsed cha state stateCookie pkce pkceCookie nonce nonceCookie
        request]
    by blast
next
  let ?p1 = "initialized_provider pf lib p"
  assume a: "result (ensure_initialized pf lib p) = Inr () \<and>
    oauthFlow ?p1 = Some flow \<and>
    (checks_include ?p1 State \<longrightarrow> state_create ch ?p1 = Inr (state', stateCookie')) \<and>
    (checks_include ?p1 Pkce \<and> supports_S256 ?p1 \<longrightarrow>
       pkce_create ch (before_pkce ch ?p1) = Inr (pkce', pkceCookie')) \<and>
    (checks_include (before_nonce ch ?p1) Nonce \<longrightarrow>
       nonce_create ch (before_nonce ch ?p1) = Inr (nonce', nonceCookie'))"
  then have run: "signIn pf lib ch request p =
      (after (signIn_flow pf ch request ?p1),
       made (ensure_initialized pf lib p) @ made (signIn_flow pf ch request ?p1),
       result (signIn_flow pf ch request ?p1))"
    by (simp add: signIn_cases)
  from a have flow: "oauthFlow ?p1 = Some flow"
    and st: "checks_include ?p1 State \<longrightarrow> state_create ch ?p1 = Inr (state', stateCookie')"
    and pk: "checks_include ?p1 Pkce \<and> supports_S256 ?p1 \<longrightarrow>
       pkce_create ch (before_pkce ch ?p1) = Inr (pkce', pkceCookie')"
    and no: "checks_include (before_nonce ch ?p1) Nonce \<longrightarrow>
       nonce_create ch (before_nonce ch ?p1) = Inr (nonce', nonceCookie')"
    by simp_all
  show "\<exists>u. result (signIn pf lib ch request p) =
              Inr (redirect_response (urlToString pf u)
                     ((if checks_include ?p1 State then [stateCookie'] else [])
                        @ (if checks_include ?p1 Pkce \<and> supports_S256 ?p1
                           then [pkceCookie'] else [])
                        @ (if checks_include (before_nonce ch ?p1) Nonce
                           then [nonceCookie'] else []))) \<and>
           config (after (signIn pf lib ch request p)) =
             (if checks_include ?p1 Pkce \<and> \<not> supports_S256 ?p1
              then (config ?p1)\<lparr> cf_checks := Some [Nonce] \<rparr>
              else config ?p1) \<and>
           checks_include (before_nonce ch ?p1) Nonce =
             (if checks_include ?p1 Pkce \<and> \<not> supports_S256 ?p1
              then True else checks_include ?p1 Nonce) \<and>
           url_base u = url_base (flow_authorization_url flow) \<and>
           url_origin u = url_origin (flow_authorization_url flow) \<and>
           (checks_include ?p1 State \<longrightarrow> params_get ''state'' (searchParams u) = Some state') \<and>
           (if checks_include ?p1 Pkce \<and> supports_S256 ?p1
            then params_get ''code_challenge'' (searchParams u) = Some pkce' \<and>
                 params_get ''code_challenge_method'' (searchParams u) = Some ''S256''
            else params_get ''code_challenge'' (searchParams u) =
                   params_get ''code_challenge'' (searchParams (flow_authorization_url flow)) \<and>
                 params_get ''code_challenge_method'' (searchParams u) =
                   params_get ''code_challenge_method''
                     (searchParams (flow_authorization_url flow))) \<and>
           (checks_include (before_nonce ch ?p1) Nonce \<longrightarrow>
              params_get ''nonce'' (searchParams u) = Some nonce') \<and>
           params_get ''redirect_uri'' (searchParams u) =
             (case params_get ''redirect_uri'' (searchParams (flow_authorization_url flow)) of
                None \<Rightarrow> Some (oidc_callback_page ?p1 request)
              | Some x \<Rightarrow> Some x)"
    using signIn_flow_returns [OF flow st pk no, of pf request]
    unfolding run proj_simps
    by blast
qed

text \<open>The amended C8 on the example providers: an OAuth login with the state check, and the first login of the OIDC provider.\<close>

theorem login_redirects_with_checks_witness:
  "parseURL test_platform (ep_url (ep_authorization (oa_endpoints test_state_provider))) =
     Some (test_url ''https://idp.example'' ''https://github.com/login/oauth/authorize'') \<and>
   State \<in> set (oa_checks test_state_provider) \<and>
   (\<exists>u. result (login test_platform test_checks (test_request Map.empty) test_state_provider) =
           Inr (redirect_response (urlToString test_platform u)
                  [test_cookie ''state'' ''enc(st-1)'']) \<and>
        params_get ''state'' (searchParams u) = Some ''st-1'' \<and>
        params_get ''redirect_uri'' (searchParams u) =
          Some ''https://app.example/auth/callback/github'') \<and>
   result (ensure_initialized test_platform test_oauth_library test_oidc_provider) = Inr () \<and>
   (\<exists>u. result (signIn test_platform test_oauth_library test_checks (test_request Map.empty)
                   test_oidc_provider) =
           Inr (redirect_response (urlToString test_platform u)
                  [test_cookie ''nonce'' ''enc(n-1)'']) \<and>
        params_get ''nonce'' (searchParams u) = Some ''n-1'' \<and>
        params_get ''code_challenge'' (searchParams u) = None)"
proof -
  let ?q = test_state_provider
  let ?url0 = "test_url ''https://idp.example'' ''https://github.com/login/oauth/authorize''"
  let ?rq = "test_request Map.empty"
  let ?p1 = "initialized_provider test_platform test_oauth_library test_oidc_provider"
  let ?flow = "\<lparr> flow_authorization_url =
              \<lparr> url_origin = ''https://idp.example'',
                url_base = ''https://accounts.google.com/authorize'',
                searchParams = [(''response_type'', ''code''), (''client_id'', ''abc'')] \<rparr>,
            flow_token_url = test_url ''https://idp.example'' ''https://accounts.google.com/token'',
            flow_token_conform = Some (\<lambda>response. Inr response),
            flow_userinfo_url = test_url ''https://idp.example'' placeholder_url \<rparr>"
  have p1: "?p1 = test_oidc_initialized"
    by (simp add: test_oidc_initialized_def)
  have parse: "parseURL test_platform (ep_url (ep_authorization (oa_endpoints ?q))) = Some ?url0"
    by (simp add: test_state_provider_fields test_platform_def)
  have ch: "State \<in> set (oa_checks ?q)" "Pkce \<notin> set (oa_checks ?q)" "Nonce \<notin> set (oa_checks ?q)"
    by (simp_all add: test_state_provider_fields)
  have st: "state_create test_checks ?q = Inr (''st-1'', test_cookie ''state'' ''enc(st-1)'')"
    by (simp add: test_checks_def)
  have tmpl: "params_get ''redirect_uri'' (searchParams (authorization_url_template ?q ?url0)) = None"
    by (simp add: authorization_url_template_def test_state_provider_fields
          set_string_params_def test_url_def, simp add: params_get_def)
  have page: "url_origin (req_url ?rq) @ pg_callback (oa_pages ?q) =
      ''https://app.example/auth/callback/github''"
    by (simp add: test_state_provider_fields test_request_def test_url_def)
  have oauth: "\<exists>u. result (login test_platform test_checks ?rq ?q) =
           Inr (redirect_response (urlToString test_platform u)
                  [test_cookie ''state'' ''enc(st-1)'']) \<and>
        params_get ''state'' (searchParams u) = Some ''st-1'' \<and>
        params_get ''redirect_uri'' (searchParams u) =
          Some ''https://app.example/auth/callback/github''"
    using parse ch st tmpl page
      login_redirects_with_checks [where pf = test_platform and q = ?q and parsed = ?url0
        and cha = test_checks and request = ?rq
        and state = "''st-1''" and stateCookie = "test_cookie ''state'' ''enc(st-1)''"
        and pkce = "''st-1''" and pkceCookie = "test_cookie ''state'' ''enc(st-1)''"
        and nonce = "''st-1''" and nonceCookie = "test_cookie ''state'' ''enc(st-1)''",
        THEN conjunct2, THEN conjunct2, THEN conjunct2, THEN conjunct1]
    by auto
  have no: "nonce_create test_checks (before_nonce test_checks ?p1) =
      Inr (''n-1'', test_cookie ''nonce'' ''enc(n-1)'')"
    by (simp add: test_checks_def)
  have nc: "checks_include (before_nonce test_checks ?p1) Nonce"
    by (simp add: p1 before_nonce_def before_pkce_def signIn_state_cases signIn_pkce_cases
          test_oidc_checks)
  have cc: "params_get ''code_challenge'' (searchParams (flow_authorization_url ?flow)) = None"
    by (simp add: params_get_def)
  have oidc: "\<exists>u. result (signIn test_platform test_oauth_library test_checks ?rq
                   test_oidc_provider) =
           Inr (redirect_response (urlToString test_platform u)
                  [test_cookie ''nonce'' ''enc(n-1)'']) \<and>
        params_get ''nonce'' (searchParams u) = Some ''n-1'' \<and>
        params_get ''code_challenge'' (searchParams u) = None"
    using test_ensure_initialized(2) test_oidc_flow [folded p1] test_oidc_checks [folded p1] no nc cc
      login_redirects_with_checks [where pf = test_platform and lib = test_oauth_library
        and p = test_oidc_provider and ch = test_checks and request = ?rq and flow = ?flow
        and state' = "''n-1''" and stateCookie' = "test_cookie ''nonce'' ''enc(n-1)''"
        and pkce' = "''n-1''" and pkceCookie' = "test_cookie ''nonce'' ''enc(n-1)''"
        and nonce' = "''n-1''" and nonceCookie' = "test_cookie ''nonce'' ''enc(n-1)''",
        THEN conjunct2, THEN conjunct2, THEN conjunct2, THEN conjunct2]
    by auto
  show ?thesis
    using parse ch(1) oauth test_ensure_initialized(2) oidc by blast
qed

text \<open>
  C6, as stated: two consecutive logins on the same provider find the same list of enabled
  checks. It fails on the code: the login of an OIDC provider whose authorization server
  does not list \<^verbatim>\<open>S256\<close> assigns \<^verbatim>\<open>['nonce']\<close> to \<^verbatim>\<open>this.config.checks\<close>, so the second
  login finds another list than the first.
\<close>

theorem signIn_replaces_checks:
  "initialized test_oidc_initialized \<and>
   cf_checks (config test_oidc_initialized) = Some [Pkce] \<and>
   cf_checks (config (after (signIn test_platform test_oauth_library test_checks
                              (test_request Map.empty) test_oidc_initialized))) = Some [Nonce]"
proof -
  let ?p = test_oidc_initialized
  let ?p2 = "?p\<lparr> config := (config ?p)\<lparr> cf_checks := Some [Nonce] \<rparr> \<rparr>"
  let ?rq = "test_request Map.empty"
  have init: "signIn test_platform test_oauth_library test_checks ?rq ?p =
        signIn_flow test_platform test_checks ?rq ?p"
    by (simp add: signIn_cases ensure_initialized_cases initialized_provider_def
          test_oidc_initialized_fields proc_eq [symmetric])
  have s1: "signIn_state test_checks ?p = (?p, [], Inr [])"
    by (simp add: signIn_state_cases test_oidc_checks)
  have s2: "signIn_pkce test_checks ?p = (?p2, [], Inr [])"
    by (simp add: signIn_pkce_cases test_oidc_checks)
  have s3: "signIn_nonce test_checks ?p2 =
      (flow_url_update (url_set ''nonce'' ''n-1'') ?p2, [CallNonceCreate],
       Inr [test_cookie ''nonce'' ''enc(n-1)''])"
    by (simp add: signIn_nonce_cases test_checks_def)
  have "cf_checks (config (after (signIn_flow test_platform test_checks ?rq ?p))) = Some [Nonce]"
    unfolding signIn_flow_def
    by (simp add: sbind_def test_oidc_flow s1 s2 s3)
  then show ?thesis
    using init test_oidc_initialized_fields(1,2) by simp
qed

text \<open>
  C6, amended: a login and a callback leave an OAuth provider as it was. On an OIDC
  provider, the lazy initialization runs only while the provider is not initialized, keeps
  everything the constructor stored from its arguments (it writes the authorization server,
  the flow and the flag) and, when it returns, leaves the provider initialized; a callback
  changes nothing after it; a login changes nothing after it but the authorization URL of
  the flow, about which nothing is said here, and the list of enabled checks, which it
  replaces by \<^verbatim>\<open>['nonce']\<close> when the pkce check is enabled and the authorization server does
  not list \<^verbatim>\<open>S256\<close>, and leaves as it was otherwise.
\<close>

theorem provider_state_after_requests:
  "after (login pf cha request q) = q \<and>
   after (callback lib cha request q) = q \<and>
   init_frame p (initialized_provider pf lib p) \<and>
   (initialized p \<longrightarrow> ensure_initialized pf lib p = (p, [], Inr ())) \<and>
   (result (ensure_initialized pf lib p) = Inr () \<longrightarrow>
      initialized (initialized_provider pf lib p)) \<and>
   after (oidc_callback pf lib ch request p) = initialized_provider pf lib p \<and>
   login_frame (initialized_provider pf lib p) (after (signIn pf lib ch request p))"
proof (intro conjI impI)
  show "after (login pf cha request q) = q"
    using login_unchanged [of pf cha request] by (simp add: maintains_def)
  show "after (callback lib cha request q) = q"
    using callback_unchanged [of lib cha request] by (simp add: maintains_def)
  show "init_frame p (initialized_provider pf lib p)"
    by (rule ensure_initialized_frame)
  show "after (oidc_callback pf lib ch request p) = initialized_provider pf lib p"
    using oidc_callback_checks_unchanged [of lib ch request]
    by (simp add: oidc_callback_cases maintains_def split: sum.splits)
  show "login_frame (initialized_provider pf lib p) (after (signIn pf lib ch request p))"
    using signIn_flow_frame [of pf ch request] reflpD [OF login_frame_refl]
    by (simp add: signIn_cases maintains_def split: sum.splits)
next
  assume "initialized p"
  then show "ensure_initialized pf lib p = (p, [], Inr ())"
    by (simp add: ensure_initialized_cases)
next
  assume "result (ensure_initialized pf lib p) = Inr ()"
  then show "initialized (initialized_provider pf lib p)"
    by (rule ensure_initialized_success)
qed

text \<open>The amended C6 on the example providers.\<close>

theorem provider_state_after_requests_witness:
  "initialized test_oidc_initialized \<and>
   ensure_initialized test_platform test_oauth_library test_oidc_initialized =
     (test_oidc_initialized, [], Inr ()) \<and>
   after (login test_platform test_checks (test_request Map.empty) test_state_provider) =
     test_state_provider \<and>
   authorizationServer (after (signIn test_platform test_oauth_library test_checks
       (test_request Map.empty) test_oidc_initialized)) =
     authorizationServer test_oidc_initialized \<and>
   client (after (signIn test_platform test_oauth_library test_checks
       (test_request Map.empty) test_oidc_initialized)) = client test_oidc_initialized"
proof -
  have i: "initialized test_oidc_initialized"
    by (rule test_oidc_initialized_fields(1))
  have e: "initialized_provider test_platform test_oauth_library test_oidc_initialized =
      test_oidc_initialized"
    using i by (simp add: initialized_provider_def ensure_initialized_cases)
  show ?thesis
    using i
      provider_state_after_requests [where pf = test_platform and lib = test_oauth_library
        and p = test_oidc_initialized and ch = test_checks and cha = test_checks
        and request = "test_request Map.empty" and q = test_state_provider]
    unfolding e login_frame_def
    by blast
qed


text \<open>
  The authorization URL cached in an OIDC provider keeps the parameters a login has set,
  the \<^verbatim>\<open>redirect_uri\<close> of that request among them, and the next login starts from them;
  \<^verbatim>\<open>OAuthProvider.login\<close> builds a new URL for every request.
\<close>

lemma signIn_writes_cached_url:
  "map_option (\<lambda>flow. searchParams (flow_authorization_url flow))
     (oauthFlow test_oidc_initialized) =
     Some [(''response_type'', ''code''), (''client_id'', ''abc'')] \<and>
   map_option (\<lambda>flow. searchParams (flow_authorization_url flow))
     (oauthFlow (after (signIn test_platform test_oauth_library test_checks
                          (test_request Map.empty) test_oidc_initialized))) =
     Some [(''response_type'', ''code''), (''client_id'', ''abc''), (''nonce'', ''n-1''),
           (''redirect_uri'', ''https://app.example/auth/callback/google''),
           (''scope'', ''openid profile email'')]"
proof -
  let ?p = test_oidc_initialized
  let ?p2 = "?p\<lparr> config := (config ?p)\<lparr> cf_checks := Some [Nonce] \<rparr> \<rparr>"
  let ?rq = "test_request Map.empty"
  have init: "signIn test_platform test_oauth_library test_checks ?rq ?p =
        signIn_flow test_platform test_checks ?rq ?p"
    by (simp add: signIn_cases ensure_initialized_cases initialized_provider_def
          test_oidc_initialized_fields proc_eq [symmetric])
  have s1: "signIn_state test_checks ?p = (?p, [], Inr [])"
    by (simp add: signIn_state_cases test_oidc_checks)
  have s2: "signIn_pkce test_checks ?p = (?p2, [], Inr [])"
    by (simp add: signIn_pkce_cases test_oidc_checks)
  have s3: "signIn_nonce test_checks ?p2 =
      (flow_url_update (url_set ''nonce'' ''n-1'') ?p2, [CallNonceCreate],
       Inr [test_cookie ''nonce'' ''enc(n-1)''])"
    by (simp add: signIn_nonce_cases test_checks_def)
  have page: "oidc_callback_page ?p ?rq = ''https://app.example/auth/callback/google''"
    by (simp add: oidc_callback_page_def test_oidc_initialized_fields test_request_def
          test_url_def)
  have url: "searchParams
       (set_scope (set_redirect_uri ''https://app.example/auth/callback/google''
          (url_set ''nonce'' ''n-1''
             \<lparr> url_origin = ''https://idp.example'',
               url_base = ''https://accounts.google.com/authorize'',
               searchParams = [(''response_type'', ''code''), (''client_id'', ''abc'')] \<rparr>))) =
     [(''response_type'', ''code''), (''client_id'', ''abc''), (''nonce'', ''n-1''),
      (''redirect_uri'', ''https://app.example/auth/callback/google''),
      (''scope'', ''openid profile email'')]"
    by (simp add: set_redirect_uri_def set_scope_def params_has_def url_set_def)
  have "map_option (\<lambda>flow. searchParams (flow_authorization_url flow))
     (oauthFlow (after (signIn_flow test_platform test_checks ?rq ?p))) =
     Some [(''response_type'', ''code''), (''client_id'', ''abc''), (''nonce'', ''n-1''),
           (''redirect_uri'', ''https://app.example/auth/callback/google''),
           (''scope'', ''openid profile email'')]"
    unfolding signIn_flow_def
    by (simp add: sbind_def test_oidc_flow s1 s2 s3 page url)
  then show ?thesis
    using init by (simp add: test_oidc_flow)
qed




end
